theory Spec2Isabelle
  imports Complex_Main
begin

section \<open>SmartTrainer analysis engine\<close>

text \<open>
  A shallow embedding of the TypeScript analysis engine: the repetition state machine
  (\<^verbatim>\<open>RepCounter\<close>), the angle primitive, the exercise classifier, the exercise
  analyzers and the orchestrator (\<^verbatim>\<open>GeometricRuleEngine\<close>).

  Numbers. A JavaScript \<^verbatim>\<open>number\<close> is modelled as a \<^typ>\<open>real\<close>: comparisons and
  arithmetic are exact, there is no rounding, no NaN, no infinity and no signed zero.
  The angle primitive is given a second time with every operation rounded to double
  precision, and its properties are proved of that function.
  Counters that the code only ever increments from zero are \<^typ>\<open>nat\<close>.

  Time. \<^verbatim>\<open>Date.now()\<close> is an input: every function that reads the wall clock takes
  the reading as its argument \<open>clock\<close>.

  Effects. A method that mutates its object takes the object and returns the new one;
  a method that can throw returns \<open>Inl\<close> of the error together with the object as the
  mutations before the throw left it.
\<close>

subsection \<open>RepCounter\<close>

datatype RepPhase = Rest | Eccentric | Bottom | Concentric | Top

datatype CountMode = EccentricFirst | ConcentricFirst

record RepTimestamp =
  start :: real
  mid :: real
  end_ms :: real

record RepCounter =
  count :: nat
  currentPhase :: RepPhase
  lastPhaseTimestamp :: real
  thresholdHigh :: real
  thresholdLow :: real
  mode :: CountMode
  repTimestamps :: "RepTimestamp list"
  currentRepStartTime :: "real option"
  currentRepMidTime :: "real option"
  recordingStartTime :: real

text \<open>The constructor: the field initialisers, then the options that are given.\<close>

definition newRepCounter :: "CountMode option \<Rightarrow> real option \<Rightarrow> real option \<Rightarrow> RepCounter" where
  "newRepCounter optMode optHigh optLow =
     \<lparr> count = 0, currentPhase = Rest, lastPhaseTimestamp = 0,
       thresholdHigh = (case optHigh of None \<Rightarrow> 0.55 | Some h \<Rightarrow> h),
       thresholdLow = (case optLow of None \<Rightarrow> 0.35 | Some l \<Rightarrow> l),
       mode = (case optMode of None \<Rightarrow> EccentricFirst | Some m \<Rightarrow> m),
       repTimestamps = [], currentRepStartTime = None, currentRepMidTime = None,
       recordingStartTime = 0 \<rparr>"

definition setRecordingStartTime :: "real \<Rightarrow> RepCounter \<Rightarrow> RepCounter" where
  "setRecordingStartTime time rc = rc\<lparr>recordingStartTime := time\<rparr>"

text \<open>
  \<^verbatim>\<open>this.currentRepMidTime || currentMs\<close>: JavaScript's \<^verbatim>\<open>||\<close> takes the right operand
  when the left one is falsy, which for a \<^verbatim>\<open>number | null\<close> is \<^verbatim>\<open>null\<close> and also \<^verbatim>\<open>0\<close>.
\<close>

definition orElse :: "real option \<Rightarrow> real \<Rightarrow> real" where
  "orElse v d = (case v of None \<Rightarrow> d | Some m \<Rightarrow> if m = 0 then d else m)"

text \<open>The block run when a repetition completes (the same text in both modes).\<close>

definition recordRep :: "real \<Rightarrow> RepCounter \<Rightarrow> RepCounter" where
  "recordRep currentMs rc =
     (case currentRepStartTime rc of
        None \<Rightarrow> rc
      | Some s \<Rightarrow>
          rc\<lparr> repTimestamps := repTimestamps rc @
                 [\<lparr> start = s, mid = orElse (currentRepMidTime rc) currentMs, end_ms = currentMs \<rparr>],
              currentRepStartTime := None,
              currentRepMidTime := None \<rparr>)"

text \<open>
  \<^verbatim>\<open>update(completion, timestamp?)\<close>. \<open>timestamp\<close> is \<open>None\<close> when the caller omits it,
  and then \<^verbatim>\<open>timestamp ?? Date.now()\<close> reads the clock.
\<close>

definition update :: "real \<Rightarrow> real option \<Rightarrow> real \<Rightarrow> RepCounter \<Rightarrow> RepCounter" where
  "update completion timestamp clock rc =
     (let now = (case timestamp of None \<Rightarrow> clock | Some t \<Rightarrow> t);
          currentMs = now - recordingStartTime rc
      in if mode rc = EccentricFirst then
           (case currentPhase rc of
              Rest \<Rightarrow>
                if completion > thresholdLow rc then
                  rc\<lparr> currentPhase := Eccentric,
                      currentRepStartTime :=
                        (if currentRepStartTime rc = None then Some currentMs
                         else currentRepStartTime rc) \<rparr>
                else rc
            | Top \<Rightarrow>
                if completion > thresholdLow rc then
                  rc\<lparr> currentPhase := Eccentric,
                      currentRepStartTime :=
                        (if currentRepStartTime rc = None then Some currentMs
                         else currentRepStartTime rc) \<rparr>
                else rc
            | Eccentric \<Rightarrow>
                if completion \<ge> thresholdHigh rc then
                  rc\<lparr> currentPhase := Bottom, lastPhaseTimestamp := now,
                      currentRepMidTime := Some currentMs \<rparr>
                else if completion < thresholdLow rc then
                  rc\<lparr> currentPhase := Top, currentRepStartTime := None,
                      currentRepMidTime := None \<rparr>
                else rc
            | Bottom \<Rightarrow>
                if completion < thresholdHigh rc - 0.1 then rc\<lparr> currentPhase := Concentric \<rparr>
                else rc
            | Concentric \<Rightarrow>
                if completion \<le> thresholdLow rc then
                  recordRep currentMs
                    (rc\<lparr> count := count rc + 1, currentPhase := Top, lastPhaseTimestamp := now \<rparr>)
                else if completion > thresholdHigh rc then rc\<lparr> currentPhase := Bottom \<rparr>
                else rc)
         else
           (case currentPhase rc of
              Rest \<Rightarrow>
                if completion > thresholdLow rc then
                  rc\<lparr> currentPhase := Concentric,
                      currentRepStartTime :=
                        (if currentRepStartTime rc = None then Some currentMs
                         else currentRepStartTime rc) \<rparr>
                else rc
            | Bottom \<Rightarrow>
                if completion > thresholdLow rc then
                  rc\<lparr> currentPhase := Concentric,
                      currentRepStartTime :=
                        (if currentRepStartTime rc = None then Some currentMs
                         else currentRepStartTime rc) \<rparr>
                else rc
            | Concentric \<Rightarrow>
                if completion \<ge> thresholdHigh rc then
                  rc\<lparr> currentPhase := Top, lastPhaseTimestamp := now,
                      currentRepMidTime := Some currentMs \<rparr>
                else if completion < thresholdLow rc then
                  rc\<lparr> currentPhase := Bottom, currentRepStartTime := None,
                      currentRepMidTime := None \<rparr>
                else rc
            | Top \<Rightarrow>
                if completion < thresholdHigh rc - 0.1 then rc\<lparr> currentPhase := Eccentric \<rparr>
                else rc
            | Eccentric \<Rightarrow>
                if completion \<le> thresholdLow rc then
                  recordRep currentMs
                    (rc\<lparr> count := count rc + 1, currentPhase := Bottom, lastPhaseTimestamp := now \<rparr>)
                else if completion > thresholdHigh rc then rc\<lparr> currentPhase := Top \<rparr>
                else rc))"

text \<open>The value \<^verbatim>\<open>update\<close> returns: \<^verbatim>\<open>{ count: this.count, phase: this.currentPhase }\<close>.\<close>

definition repState :: "RepCounter \<Rightarrow> nat \<times> RepPhase" where
  "repState rc = (count rc, currentPhase rc)"

definition reset :: "RepCounter \<Rightarrow> RepCounter" where
  "reset rc = rc\<lparr> count := 0, currentPhase := Rest, repTimestamps := [],
                  currentRepStartTime := None, currentRepMidTime := None \<rparr>"

text \<open>
  Feeding a sequence of samples, one \<^verbatim>\<open>update\<close> call each: the completion value, the
  timestamp argument (\<open>None\<close> when omitted) and the clock reading at the call.
\<close>

fun updates :: "(real \<times> real option \<times> real) list \<Rightarrow> RepCounter \<Rightarrow> RepCounter" where
  "updates [] rc = rc"
| "updates ((c, ts, clock) # cs) rc = updates cs (update c ts clock rc)"

text \<open>
  The transition table of the specification, as a relation on phases: the edges of the
  cycle in each mode, and the one edge that completes a repetition.
\<close>

fun phaseStep :: "CountMode \<Rightarrow> RepPhase \<Rightarrow> RepPhase \<Rightarrow> bool" where
  "phaseStep EccentricFirst Rest Eccentric = True"
| "phaseStep EccentricFirst Top Eccentric = True"
| "phaseStep EccentricFirst Eccentric Bottom = True"
| "phaseStep EccentricFirst Eccentric Top = True"
| "phaseStep EccentricFirst Bottom Concentric = True"
| "phaseStep EccentricFirst Concentric Top = True"
| "phaseStep EccentricFirst Concentric Bottom = True"
| "phaseStep ConcentricFirst Rest Concentric = True"
| "phaseStep ConcentricFirst Bottom Concentric = True"
| "phaseStep ConcentricFirst Concentric Top = True"
| "phaseStep ConcentricFirst Concentric Bottom = True"
| "phaseStep ConcentricFirst Top Eccentric = True"
| "phaseStep ConcentricFirst Eccentric Bottom = True"
| "phaseStep ConcentricFirst Eccentric Top = True"
| "phaseStep _ _ _ = False"

text \<open>The least number of \<^verbatim>\<open>update\<close> calls after which the count can have grown.\<close>

fun callsToCount :: "CountMode \<Rightarrow> RepPhase \<Rightarrow> nat" where
  "callsToCount EccentricFirst Rest = 4"
| "callsToCount EccentricFirst Top = 4"
| "callsToCount EccentricFirst Eccentric = 3"
| "callsToCount EccentricFirst Bottom = 2"
| "callsToCount EccentricFirst Concentric = 1"
| "callsToCount ConcentricFirst Rest = 4"
| "callsToCount ConcentricFirst Bottom = 4"
| "callsToCount ConcentricFirst Concentric = 3"
| "callsToCount ConcentricFirst Top = 2"
| "callsToCount ConcentricFirst Eccentric = 1"


subsection \<open>Landmarks and the angle primitive\<close>

record PoseLandmark =
  px :: real
  py :: real
  pz :: real
  visibility :: real

text \<open>
  The exact two-argument arctangent: the angle of the vector \<open>(x, y)\<close> in \<open>(-\<pi>, \<pi>]\<close>,
  and 0 for the zero vector, as ECMAScript returns for \<^verbatim>\<open>Math.atan2(0, 0)\<close>.
\<close>

definition atan2 :: "real \<Rightarrow> real \<Rightarrow> real" where
  "atan2 b a =
     (if a > 0 then arctan (b / a)
      else if a < 0 then (if b \<ge> 0 then arctan (b / a) + pi else arctan (b / a) - pi)
      else if b > 0 then pi / 2
      else if b < 0 then - (pi / 2)
      else 0)"

text \<open>
  \<^verbatim>\<open>calculateAngle(a, b, c)\<close>: the same text in \<^verbatim>\<open>ExerciseAnalyzer\<close>,
  \<^verbatim>\<open>BiomechanicalAnalyzer\<close> and the classifier module. This is its reading in exact
  arithmetic, which the analyzers and the classifier below are built on; the reading with
  every operation rounded to double precision is \<open>calculateAngle_double\<close>.
\<close>

definition calculateAngle :: "PoseLandmark \<Rightarrow> PoseLandmark \<Rightarrow> PoseLandmark \<Rightarrow> real" where
  "calculateAngle a b c =
     (let radians = atan2 (py c - py b) (px c - px b) - atan2 (py a - py b) (px a - px b);
          angle = \<bar>(radians * 180.0) / pi\<bar>
      in if angle > 180.0 then 360 - angle else angle)"

text \<open>A landmark at a point of the image plane, for concrete frames.\<close>

definition pt :: "real \<Rightarrow> real \<Rightarrow> PoseLandmark" where
  "pt a b = \<lparr> px = a, py = b, pz = 0, visibility = 1 \<rparr>"

subsection \<open>The angle primitive in double precision\<close>

text \<open>
  The numbers of the program are IEEE 754 binary64 values, and every arithmetic operation
  returns the exact result rounded to the nearest such value, ties to the even
  significand. \<open>rne\<close> rounds a real to the nearest integer, ties to even;
  \<open>ulpExponent x\<close> is the exponent of the unit in the last place of the binade of \<open>x\<close>
  (53-bit significands, the subnormal values included); \<open>fl\<close> is the rounding. Values
  beyond the binary64 range (\<^verbatim>\<open>Infinity\<close>), \<^verbatim>\<open>NaN\<close> and the sign of zero are not
  represented.
\<close>

definition rne :: "real \<Rightarrow> int" where
  "rne x =
     (if x - of_int \<lfloor>x\<rfloor> < 1 / 2 then \<lfloor>x\<rfloor>
      else if x - of_int \<lfloor>x\<rfloor> > 1 / 2 then \<lfloor>x\<rfloor> + 1
      else if even \<lfloor>x\<rfloor> then \<lfloor>x\<rfloor> else \<lfloor>x\<rfloor> + 1)"

definition ulpExponent :: "real \<Rightarrow> int" where
  "ulpExponent x = max (\<lfloor>log 2 \<bar>x\<bar>\<rfloor> - 52) (- 1074)"

definition fl :: "real \<Rightarrow> real" where
  "fl x = (if x = 0 then 0
           else of_int (rne (x / 2 powi ulpExponent x)) * 2 powi ulpExponent x)"

text \<open>The reals that rounding leaves as they are; every finite binary64 value is one.\<close>

definition isDouble :: "real \<Rightarrow> bool" where
  "isDouble x \<longleftrightarrow> fl x = x"


definition Math_atan2 :: "real \<Rightarrow> real \<Rightarrow> real" where
  "Math_atan2 y x = fl (atan2 y x)"



subsection \<open>Exercise types\<close>

datatype ExerciseType =
    BarbellBicepsCurl | BenchPress | ChestFlyMachine
  | InclineBenchPress
  | LatPulldown | LateralRaises | LegExtension | LegRaises
  | Plank | PullUp | PushUp | RussianTwist
  | Squat | TBarRow | TricepDips | AutoDetect

text \<open>The string each value of the TypeScript union is.\<close>

fun exerciseString :: "ExerciseType \<Rightarrow> string" where
  "exerciseString BarbellBicepsCurl = ''Barbell Biceps Curl''"
| "exerciseString BenchPress = ''Bench Press''"
| "exerciseString ChestFlyMachine = ''Chest Fly Machine''"
| "exerciseString InclineBenchPress = ''Incline Bench Press''"
| "exerciseString LatPulldown = ''Lat Pulldown''"
| "exerciseString LateralRaises = ''Lateral Raises''"
| "exerciseString LegExtension = ''Leg Extension''"
| "exerciseString LegRaises = ''Leg Raises''"
| "exerciseString Plank = ''Plank''"
| "exerciseString PullUp = ''Pull Up''"
| "exerciseString PushUp = ''Push Up''"
| "exerciseString RussianTwist = ''Russian Twist''"
| "exerciseString Squat = ''Squat''"
| "exerciseString TBarRow = ''T-Bar Row''"
| "exerciseString TricepDips = ''Tricep Dips''"
| "exerciseString AutoDetect = ''Auto-Detect''"

subsection \<open>The exercise classifier\<close>

text \<open>
  \<^verbatim>\<open>classifyExercise\<close> binds its measurements with \<^verbatim>\<open>const\<close> and then runs a cascade
  of rules; every \<^verbatim>\<open>const\<close> is a definition of the same name here, a function of the
  landmarks \<open>lm\<close>. The length guard comes first in \<open>classifyExercise\<close>, so the
  measurements are only ever evaluated on at least 33 landmarks, where every index
  they read (at most 28) is in range.
\<close>

definition shoulderY :: "PoseLandmark list \<Rightarrow> real" where
  "shoulderY lm = (py (lm ! 11) + py (lm ! 12)) / 2"

definition hipY :: "PoseLandmark list \<Rightarrow> real" where
  "hipY lm = (py (lm ! 23) + py (lm ! 24)) / 2"

definition wristY :: "PoseLandmark list \<Rightarrow> real" where
  "wristY lm = (py (lm ! 15) + py (lm ! 16)) / 2"

definition kneeY :: "PoseLandmark list \<Rightarrow> real" where
  "kneeY lm = (py (lm ! 25) + py (lm ! 26)) / 2"

definition ankleY :: "PoseLandmark list \<Rightarrow> real" where
  "ankleY lm = (py (lm ! 27) + py (lm ! 28)) / 2"

definition noseY :: "PoseLandmark list \<Rightarrow> real" where
  "noseY lm = py (lm ! 0)"

definition shoulderX :: "PoseLandmark list \<Rightarrow> real" where
  "shoulderX lm = (px (lm ! 11) + px (lm ! 12)) / 2"

definition hipX :: "PoseLandmark list \<Rightarrow> real" where
  "hipX lm = (px (lm ! 23) + px (lm ! 24)) / 2"

definition ankleX :: "PoseLandmark list \<Rightarrow> real" where
  "ankleX lm = (px (lm ! 27) + px (lm ! 28)) / 2"

definition wristX :: "PoseLandmark list \<Rightarrow> real" where
  "wristX lm = (px (lm ! 15) + px (lm ! 16)) / 2"

definition torsoHeight :: "PoseLandmark list \<Rightarrow> real" where
  "torsoHeight lm = \<bar>shoulderY lm - hipY lm\<bar>"

definition verticalDiff :: "PoseLandmark list \<Rightarrow> real" where
  "verticalDiff lm = torsoHeight lm"

definition horizontalDiff :: "PoseLandmark list \<Rightarrow> real" where
  "horizontalDiff lm = \<bar>shoulderX lm - hipX lm\<bar>"

definition reclineRatio :: "PoseLandmark list \<Rightarrow> real" where
  "reclineRatio lm = horizontalDiff lm / max 0.001 (verticalDiff lm)"

definition reclineAngleDeg :: "PoseLandmark list \<Rightarrow> real" where
  "reclineAngleDeg lm = arctan (reclineRatio lm) * 180 / pi"

definition upright :: "PoseLandmark list \<Rightarrow> bool" where
  "upright lm = (shoulderY lm < hipY lm)"

definition isStanding :: "PoseLandmark list \<Rightarrow> bool" where
  "isStanding lm = (upright lm \<and> verticalDiff lm > horizontalDiff lm * 0.5)"

definition isLying :: "PoseLandmark list \<Rightarrow> bool" where
  "isLying lm = (horizontalDiff lm > verticalDiff lm * 0.7)"

definition getAvgAngle ::
  "PoseLandmark list \<Rightarrow> nat \<Rightarrow> nat \<Rightarrow> nat \<Rightarrow> nat \<Rightarrow> nat \<Rightarrow> nat \<Rightarrow> real" where
  "getAvgAngle lm a1 b1 c1 a2 b2 c2 =
     (calculateAngle (lm ! a1) (lm ! b1) (lm ! c1) + calculateAngle (lm ! a2) (lm ! b2) (lm ! c2)) / 2"

definition elbowAngle :: "PoseLandmark list \<Rightarrow> real" where
  "elbowAngle lm = getAvgAngle lm 11 13 15 12 14 16"

definition hipAngle :: "PoseLandmark list \<Rightarrow> real" where
  "hipAngle lm = getAvgAngle lm 11 23 25 12 24 26"

definition kneeAngle :: "PoseLandmark list \<Rightarrow> real" where
  "kneeAngle lm = getAvgAngle lm 23 25 27 24 26 28"

definition feetOnFloor :: "PoseLandmark list \<Rightarrow> bool" where
  "feetOnFloor lm = (ankleY lm > 0.72)"

definition handsOverhead :: "PoseLandmark list \<Rightarrow> bool" where
  "handsOverhead lm = (wristY lm < noseY lm \<or> wristY lm < shoulderY lm - 0.15)"

definition wristTorsoDistanceX :: "PoseLandmark list \<Rightarrow> real" where
  "wristTorsoDistanceX lm = \<bar>wristX lm - shoulderX lm\<bar>"

definition elbowWidth :: "PoseLandmark list \<Rightarrow> real" where
  "elbowWidth lm = \<bar>px (lm ! 13) - px (lm ! 14)\<bar>"

definition wristWidth :: "PoseLandmark list \<Rightarrow> real" where
  "wristWidth lm = \<bar>px (lm ! 15) - px (lm ! 16)\<bar>"

definition elbowsTucked :: "PoseLandmark list \<Rightarrow> bool" where
  "elbowsTucked lm = (elbowWidth lm < torsoHeight lm * 1.0)"

text \<open>The global T-Bar Row check.\<close>

definition bodyStraightness :: "PoseLandmark list \<Rightarrow> real" where
  "bodyStraightness lm = \<bar>180 - hipAngle lm\<bar>"

definition legStraightness :: "PoseLandmark list \<Rightarrow> real" where
  "legStraightness lm = \<bar>180 - kneeAngle lm\<bar>"

definition bodyDy :: "PoseLandmark list \<Rightarrow> real" where
  "bodyDy lm = \<bar>shoulderY lm - ankleY lm\<bar>"

definition bodyDx :: "PoseLandmark list \<Rightarrow> real" where
  "bodyDx lm = \<bar>shoulderX lm - ankleX lm\<bar>"

definition bodyInclinationDeg :: "PoseLandmark list \<Rightarrow> real" where
  "bodyInclinationDeg lm = atan2 (bodyDx lm) (bodyDy lm) * (180 / pi)"

definition isBodyStraight :: "PoseLandmark list \<Rightarrow> bool" where
  "isBodyStraight lm = (bodyStraightness lm < 30 \<and> legStraightness lm < 30)"

definition isInclinedHypotenuse :: "PoseLandmark list \<Rightarrow> bool" where
  "isInclinedHypotenuse lm = (bodyInclinationDeg lm > 20 \<and> bodyInclinationDeg lm < 80)"

definition handsAreLow :: "PoseLandmark list \<Rightarrow> bool" where
  "handsAreLow lm = (wristY lm > shoulderY lm)"

definition torsoInclined :: "PoseLandmark list \<Rightarrow> bool" where
  "torsoInclined lm = (\<bar>shoulderX lm - hipX lm\<bar> > \<bar>shoulderY lm - hipY lm\<bar> * 0.3)"

definition isHinging :: "PoseLandmark list \<Rightarrow> bool" where
  "isHinging lm = (bodyStraightness lm > 30)"

definition kneesBentRange :: "PoseLandmark list \<Rightarrow> bool" where
  "kneesBentRange lm = (kneeAngle lm < 165 \<and> kneeAngle lm > 70)"

text \<open>The global Russian Twist check.\<close>

definition hipCenterX :: "PoseLandmark list \<Rightarrow> real" where
  "hipCenterX lm = hipX lm"

definition wristCenterX :: "PoseLandmark list \<Rightarrow> real" where
  "wristCenterX lm = wristX lm"

definition handsOffsetFromHips :: "PoseLandmark list \<Rightarrow> real" where
  "handsOffsetFromHips lm = \<bar>wristCenterX lm - hipCenterX lm\<bar>"

definition isHandsToOneSide :: "PoseLandmark list \<Rightarrow> bool" where
  "isHandsToOneSide lm = (handsOffsetFromHips lm > torsoHeight lm * 0.1)"

definition isReclined :: "PoseLandmark list \<Rightarrow> bool" where
  "isReclined lm = (reclineAngleDeg lm > 10 \<and> reclineAngleDeg lm < 80)"

definition kneesBentForTwist :: "PoseLandmark list \<Rightarrow> bool" where
  "kneesBentForTwist lm = (kneeAngle lm < 150)"

definition handsAtTorsoLevel :: "PoseLandmark list \<Rightarrow> bool" where
  "handsAtTorsoLevel lm = (wristY lm < hipY lm + 0.2 \<and> wristY lm > shoulderY lm - 0.15)"

definition isVSitPosture :: "PoseLandmark list \<Rightarrow> bool" where
  "isVSitPosture lm = (shoulderY lm < hipY lm)"

text \<open>Chest Fly Machine.\<close>

definition thighIsHorizontalCF :: "PoseLandmark list \<Rightarrow> bool" where
  "thighIsHorizontalCF lm = (\<bar>kneeY lm - hipY lm\<bar> < torsoHeight lm * 0.25)"

definition isSeatedCF :: "PoseLandmark list \<Rightarrow> bool" where
  "isSeatedCF lm = (kneeAngle lm < 155 \<and> hipAngle lm < 150 \<and> thighIsHorizontalCF lm)"

definition isWideArmSpan :: "PoseLandmark list \<Rightarrow> bool" where
  "isWideArmSpan lm = (elbowWidth lm > torsoHeight lm * 1.0 \<or> wristWidth lm > torsoHeight lm * 0.9)"

definition isWideSpanSideView :: "PoseLandmark list \<Rightarrow> bool" where
  "isWideSpanSideView lm = (wristTorsoDistanceX lm > torsoHeight lm * 0.4)"

definition handsBelowShoulders :: "PoseLandmark list \<Rightarrow> bool" where
  "handsBelowShoulders lm = (wristY lm > shoulderY lm - 0.05)"

definition handsAboveHips :: "PoseLandmark list \<Rightarrow> bool" where
  "handsAboveHips lm = (wristY lm < hipY lm - (torsoHeight lm * 0.1))"

definition handsInChestZone :: "PoseLandmark list \<Rightarrow> bool" where
  "handsInChestZone lm = (handsBelowShoulders lm \<and> handsAboveHips lm)"

text \<open>The standing branch.\<close>

definition isBentOverHighKnee :: "PoseLandmark list \<Rightarrow> bool" where
  "isBentOverHighKnee lm = (kneeAngle lm < 150 \<and> wristY lm > hipY lm)"

definition thighIsHorizontal :: "PoseLandmark list \<Rightarrow> bool" where
  "thighIsHorizontal lm = (\<bar>kneeY lm - hipY lm\<bar> < torsoHeight lm * 0.25)"

definition handsAtSides :: "PoseLandmark list \<Rightarrow> bool" where
  "handsAtSides lm = (wristTorsoDistanceX lm < torsoHeight lm * 0.45)"

definition handsNearSeat :: "PoseLandmark list \<Rightarrow> bool" where
  "handsNearSeat lm = (\<bar>wristY lm - hipY lm\<bar> < torsoHeight lm * 0.4)"

definition hipFlexedLE :: "PoseLandmark list \<Rightarrow> bool" where
  "hipFlexedLE lm = (hipAngle lm < 160)"

definition notVSit :: "PoseLandmark list \<Rightarrow> bool" where
  "notVSit lm = (shoulderY lm \<ge> hipY lm - 0.05)"

definition feetVisible :: "PoseLandmark list \<Rightarrow> bool" where
  "feetVisible lm = (visibility (lm ! 27) > 0.5)"

definition handsInDipZone :: "PoseLandmark list \<Rightarrow> bool" where
  "handsInDipZone lm = (wristY lm > shoulderY lm - 0.1 \<and> wristY lm < hipY lm + 0.2)"

definition wristsElevated :: "PoseLandmark list \<Rightarrow> bool" where
  "wristsElevated lm = (wristY lm < shoulderY lm + 0.15)"

definition wristsNearShoulders :: "PoseLandmark list \<Rightarrow> bool" where
  "wristsNearShoulders lm = (\<bar>wristY lm - shoulderY lm\<bar> < 0.2)"

definition isDeepSquat :: "PoseLandmark list \<Rightarrow> bool" where
  "isDeepSquat lm = (kneeAngle lm < 120 \<and> hipAngle lm < 120)"

definition elbowsLow :: "PoseLandmark list \<Rightarrow> bool" where
  "elbowsLow lm = ((py (lm ! 13) + py (lm ! 14)) / 2 > shoulderY lm + 0.05)"

definition isLegMoving :: "PoseLandmark list \<Rightarrow> bool" where
  "isLegMoving lm = (kneeAngle lm < 160 \<or> hipAngle lm < 160)"

definition legsStraightish :: "PoseLandmark list \<Rightarrow> bool" where
  "legsStraightish lm = (\<not> isLegMoving lm)"

definition wristNearHips :: "PoseLandmark list \<Rightarrow> bool" where
  "wristNearHips lm = (\<bar>wristY lm - hipY lm\<bar> < 0.25)"

definition elbowsLocked :: "PoseLandmark list \<Rightarrow> bool" where
  "elbowsLocked lm = (elbowAngle lm > 150)"

definition ankleAboveKnee :: "PoseLandmark list \<Rightarrow> bool" where
  "ankleAboveKnee lm = (ankleY lm < kneeY lm - 0.05)"

definition hipFlexed :: "PoseLandmark list \<Rightarrow> bool" where
  "hipFlexed lm = (hipAngle lm < 155)"

definition isStandingStraight :: "PoseLandmark list \<Rightarrow> bool" where
  "isStandingStraight lm = (kneeAngle lm > 165 \<and> hipAngle lm > 165)"

definition handsBelowShouldersLR :: "PoseLandmark list \<Rightarrow> bool" where
  "handsBelowShouldersLR lm = (wristY lm > shoulderY lm - 0.05)"

definition isWideArc :: "PoseLandmark list \<Rightarrow> bool" where
  "isWideArc lm = (wristWidth lm > elbowWidth lm * 1.2)"

definition armIsExtendedLR :: "PoseLandmark list \<Rightarrow> bool" where
  "armIsExtendedLR lm =
     ((wristWidth lm > torsoHeight lm * 0.7 \<or> wristTorsoDistanceX lm > torsoHeight lm * 0.35)
      \<and> isWideArc lm)"

definition armIsExtendedOut :: "PoseLandmark list \<Rightarrow> bool" where
  "armIsExtendedOut lm = (wristTorsoDistanceX lm > 0.15)"

definition anklesBelowKnees :: "PoseLandmark list \<Rightarrow> bool" where
  "anklesBelowKnees lm = (ankleY lm > kneeY lm + 0.05)"

definition isSeatedOnMachine :: "PoseLandmark list \<Rightarrow> bool" where
  "isSeatedOnMachine lm =
     ((hipAngle lm < 135 \<or> (thighIsHorizontal lm \<and> anklesBelowKnees lm))
      \<and> (feetOnFloor lm \<or> thighIsHorizontal lm))"

definition handsAboveShoulders :: "PoseLandmark list \<Rightarrow> bool" where
  "handsAboveShoulders lm = (wristY lm < shoulderY lm - 0.05)"

definition avgShoulderFlexion :: "PoseLandmark list \<Rightarrow> real" where
  "avgShoulderFlexion lm =
     (calculateAngle (lm ! 23) (lm ! 11) (lm ! 15) + calculateAngle (lm ! 24) (lm ! 12) (lm ! 16)) / 2"

text \<open>The body of \<^verbatim>\<open>if (handsOverhead) { ... }\<close>; \<open>None\<close> is falling out of the block.\<close>

definition overheadRules :: "PoseLandmark list \<Rightarrow> ExerciseType option" where
  "overheadRules lm =
     (if armIsExtendedOut lm \<and> \<not> elbowsTucked lm \<and> (feetOnFloor lm \<or> hipAngle lm > 160)
        then Some LateralRaises
      else if reclineAngleDeg lm \<ge> 25 \<and> reclineAngleDeg lm \<le> 65 \<and> avgShoulderFlexion lm < 160
              \<and> handsAboveShoulders lm
        then Some InclineBenchPress
      else if isSeatedOnMachine lm \<and> handsAboveShoulders lm then Some LatPulldown
      else if handsAboveShoulders lm \<and> \<not> isSeatedOnMachine lm \<and> \<not> feetOnFloor lm then Some PullUp
      else None)"

text \<open>The body of \<^verbatim>\<open>if (isStanding) { ... return null; }\<close>.\<close>

definition standingRules :: "PoseLandmark list \<Rightarrow> ExerciseType option" where
  "standingRules lm =
     (if (torsoInclined lm \<or> isBentOverHighKnee lm) \<and> wristY lm > shoulderY lm
           \<and> kneeY lm > hipY lm + 0.1 \<and> kneeAngle lm > 90
        then Some TBarRow
      else if torsoInclined lm \<and> hipFlexedLE lm \<and> thighIsHorizontal lm \<and> handsNearSeat lm
              \<and> handsAtSides lm \<and> feetOnFloor lm \<and> notVSit lm
        then Some LegExtension
      else if handsInDipZone lm \<and> feetVisible lm \<and> \<not> feetOnFloor lm then Some TricepDips
      else if handsInDipZone lm \<and> \<not> torsoInclined lm \<and> kneeAngle lm < 150 \<and> elbowsTucked lm
        then Some TricepDips
      else if torsoInclined lm \<and> kneeAngle lm < 140 \<and> hipAngle lm < 150
              \<and> (wristsElevated lm \<or> wristsNearShoulders lm) \<and> feetOnFloor lm
        then Some Squat
      else if isDeepSquat lm \<and> feetOnFloor lm \<and> \<not> thighIsHorizontal lm then Some Squat
      else if \<not> torsoInclined lm \<and> \<not> handsOverhead lm \<and> elbowAngle lm < 170 \<and> elbowsTucked lm
              \<and> elbowsLow lm \<and> legsStraightish lm
        then Some BarbellBicepsCurl
      else if \<not> torsoInclined lm \<and> wristNearHips lm \<and> elbowsLocked lm \<and> elbowsTucked lm
              \<and> (ankleAboveKnee lm \<or> hipFlexed lm)
        then Some LegRaises
      else if isStandingStraight lm \<and> armIsExtendedLR lm \<and> handsBelowShouldersLR lm
              \<and> \<not> handsOverhead lm
        then Some LateralRaises
      else if handsOverhead lm then overheadRules lm
      else None)"

text \<open>The lying branch.\<close>

definition legsAreVertical :: "PoseLandmark list \<Rightarrow> bool" where
  "legsAreVertical lm = (kneeY lm > hipY lm + 0.15)"

definition shouldersHigherThanHips :: "PoseLandmark list \<Rightarrow> bool" where
  "shouldersHigherThanHips lm = (shoulderY lm < hipY lm - 0.05)"

definition kneesBentRT :: "PoseLandmark list \<Rightarrow> bool" where
  "kneesBentRT lm = (kneeAngle lm < 140)"

definition isVSitPosition :: "PoseLandmark list \<Rightarrow> bool" where
  "isVSitPosition lm = (shouldersHigherThanHips lm \<and> kneesBentRT lm \<and> \<not> legsAreVertical lm)"

definition isProne :: "PoseLandmark list \<Rightarrow> bool" where
  "isProne lm = (wristY lm > shoulderY lm)"

definition faceIsUp :: "PoseLandmark list \<Rightarrow> bool" where
  "faceIsUp lm = (noseY lm < shoulderY lm + 0.1)"

definition kneesBent :: "PoseLandmark list \<Rightarrow> bool" where
  "kneesBent lm = (kneeAngle lm < 135)"

definition legsStraight :: "PoseLandmark list \<Rightarrow> bool" where
  "legsStraight lm = (kneeAngle lm > 150)"

definition legsHorizontal :: "PoseLandmark list \<Rightarrow> bool" where
  "legsHorizontal lm = (\<bar>kneeY lm - hipY lm\<bar> < 0.15)"

definition bodyIsFlat :: "PoseLandmark list \<Rightarrow> bool" where
  "bodyIsFlat lm = (\<bar>shoulderY lm - ankleY lm\<bar> < 0.15)"

definition avgElbow :: "PoseLandmark list \<Rightarrow> real" where
  "avgElbow lm =
     (calculateAngle (lm ! 11) (lm ! 13) (lm ! 15) + calculateAngle (lm ! 12) (lm ! 14) (lm ! 16)) / 2"

text \<open>The body of \<^verbatim>\<open>if (isLying) { ... }\<close>, which returns on every path.\<close>

definition lyingRules :: "PoseLandmark list \<Rightarrow> ExerciseType" where
  "lyingRules lm =
     (if isVSitPosition lm \<and> reclineAngleDeg lm > 15 \<and> reclineAngleDeg lm < 70 then RussianTwist
      else if legsAreVertical lm then TBarRow
      else if \<not> legsHorizontal lm then TBarRow
      else if shouldersHigherThanHips lm \<and> \<not> bodyIsFlat lm then TBarRow
      else if legsStraight lm \<and> legsHorizontal lm \<and> bodyIsFlat lm then
        (if \<bar>wristY lm - (py (lm ! 13) + py (lm ! 14)) / 2\<bar> < 0.15 \<and> avgElbow lm < 130 then Plank
         else PushUp)
      else if isProne lm \<and> \<not> faceIsUp lm \<and> \<not> kneesBent lm \<and> legsHorizontal lm \<and> bodyIsFlat lm
        then PushUp
      else if kneesBent lm \<or> \<not> isProne lm then
        (if reclineAngleDeg lm \<le> 65 then InclineBenchPress else BenchPress)
      else if isProne lm \<and> legsHorizontal lm \<and> bodyIsFlat lm then PushUp
      else if reclineAngleDeg lm \<le> 65 then InclineBenchPress
      else BenchPress)"

text \<open>\<^verbatim>\<open>classifyExercise(landmarks)\<close>; \<open>None\<close> is \<^verbatim>\<open>null\<close>.\<close>

definition classifyExercise :: "PoseLandmark list \<Rightarrow> ExerciseType option" where
  "classifyExercise landmarks =
     (if length landmarks < 33 then None
      else if isBodyStraight landmarks \<and> isInclinedHypotenuse landmarks \<and> handsAreLow landmarks
        then Some TBarRow
      else if upright landmarks \<and> torsoInclined landmarks \<and> handsAreLow landmarks
              \<and> kneesBentRange landmarks \<and> feetOnFloor landmarks \<and> isHinging landmarks
        then Some TBarRow
      else if \<not> upright landmarks \<and> (isReclined landmarks \<or> isVSitPosture landmarks)
              \<and> kneesBentForTwist landmarks \<and> handsAtTorsoLevel landmarks
        then Some RussianTwist
      else if upright landmarks \<and> \<not> handsOverhead landmarks \<and> \<not> torsoInclined landmarks
              \<and> isSeatedCF landmarks \<and> handsInChestZone landmarks
              \<and> (isWideArmSpan landmarks \<or> isWideSpanSideView landmarks)
        then Some ChestFlyMachine
      else if isStanding landmarks then standingRules landmarks
      else if isLying landmarks then Some (lyingRules landmarks)
      else None)"

subsection \<open>Concrete frames\<close>

text \<open>
  A frame of 33 landmarks from the points given for some indices; the other landmarks
  are at the origin.
\<close>

definition frameOf :: "(nat \<times> real \<times> real) list \<Rightarrow> PoseLandmark list" where
  "frameOf ps = map (\<lambda>i. case map_of ps i of None \<Rightarrow> pt 0 0 | Some (a, b) \<Rightarrow> pt a b) [0..<33]"

text \<open>
  A synthetic frame: each side of the body is a straight line from shoulder over hip and
  knee to ankle, the two sides in different directions, so that the midpoints give an
  upright torso over a body line inclined at 45 degrees; the elbows are bent at 90 degrees
  with the wrists below the shoulders.
\<close>

definition tbarCurlFrame :: "PoseLandmark list" where
  "tbarCurlFrame = frameOf
     [(0, 0.4, 0.55),
      (11, 0.4, 0.6), (12, 0.4, 0.6),
      (13, 0.4, 0.7), (14, 0.4, 0.7),
      (15, 0.5, 0.7), (16, 0.5, 0.7),
      (23, 0.52, 0.64), (24, 0.28, 0.72),
      (25, 0.76, 0.72), (26, 0.24, 0.76),
      (27, 1.0, 0.8), (28, 0.2, 0.8)]"

subsection \<open>Feedback\<close>

datatype CameraView = Front | Side | FortyFive | Unknown

text \<open>
  \<^verbatim>\<open>ScoreBreakdown\<close>. The scorers' \<^verbatim>\<open>analyzePillars\<close> are typed \<^verbatim>\<open>any\<close> and most of them
  return an object without a \<^verbatim>\<open>total\<close> property, so \<open>total\<close> is optional here: \<open>None\<close> is
  the absent property.
\<close>

record ScoreBreakdown =
  total :: "real option"
  stability :: real
  rom :: real
  posture :: real
  efficiency :: real
  bracing :: real

record Feedback =
  score :: real
  breakdown :: ScoreBreakdown
  reps :: int
  repPhase :: string
  message :: string
  correction :: "string option"
  isGoodForm :: bool
  jointAngles :: "(string \<times> real) list option"
  detectedExercise :: "ExerciseType option"

text \<open>A \<^verbatim>\<open>RepPhase\<close> value is the string of its name.\<close>

fun phaseString :: "RepPhase \<Rightarrow> string" where
  "phaseString Rest = ''Rest''"
| "phaseString Eccentric = ''Eccentric''"
| "phaseString Bottom = ''Bottom''"
| "phaseString Concentric = ''Concentric''"
| "phaseString Top = ''Top''"

text \<open>\<^verbatim>\<open>messages.join(', ')\<close>.\<close>

fun joinComma :: "string list \<Rightarrow> string" where
  "joinComma [] = ''''"
| "joinComma [m] = m"
| "joinComma (m # ms) = m @ '', '' @ joinComma ms"

text \<open>\<^verbatim>\<open>Math.min(1, Math.max(0, v))\<close>.\<close>

definition clamp01 :: "real \<Rightarrow> real" where
  "clamp01 v = min 1 (max 0 v)"

text \<open>
  \<^verbatim>\<open>emptyFeedback()\<close>: the same object literal in every analyzer that counts with a
  \<^verbatim>\<open>RepCounter\<close>.
\<close>

definition zeroBreakdown :: ScoreBreakdown where
  "zeroBreakdown = \<lparr> total = Some 0, stability = 0, rom = 0, posture = 0, efficiency = 0, bracing = 0 \<rparr>"

definition emptyFeedback :: Feedback where
  "emptyFeedback =
     \<lparr> score = 0, breakdown = zeroBreakdown, reps = 0, repPhase = ''Rest'', message = ''No Pose'',
       correction = None, isGoodForm = False, jointAngles = None, detectedExercise = None \<rparr>"

text \<open>
  The message list of an analyzer: \<^verbatim>\<open>message\<close> is the first message, or the given
  default when there is none; \<^verbatim>\<open>correction\<close> is all of them joined.
\<close>

definition firstOr :: "string list \<Rightarrow> string \<Rightarrow> string" where
  "firstOr messages d = (case messages of [] \<Rightarrow> d | m # _ \<Rightarrow> m)"

subsection \<open>BiomechanicalAnalyzer\<close>

text \<open>
  Every scorer subclass overrides \<^verbatim>\<open>analyzePillars\<close> without calling the base method,
  which is the only writer of \<^verbatim>\<open>history\<close>; the history of every scorer therefore stays
  empty, and the base \<^verbatim>\<open>calculateStability\<close>, \<^verbatim>\<open>calculateROM\<close>, \<^verbatim>\<open>calculateEfficiency\<close>
  and \<^verbatim>\<open>calculateBracing\<close> all return 100.
\<close>

definition detectView :: "PoseLandmark list \<Rightarrow> CameraView" where
  "detectView landmarks =
     (if length landmarks < 33 then Unknown
      else
        let leftShoulder = landmarks ! 11;
            rightShoulder = landmarks ! 12;
            xDiff = \<bar>px leftShoulder - px rightShoulder\<bar>;
            zDiff = \<bar>pz leftShoulder - pz rightShoulder\<bar>
        in if xDiff = 0 then Side
           else
             let ratio = zDiff / xDiff
             in if ratio < 0.5 then Front else if ratio > 1.5 then Side else FortyFive)"

definition base_calculateStability :: "PoseLandmark list list \<Rightarrow> real" where
  "base_calculateStability history = (if length history < 5 then 100 else 100)"

definition base_calculatePosture :: "PoseLandmark list \<Rightarrow> real" where
  "base_calculatePosture current =
     (let ear = current ! 8;
          shoulder = current ! 12;
          hip = current ! 24;
          angle = calculateAngle ear shoulder hip;
          deviation = \<bar>180 - angle\<bar>
      in max 0 (100 - (deviation * 2)))"

definition base_calculateROM :: real where
  "base_calculateROM = 100"

definition base_calculateEfficiency :: real where
  "base_calculateEfficiency = 100"

definition base_calculateBracing :: real where
  "base_calculateBracing = 100"

subsection \<open>Analyzers that count with a RepCounter\<close>

text \<open>
  The only mutable field of these analyzers is \<^verbatim>\<open>repCounter\<close> (the scorer's history is
  never written), so the analyzer's state is its \<^typ>\<open>RepCounter\<close>. After the length guard
  every index read is below 33, so \<^verbatim>\<open>analyze\<close> cannot throw.
\<close>

text \<open>
  The object these analyzers return: the score, the scorer's breakdown as it is, the
  counter's count and phase, the first message or a default, the messages joined, and
  \<^verbatim>\<open>isGoodForm: totalScore > 80\<close>.
\<close>

definition repFeedback ::
  "real \<Rightarrow> ScoreBreakdown \<Rightarrow> RepCounter \<Rightarrow> string \<Rightarrow> string list \<Rightarrow> (string \<times> real) list
   \<Rightarrow> Feedback" where
  "repFeedback totalScore pillarScores rc noMessage messages angles =
     \<lparr> score = totalScore, breakdown = pillarScores, reps = int (count rc),
       repPhase = phaseString (currentPhase rc),
       message = firstOr messages noMessage,
       correction = Some (joinComma messages),
       isGoodForm = (totalScore > 80),
       jointAngles = Some angles,
       detectedExercise = None \<rparr>"

text \<open>Bicep Curl.\<close>

definition CurlBiomechanics_calculateStability :: "PoseLandmark list \<Rightarrow> CameraView \<Rightarrow> real" where
  "CurlBiomechanics_calculateStability current view =
     (if view = Front then 100
      else
        let shoulder = current ! 12;
            elbow = current ! 14;
            diff = \<bar>px shoulder - px elbow\<bar>
        in if diff > 0.15 then 60 else 100)"

definition CurlBiomechanics_calculateEfficiency :: "PoseLandmark list \<Rightarrow> CameraView \<Rightarrow> real" where
  "CurlBiomechanics_calculateEfficiency current view =
     (if view = Side then 100
      else
        let shoulder = current ! 12;
            elbow = current ! 14;
            hip = current ! 24;
            angle = calculateAngle elbow shoulder hip
        in if angle > 30 then 60 else 100)"

definition CurlBiomechanics_analyzePillars :: "PoseLandmark list \<Rightarrow> CameraView \<Rightarrow> ScoreBreakdown" where
  "CurlBiomechanics_analyzePillars landmarks view =
     \<lparr> total = None,
       stability = CurlBiomechanics_calculateStability landmarks view,
       rom = 100,
       posture = 100,
       efficiency = CurlBiomechanics_calculateEfficiency landmarks view,
       bracing = 100 \<rparr>"

definition newBicepCurlAnalyzer :: RepCounter where
  "newBicepCurlAnalyzer = newRepCounter None None None"

definition BicepCurlAnalyzer_analyze ::
  "PoseLandmark list \<Rightarrow> real option \<Rightarrow> real \<Rightarrow> RepCounter \<Rightarrow> Feedback \<times> RepCounter" where
  "BicepCurlAnalyzer_analyze landmarks timestamp clock repCounter =
     (if length landmarks < 33 then (emptyFeedback, repCounter)
      else
        let view = detectView landmarks;
            elbowAngle = calculateAngle (landmarks ! 12) (landmarks ! 14) (landmarks ! 16);
            normalizedPos = clamp01 ((160 - elbowAngle) / 100);
            rc = update normalizedPos timestamp clock repCounter;
            pillarScores = CurlBiomechanics_analyzePillars landmarks view;
            messages =
              (if view = Side then (if stability pillarScores < 70 then [''Pin Elbows''] else [])
               else (if efficiency pillarScores < 70 then [''Elbows In''] else []))
              @ (if currentPhase rc = Bottom \<and> normalizedPos > 0.1 then [''Full Extension''] else []);
            totalScore = rom pillarScores * 0.4 + stability pillarScores * 0.4
                         + efficiency pillarScores * 0.2
        in (repFeedback totalScore pillarScores rc (phaseString (currentPhase rc)) messages
              [(''elbow'', elbowAngle)], rc))"

text \<open>Pull Up.\<close>

definition PullUpBiomechanics_calculateStability :: "PoseLandmark list \<Rightarrow> CameraView \<Rightarrow> real" where
  "PullUpBiomechanics_calculateStability current view =
     (if view = Side then
        (let shoulder = current ! 12;
             hip = current ! 24;
             xDiff = \<bar>px shoulder - px hip\<bar>
         in if xDiff > 0.15 then 60 else 100)
      else if view = Front then
        (let leftSh = current ! 11;
             rightSh = current ! 12
         in if \<bar>py leftSh - py rightSh\<bar> > 0.05 then 70 else 100)
      else 100)"

definition PullUpBiomechanics_calculateROM :: "PoseLandmark list \<Rightarrow> real" where
  "PullUpBiomechanics_calculateROM current =
     (let chin = current ! 2;
          wrist = current ! 16
      in if py chin < py wrist then 100 else 80)"

definition PullUpBiomechanics_analyzePillars :: "PoseLandmark list \<Rightarrow> CameraView \<Rightarrow> ScoreBreakdown" where
  "PullUpBiomechanics_analyzePillars landmarks view =
     \<lparr> total = None,
       stability = PullUpBiomechanics_calculateStability landmarks view,
       rom = PullUpBiomechanics_calculateROM landmarks,
       posture = 100,
       efficiency = base_calculateEfficiency,
       bracing = 100 \<rparr>"

definition newPullUpAnalyzer :: RepCounter where
  "newPullUpAnalyzer = newRepCounter (Some ConcentricFirst) (Some 0.55) (Some 0.40)"

definition PullUpAnalyzer_analyze ::
  "PoseLandmark list \<Rightarrow> real option \<Rightarrow> real \<Rightarrow> RepCounter \<Rightarrow> Feedback \<times> RepCounter" where
  "PullUpAnalyzer_analyze landmarks timestamp clock repCounter =
     (if length landmarks < 33 then (emptyFeedback, repCounter)
      else
        let view = detectView landmarks;
            elbowAngle = calculateAngle (landmarks ! 12) (landmarks ! 14) (landmarks ! 16);
            normalizedPos = clamp01 ((170 - elbowAngle) / 120);
            rc = update normalizedPos timestamp clock repCounter;
            pillarScores = PullUpBiomechanics_analyzePillars landmarks view;
            messages =
              (if view = Side then
                 (if stability pillarScores < 70 then [''No Swinging''] else [])
                 @ (if currentPhase rc = Top \<and> rom pillarScores < 70 then [''Chest to Bar''] else [])
               else (if stability pillarScores < 70 then [''Pull Evenly''] else []))
              @ (if currentPhase rc = Bottom \<and> normalizedPos > 0.1 then [''Full Hang''] else []);
            totalScore = rom pillarScores * 0.4 + stability pillarScores * 0.3
                         + bracing pillarScores * 0.3
        in (repFeedback totalScore pillarScores rc (phaseString (currentPhase rc)) messages
              [(''elbow'', elbowAngle)], rc))"

text \<open>Chest Fly Machine.\<close>

definition FlyBiomechanics_calculateROM :: "PoseLandmark list \<Rightarrow> CameraView \<Rightarrow> real" where
  "FlyBiomechanics_calculateROM current view =
     (if view = Front then 100
      else
        let elbowAngle = calculateAngle (current ! 12) (current ! 14) (current ! 16)
        in if elbowAngle < 120 then 50 else 100)"

definition FlyBiomechanics_calculateStability :: "PoseLandmark list \<Rightarrow> CameraView \<Rightarrow> real" where
  "FlyBiomechanics_calculateStability current view =
     (if view = Side then 100
      else
        let diff = \<bar>py (current ! 13) - py (current ! 14)\<bar>
        in if diff > 0.1 then 60 else 100)"

definition FlyBiomechanics_analyzePillars :: "PoseLandmark list \<Rightarrow> CameraView \<Rightarrow> ScoreBreakdown" where
  "FlyBiomechanics_analyzePillars landmarks view =
     \<lparr> total = Some 0,
       stability = FlyBiomechanics_calculateStability landmarks view,
       rom = FlyBiomechanics_calculateROM landmarks view,
       posture = 100,
       efficiency = 100,
       bracing = 100 \<rparr>"

definition newChestFlyAnalyzer :: RepCounter where
  "newChestFlyAnalyzer = newRepCounter None None None"

definition ChestFlyAnalyzer_analyze ::
  "PoseLandmark list \<Rightarrow> real option \<Rightarrow> real \<Rightarrow> RepCounter \<Rightarrow> Feedback \<times> RepCounter" where
  "ChestFlyAnalyzer_analyze landmarks timestamp clock repCounter =
     (if length landmarks < 33 then (emptyFeedback, repCounter)
      else
        let view = detectView landmarks;
            wristDist = \<bar>px (landmarks ! 16) - px (landmarks ! 15)\<bar>;
            shoulderDist0 = \<bar>px (landmarks ! 12) - px (landmarks ! 11)\<bar>;
            shoulderDist = (if shoulderDist0 = 0 then 0.1 else shoulderDist0);
            ratio = wristDist / shoulderDist;
            normalizedPos0 = 1 - ((ratio - 0.5) / 2.0);
            normalizedPos = max 0 (min 1 normalizedPos0);
            rc = update normalizedPos timestamp clock repCounter;
            pillarScores = FlyBiomechanics_analyzePillars landmarks view;
            messages =
              (if view = Side then (if rom pillarScores < 70 then [''Don't Press''] else [])
               else (if stability pillarScores < 70 then [''Balance Arms''] else []));
            totalScore = rom pillarScores * 0.5 + stability pillarScores * 0.5
        in (repFeedback totalScore pillarScores rc (phaseString (currentPhase rc)) messages
              [(''elbow'', 0)], rc))"

text \<open>Leg Extension.\<close>

definition LegExtBiomechanics_calculateStability :: "PoseLandmark list \<Rightarrow> real" where
  "LegExtBiomechanics_calculateStability current =
     (let leftHipAngle = calculateAngle (current ! 11) (current ! 23) (current ! 25);
          rightHipAngle = calculateAngle (current ! 12) (current ! 24) (current ! 26);
          hipAngle = max leftHipAngle rightHipAngle
      in if hipAngle > 130 then 60 else 100)"

definition LegExtBiomechanics_analyzePillars :: "PoseLandmark list \<Rightarrow> ScoreBreakdown" where
  "LegExtBiomechanics_analyzePillars landmarks =
     \<lparr> total = None,
       stability = LegExtBiomechanics_calculateStability landmarks,
       rom = 100,
       posture = 100,
       efficiency = 100,
       bracing = 100 \<rparr>"

definition newLegExtensionAnalyzer :: RepCounter where
  "newLegExtensionAnalyzer = newRepCounter (Some ConcentricFirst) None None"

definition LegExtensionAnalyzer_analyze ::
  "PoseLandmark list \<Rightarrow> real option \<Rightarrow> real \<Rightarrow> RepCounter \<Rightarrow> Feedback \<times> RepCounter" where
  "LegExtensionAnalyzer_analyze landmarks timestamp clock repCounter =
     (if length landmarks < 33 then (emptyFeedback, repCounter)
      else
        let view = detectView landmarks;
            leftKneeAngle = calculateAngle (landmarks ! 23) (landmarks ! 25) (landmarks ! 27);
            rightKneeAngle = calculateAngle (landmarks ! 24) (landmarks ! 26) (landmarks ! 28);
            kneeAngle = (if view = Side then max leftKneeAngle rightKneeAngle
                         else (leftKneeAngle + rightKneeAngle) / 2);
            normalizedPos = clamp01 ((kneeAngle - 90) / 65);
            rc = update normalizedPos timestamp clock repCounter;
            pillarScores = LegExtBiomechanics_analyzePillars landmarks;
            leftHipAngle = calculateAngle (landmarks ! 11) (landmarks ! 23) (landmarks ! 25);
            rightHipAngle = calculateAngle (landmarks ! 12) (landmarks ! 24) (landmarks ! 26);
            hipAngle = max leftHipAngle rightHipAngle;
            messages =
              (if (currentPhase rc = Concentric \<or> currentPhase rc = Top)
                  \<and> kneeAngle < 145 \<and> normalizedPos > 0.8 then [''Extend More''] else [])
              @ (if hipAngle > 145 then [''Keep Hips Down''] else []);
            totalScore = rom pillarScores * 0.4 + stability pillarScores * 0.3
                         + posture pillarScores * 0.3
        in (repFeedback totalScore pillarScores rc (phaseString (currentPhase rc)) messages
              [(''knee'', kneeAngle)], rc))"

text \<open>Push Up.\<close>

definition PushUpBiomechanics_calculateBracing :: "PoseLandmark list \<Rightarrow> real" where
  "PushUpBiomechanics_calculateBracing lm =
     (let leftHipAngle = calculateAngle (lm ! 11) (lm ! 23) (lm ! 25);
          rightHipAngle = calculateAngle (lm ! 12) (lm ! 24) (lm ! 26);
          hipAngle = (leftHipAngle + rightHipAngle) / 2
      in if hipAngle < 150 then 60
         else if hipAngle < 165 then 80
         else if hipAngle > 190 then 70
         else 100)"

definition PushUpBiomechanics_analyzePillars :: "PoseLandmark list \<Rightarrow> ScoreBreakdown" where
  "PushUpBiomechanics_analyzePillars landmarks =
     \<lparr> total = Some 0,
       stability = 100,
       rom = 100,
       posture = base_calculatePosture landmarks,
       efficiency = base_calculateEfficiency,
       bracing = PushUpBiomechanics_calculateBracing landmarks \<rparr>"

definition newPushUpAnalyzer :: RepCounter where
  "newPushUpAnalyzer = newRepCounter (Some EccentricFirst) (Some 0.60) (Some 0.35)"

definition PushUpAnalyzer_analyze ::
  "PoseLandmark list \<Rightarrow> real option \<Rightarrow> real \<Rightarrow> RepCounter \<Rightarrow> Feedback \<times> RepCounter" where
  "PushUpAnalyzer_analyze landmarks timestamp clock repCounter =
     (if length landmarks < 33 then (emptyFeedback, repCounter)
      else
        let leftElbow = calculateAngle (landmarks ! 11) (landmarks ! 13) (landmarks ! 15);
            rightElbow = calculateAngle (landmarks ! 12) (landmarks ! 14) (landmarks ! 16);
            elbowAngle = (leftElbow + rightElbow) / 2;
            normalizedPos = clamp01 ((170 - elbowAngle) / 80);
            rc = update normalizedPos timestamp clock repCounter;
            pillarScores = PushUpBiomechanics_analyzePillars landmarks;
            messages =
              (if bracing pillarScores < 70 then [''Tighten Core''] else [])
              @ (if posture pillarScores < 70 then [''Straight Body''] else [])
              @ (if currentPhase rc = Bottom \<and> rom pillarScores < 70 then [''Go Lower''] else []);
            totalScore = rom pillarScores * 0.3 + stability pillarScores * 0.2
                         + bracing pillarScores * 0.3 + posture pillarScores * 0.2
        in (repFeedback totalScore pillarScores rc
              (if currentPhase rc = Rest then ''Get Set'' else phaseString (currentPhase rc)) messages
              [(''elbow'', elbowAngle)], rc))"

text \<open>
  T-Bar Row. \<^verbatim>\<open>RowBiomechanics.analyzePillars\<close> sets posture and bracing to the constant
  100 and does not call the class's \<^verbatim>\<open>calculatePosture\<close> and \<^verbatim>\<open>calculateBracing\<close>. The
  degree sign of the first message is its two UTF-8 bytes.
\<close>

definition RowBiomechanics_calculateStability :: "CameraView \<Rightarrow> real" where
  "RowBiomechanics_calculateStability view = (if view = Side then 100 else 100)"

definition RowBiomechanics_analyzePillars :: "PoseLandmark list \<Rightarrow> CameraView \<Rightarrow> ScoreBreakdown" where
  "RowBiomechanics_analyzePillars landmarks view =
     \<lparr> total = None,
       stability = RowBiomechanics_calculateStability view,
       rom = 100,
       posture = 100,
       efficiency = base_calculateEfficiency,
       bracing = 100 \<rparr>"

definition newTBarRowAnalyzer :: RepCounter where
  "newTBarRowAnalyzer = newRepCounter None None None"

definition TBarRowAnalyzer_analyze ::
  "PoseLandmark list \<Rightarrow> real option \<Rightarrow> real \<Rightarrow> RepCounter \<Rightarrow> Feedback \<times> RepCounter" where
  "TBarRowAnalyzer_analyze landmarks timestamp clock repCounter =
     (if length landmarks < 33 then (emptyFeedback, repCounter)
      else
        let view = detectView landmarks;
            elbowAngle = calculateAngle (landmarks ! 12) (landmarks ! 14) (landmarks ! 16);
            normalizedPos = clamp01 ((170 - elbowAngle) / 90);
            rc = update normalizedPos timestamp clock repCounter;
            pillarScores = RowBiomechanics_analyzePillars landmarks view;
            messages =
              (if view = Side then
                 (if posture pillarScores < 50 then [''Bend Over ~45'' @ [CHR 0xC2, CHR 0xB0]]
                  else if posture pillarScores < 60 then [''Not So Flat'']
                  else [])
                 @ (if bracing pillarScores < 60 then
                      (if bracing pillarScores < 50 then [''Straighten Back''] else [''Tuck Elbows''])
                    else [])
               else (if stability pillarScores < 70 then [''Even Pull''] else []));
            totalScore = posture pillarScores * 0.4 + bracing pillarScores * 0.3
                         + rom pillarScores * 0.3
        in (repFeedback totalScore pillarScores rc (phaseString (currentPhase rc)) messages
              [(''elbow'', elbowAngle)], rc))"

text \<open>
  Tricep Dips. The scorer does not override \<^verbatim>\<open>calculateStability\<close>, so stability is the
  base one's; \<^verbatim>\<open>!shoulder || !hip\<close> is false for landmarks that are present.
\<close>

definition DipsBiomechanics_calculatePosture :: "PoseLandmark list \<Rightarrow> CameraView \<Rightarrow> real" where
  "DipsBiomechanics_calculatePosture current view =
     (if view = Front then 100
      else
        let shoulder = current ! 11;
            hip = current ! 23;
            angle = calculateAngle \<lparr> px = px hip, py = py hip - 100, pz = 0, visibility = 1 \<rparr> hip shoulder
        in if \<bar>angle\<bar> > 45 then 60 else 100)"

definition DipsBiomechanics_calculateEfficiency :: "PoseLandmark list \<Rightarrow> CameraView \<Rightarrow> real" where
  "DipsBiomechanics_calculateEfficiency current view =
     (if view = Side then 100
      else
        let shoulder = current ! 11;
            elbow = current ! 13;
            hip = current ! 23;
            angle = calculateAngle elbow shoulder hip
        in if angle > 45 then 60 else 100)"

definition DipsBiomechanics_analyzePillars :: "PoseLandmark list \<Rightarrow> CameraView \<Rightarrow> ScoreBreakdown" where
  "DipsBiomechanics_analyzePillars landmarks view =
     \<lparr> total = None,
       stability = base_calculateStability [],
       rom = 100,
       posture = DipsBiomechanics_calculatePosture landmarks view,
       efficiency = DipsBiomechanics_calculateEfficiency landmarks view,
       bracing = 100 \<rparr>"

definition newTricepDipsAnalyzer :: RepCounter where
  "newTricepDipsAnalyzer = newRepCounter (Some EccentricFirst) (Some 0.65) (Some 0.25)"

definition TricepDipsAnalyzer_analyze ::
  "PoseLandmark list \<Rightarrow> real option \<Rightarrow> real \<Rightarrow> RepCounter \<Rightarrow> Feedback \<times> RepCounter" where
  "TricepDipsAnalyzer_analyze landmarks timestamp clock repCounter =
     (if length landmarks < 33 then (emptyFeedback, repCounter)
      else
        let view = detectView landmarks;
            leftElbow = calculateAngle (landmarks ! 11) (landmarks ! 13) (landmarks ! 15);
            rightElbow = calculateAngle (landmarks ! 12) (landmarks ! 14) (landmarks ! 16);
            elbowAngle = (leftElbow + rightElbow) / 2;
            normalizedPos = clamp01 ((180 - elbowAngle) / 90);
            rc = update normalizedPos timestamp clock repCounter;
            pillarScores = DipsBiomechanics_analyzePillars landmarks view;
            messages =
              (if currentPhase rc = Bottom \<and> elbowAngle > 100 then [''Go Deeper''] else [])
              @ (if posture pillarScores < 70 then [''Torso Upright''] else [])
              @ (if stability pillarScores < 70 then [''Shoulders Down''] else [])
              @ (if efficiency pillarScores < 70 then [''Elbows In''] else []);
            totalScore = rom pillarScores * 0.4 + posture pillarScores * 0.3
                         + stability pillarScores * 0.3
        in (repFeedback totalScore pillarScores rc (phaseString (currentPhase rc)) messages
              [(''elbow'', elbowAngle)], rc))"

text \<open>Incline Bench Press.\<close>

definition InclineBiomechanics_calculateEfficiency :: "PoseLandmark list \<Rightarrow> CameraView \<Rightarrow> real" where
  "InclineBiomechanics_calculateEfficiency current view =
     (if view = Front then
        (let leftShoulder = current ! 11;
             leftElbow = current ! 13;
             leftHip = current ! 23;
             leftAngle = calculateAngle leftElbow leftShoulder leftHip;
             rightShoulder = current ! 12;
             rightElbow = current ! 14;
             rightHip = current ! 24;
             rightAngle = calculateAngle rightElbow rightShoulder rightHip;
             angle = (leftAngle + rightAngle) / 2
         in if angle > 70 then 60 else if angle < 30 then 70 else 100)
      else 100)"

definition InclineBiomechanics_calculateROM :: "PoseLandmark list \<Rightarrow> real" where
  "InclineBiomechanics_calculateROM current =
     (let leftElbow = calculateAngle (current ! 11) (current ! 13) (current ! 15);
          rightElbow = calculateAngle (current ! 12) (current ! 14) (current ! 16);
          elbowAngle = (leftElbow + rightElbow) / 2
      in if elbowAngle < 45 then 100
         else if elbowAngle < 60 then 85
         else if elbowAngle < 90 then 60
         else 40)"

definition InclineBiomechanics_analyzePillars :: "PoseLandmark list \<Rightarrow> CameraView \<Rightarrow> ScoreBreakdown" where
  "InclineBiomechanics_analyzePillars landmarks view =
     \<lparr> total = None,
       stability = base_calculateStability [],
       rom = InclineBiomechanics_calculateROM landmarks,
       posture = 100,
       efficiency = InclineBiomechanics_calculateEfficiency landmarks view,
       bracing = 100 \<rparr>"

definition newInclineBenchAnalyzer :: RepCounter where
  "newInclineBenchAnalyzer = newRepCounter (Some EccentricFirst) (Some 0.75) (Some 0.25)"

definition InclineBenchAnalyzer_analyze ::
  "PoseLandmark list \<Rightarrow> real option \<Rightarrow> real \<Rightarrow> RepCounter \<Rightarrow> Feedback \<times> RepCounter" where
  "InclineBenchAnalyzer_analyze landmarks timestamp clock repCounter =
     (if length landmarks < 33 then (emptyFeedback, repCounter)
      else
        let view = detectView landmarks;
            leftElbow = calculateAngle (landmarks ! 11) (landmarks ! 13) (landmarks ! 15);
            rightElbow = calculateAngle (landmarks ! 12) (landmarks ! 14) (landmarks ! 16);
            elbowAngle = (leftElbow + rightElbow) / 2;
            normalizedPos = clamp01 ((170 - elbowAngle) / 100);
            rc = update normalizedPos timestamp clock repCounter;
            pillarScores = InclineBiomechanics_analyzePillars landmarks view;
            messages =
              (if view = Front then (if efficiency pillarScores < 70 then [''Tuck Elbows''] else [])
               else (if efficiency pillarScores < 70 then [''Touch Upper Chest''] else []));
            totalScore = stability pillarScores * 0.3 + efficiency pillarScores * 0.3
                         + rom pillarScores * 0.2 + bracing pillarScores * 0.2
        in (repFeedback totalScore pillarScores rc (phaseString (currentPhase rc)) messages
              [(''elbow'', elbowAngle)], rc))"

text \<open>Bench Press.\<close>

definition BenchPressBiomechanics_calculateEfficiency :: "PoseLandmark list \<Rightarrow> CameraView \<Rightarrow> real" where
  "BenchPressBiomechanics_calculateEfficiency current view =
     (let shoulder = current ! 12;
          elbow = current ! 14;
          hip = current ! 24
      in if view = Front then
           (let flareAngle = calculateAngle elbow shoulder hip
            in if flareAngle > 75 then 60 else if flareAngle < 30 then 80 else 100)
         else if view = Side then
           (let wrist = current ! 16;
                xDiff = \<bar>px wrist - px elbow\<bar>
            in if xDiff > 0.1 then 70 else 100)
         else 100)"

definition BenchPressBiomechanics_calculateStability :: "PoseLandmark list \<Rightarrow> CameraView \<Rightarrow> real" where
  "BenchPressBiomechanics_calculateStability current view =
     (if view = Front \<and> \<bar>py (current ! 15) - py (current ! 16)\<bar> > 0.05 then 60 else 100)"

definition BenchPressBiomechanics_analyzePillars :: "PoseLandmark list \<Rightarrow> CameraView \<Rightarrow> ScoreBreakdown" where
  "BenchPressBiomechanics_analyzePillars landmarks view =
     \<lparr> total = None,
       stability = BenchPressBiomechanics_calculateStability landmarks view,
       rom = 100,
       posture = 100,
       efficiency = BenchPressBiomechanics_calculateEfficiency landmarks view,
       bracing = 100 \<rparr>"

definition newBenchPressAnalyzer :: RepCounter where
  "newBenchPressAnalyzer = newRepCounter None None None"

definition BenchPressAnalyzer_analyze ::
  "PoseLandmark list \<Rightarrow> real option \<Rightarrow> real \<Rightarrow> RepCounter \<Rightarrow> Feedback \<times> RepCounter" where
  "BenchPressAnalyzer_analyze landmarks timestamp clock repCounter =
     (if length landmarks < 33 then (emptyFeedback, repCounter)
      else
        let view = detectView landmarks;
            elbowAngle = calculateAngle (landmarks ! 12) (landmarks ! 14) (landmarks ! 16);
            normalizedPos = clamp01 ((160 - elbowAngle) / 60);
            rc = update normalizedPos timestamp clock repCounter;
            pillarScores = BenchPressBiomechanics_analyzePillars landmarks view;
            messages =
              (if view = Front then
                 (if efficiency pillarScores < 70 then [''Tuck Elbows''] else [])
                 @ (if stability pillarScores < 70 then [''Uneven Grip''] else [])
               else (if efficiency pillarScores < 70 then [''Fix Bar Path''] else []));
            totalScore = stability pillarScores * 0.3 + efficiency pillarScores * 0.3
                         + rom pillarScores * 0.2 + bracing pillarScores * 0.2
        in (repFeedback totalScore pillarScores rc (phaseString (currentPhase rc)) messages
              [(''elbow'', elbowAngle)], rc))"

text \<open>
  Leg Raises. The scorer reads its history, which nothing writes: the analyzer's state
  is the counter and that history.
\<close>

record LegRaisesAnalyzer =
  lr_repCounter :: RepCounter
  lr_history :: "PoseLandmark list list"

definition LegRaiseBiomechanics_calculateStability ::
  "PoseLandmark list list \<Rightarrow> PoseLandmark list \<Rightarrow> CameraView \<Rightarrow> real" where
  "LegRaiseBiomechanics_calculateStability history current view =
     (if length history > 5
         \<and> \<bar>(py (current ! 11) + py (current ! 12)) / 2
             - (py (history ! 0 ! 11) + py (history ! 0 ! 12)) / 2\<bar> > 0.05
        then 60
      else if view = Side
         \<and> \<bar>(px (current ! 11) + px (current ! 12)) / 2
             - (px (current ! 23) + px (current ! 24)) / 2\<bar> > 0.15
        then 70
      else 100)"

definition LegRaiseBiomechanics_calculateROM :: "PoseLandmark list \<Rightarrow> real" where
  "LegRaiseBiomechanics_calculateROM current =
     (let hipAngle = (calculateAngle (current ! 11) (current ! 23) (current ! 25)
                      + calculateAngle (current ! 12) (current ! 24) (current ! 26)) / 2
      in if hipAngle \<le> 90 then 100
         else if hipAngle \<le> 110 then 85
         else if hipAngle \<le> 130 then 60
         else 40)"

definition LegRaiseBiomechanics_calculateEfficiency :: "PoseLandmark list \<Rightarrow> real" where
  "LegRaiseBiomechanics_calculateEfficiency current =
     (let leftKnee = calculateAngle (current ! 23) (current ! 25) (current ! 27);
          rightKnee = calculateAngle (current ! 24) (current ! 26) (current ! 28);
          avgKnee = (leftKnee + rightKnee) / 2
      in if avgKnee < 150 then 60 else if avgKnee < 165 then 85 else 100)"

definition LegRaiseBiomechanics_analyzePillars ::
  "PoseLandmark list list \<Rightarrow> PoseLandmark list \<Rightarrow> CameraView \<Rightarrow> ScoreBreakdown" where
  "LegRaiseBiomechanics_analyzePillars history landmarks view =
     \<lparr> total = None,
       stability = LegRaiseBiomechanics_calculateStability history landmarks view,
       rom = LegRaiseBiomechanics_calculateROM landmarks,
       posture = 100,
       efficiency = LegRaiseBiomechanics_calculateEfficiency landmarks,
       bracing = 100 \<rparr>"

definition newLegRaisesAnalyzer :: LegRaisesAnalyzer where
  "newLegRaisesAnalyzer =
     \<lparr> lr_repCounter = newRepCounter (Some ConcentricFirst) (Some 0.70) (Some 0.30),
       lr_history = [] \<rparr>"

definition LegRaisesAnalyzer_analyze ::
  "PoseLandmark list \<Rightarrow> real option \<Rightarrow> real \<Rightarrow> LegRaisesAnalyzer \<Rightarrow> Feedback \<times> LegRaisesAnalyzer" where
  "LegRaisesAnalyzer_analyze landmarks timestamp clock this =
     (if length landmarks < 33 then (emptyFeedback, this)
      else
        let view = detectView landmarks;
            leftHip = calculateAngle (landmarks ! 11) (landmarks ! 23) (landmarks ! 25);
            rightHip = calculateAngle (landmarks ! 12) (landmarks ! 24) (landmarks ! 26);
            hipAngle = (leftHip + rightHip) / 2;
            normalizedPos = clamp01 ((170 - hipAngle) / 80);
            rc = update normalizedPos timestamp clock (lr_repCounter this);
            pillarScores = LegRaiseBiomechanics_analyzePillars (lr_history this) landmarks view;
            messages =
              (if stability pillarScores < 70
                 then [if view = Side then ''Control Swing'' else ''Keep Shoulders Down''] else [])
              @ (if efficiency pillarScores < 70 then [''Straighten Legs''] else [])
              @ (if currentPhase rc = Top \<and> hipAngle > 100 then [''Legs Higher''] else []);
            totalScore = rom pillarScores * 0.3 + stability pillarScores * 0.3
                         + efficiency pillarScores * 0.2 + bracing pillarScores * 0.2
        in (repFeedback totalScore pillarScores rc
              (if currentPhase rc = Rest then ''Get Set'' else phaseString (currentPhase rc)) messages
              [(''hip'', hipAngle)], this\<lparr> lr_repCounter := rc \<rparr>))"

text \<open>Lateral Raises.\<close>

definition LatRaiseBiomechanics_calculatePosture :: "PoseLandmark list \<Rightarrow> CameraView \<Rightarrow> real" where
  "LatRaiseBiomechanics_calculatePosture current view =
     (if view = Front then 100
      else
        let shoulder = current ! 12;
            wrist = current ! 16;
            xDiff = \<bar>px wrist - px shoulder\<bar>
        in if xDiff < 0.05 then 70 else 100)"

definition LatRaiseBiomechanics_calculateEfficiency :: "PoseLandmark list \<Rightarrow> CameraView \<Rightarrow> real" where
  "LatRaiseBiomechanics_calculateEfficiency current view =
     (if view = Side then 100
      else
        let elbow = current ! 14;
            wrist = current ! 16
        in if py wrist < py elbow - 0.05 then 60 else 100)"

definition LatRaiseBiomechanics_calculateStability :: "CameraView \<Rightarrow> real" where
  "LatRaiseBiomechanics_calculateStability view = (if view = Side then 100 else 100)"

definition LatRaiseBiomechanics_analyzePillars :: "PoseLandmark list \<Rightarrow> CameraView \<Rightarrow> ScoreBreakdown" where
  "LatRaiseBiomechanics_analyzePillars landmarks view =
     \<lparr> total = None,
       stability = LatRaiseBiomechanics_calculateStability view,
       rom = 100,
       posture = LatRaiseBiomechanics_calculatePosture landmarks view,
       efficiency = LatRaiseBiomechanics_calculateEfficiency landmarks view,
       bracing = 100 \<rparr>"

definition newLateralRaiseAnalyzer :: RepCounter where
  "newLateralRaiseAnalyzer = newRepCounter (Some ConcentricFirst) None None"

definition LateralRaiseAnalyzer_analyze ::
  "PoseLandmark list \<Rightarrow> real option \<Rightarrow> real \<Rightarrow> RepCounter \<Rightarrow> Feedback \<times> RepCounter" where
  "LateralRaiseAnalyzer_analyze landmarks timestamp clock repCounter =
     (if length landmarks < 33 then (emptyFeedback, repCounter)
      else
        let view = detectView landmarks;
            shoulderAngle = calculateAngle (landmarks ! 24) (landmarks ! 12) (landmarks ! 14);
            normalizedPos = clamp01 ((shoulderAngle - 20) / 65);
            rc = update normalizedPos timestamp clock repCounter;
            pillarScores = LatRaiseBiomechanics_analyzePillars landmarks view;
            messages =
              (if view = Front then
                 (if stability pillarScores < 70 then [''Arm Height Even''] else [])
                 @ (if efficiency pillarScores < 70 then [''Lead w/ Elbows''] else [])
               else (if posture pillarScores < 70 then [''Hands fwd (Scap Plane)''] else []));
            totalScore = rom pillarScores * 0.4 + efficiency pillarScores * 0.3
                         + posture pillarScores * 0.3
        in (repFeedback totalScore pillarScores rc (phaseString (currentPhase rc)) messages
              [(''shoulder'', shoulderAngle)], rc))"

text \<open>
  Lat Pulldown. \<^verbatim>\<open>LatBiomechanics.analyzePillars\<close> sets posture to the constant 100 and
  does not call the class's \<^verbatim>\<open>calculatePosture\<close>.
\<close>

definition LatBiomechanics_calculateStability :: "PoseLandmark list \<Rightarrow> CameraView \<Rightarrow> real" where
  "LatBiomechanics_calculateStability current view =
     (if view = Side then 100
      else
        let leftW = current ! 15;
            rightW = current ! 16
        in if \<bar>py leftW - py rightW\<bar> > 0.05 then 60 else 100)"

definition LatBiomechanics_analyzePillars :: "PoseLandmark list \<Rightarrow> CameraView \<Rightarrow> ScoreBreakdown" where
  "LatBiomechanics_analyzePillars landmarks view =
     \<lparr> total = None,
       stability = LatBiomechanics_calculateStability landmarks view,
       rom = 100,
       posture = 100,
       efficiency = base_calculateEfficiency,
       bracing = 100 \<rparr>"

definition newLatPulldownAnalyzer :: RepCounter where
  "newLatPulldownAnalyzer = newRepCounter None None None"

definition LatPulldownAnalyzer_analyze ::
  "PoseLandmark list \<Rightarrow> real option \<Rightarrow> real \<Rightarrow> RepCounter \<Rightarrow> Feedback \<times> RepCounter" where
  "LatPulldownAnalyzer_analyze landmarks timestamp clock repCounter =
     (if length landmarks < 33 then (emptyFeedback, repCounter)
      else
        let view = detectView landmarks;
            elbowAngle = calculateAngle (landmarks ! 12) (landmarks ! 14) (landmarks ! 16);
            normalizedPos = clamp01 ((170 - elbowAngle) / 100);
            rc = update normalizedPos timestamp clock repCounter;
            pillarScores = LatBiomechanics_analyzePillars landmarks view;
            messages =
              (if view = Front then (if stability pillarScores < 70 then [''Pull Evenly''] else [])
               else (if posture pillarScores < 60 then [''Less Lean''] else []))
              @ (if currentPhase rc = Top \<and> normalizedPos < 0.2 \<and> elbowAngle < 150
                   then [''Full Stretch''] else []);
            totalScore = stability pillarScores * 0.3 + posture pillarScores * 0.3
                         + rom pillarScores * 0.4
        in (repFeedback totalScore pillarScores rc (phaseString (currentPhase rc)) messages
              [(''elbow'', elbowAngle)], rc))"

subsection \<open>SquatAnalyzer\<close>

definition SquatBiomechanics_checkValgus :: "PoseLandmark list \<Rightarrow> real" where
  "SquatBiomechanics_checkValgus current =
     (let leftHip = current ! 23; leftKnee = current ! 25; leftAnkle = current ! 27;
          rightHip = current ! 24; rightKnee = current ! 26; rightAnkle = current ! 28;
          kneeWidth = \<bar>px leftKnee - px rightKnee\<bar>;
          ankleWidth = \<bar>px leftAnkle - px rightAnkle\<bar>;
          hipWidth = \<bar>px leftHip - px rightHip\<bar>
      in if kneeWidth < ankleWidth * 0.75 then 40
         else if kneeWidth < ankleWidth * 0.85 then 60
         else if kneeWidth < hipWidth * 0.85 then 75
         else 100)"

definition SquatBiomechanics_checkDepth :: "PoseLandmark list \<Rightarrow> real" where
  "SquatBiomechanics_checkDepth current =
     (let hip = current ! 24;
          knee = current ! 26;
          hipKneeDiff = py hip - py knee
      in if hipKneeDiff \<ge> 0.02 then 100
         else if hipKneeDiff \<ge> - 0.02 then 90
         else if hipKneeDiff \<ge> - 0.05 then 70
         else 50)"

definition SquatBiomechanics_checkMidfootBalance :: "PoseLandmark list \<Rightarrow> real" where
  "SquatBiomechanics_checkMidfootBalance current =
     (let hip = current ! 24;
          toe = current ! 32;
          heel = current ! 30;
          midfoot = (px heel + px toe) / 2;
          deviation = \<bar>px hip - midfoot\<bar>
      in if deviation > 0.1 then 60 else if deviation > 0.05 then 80 else 100)"

definition SquatBiomechanics_checkSymmetry :: "PoseLandmark list \<Rightarrow> real" where
  "SquatBiomechanics_checkSymmetry current =
     (let leftShoulder = current ! 11; rightShoulder = current ! 12;
          leftHip = current ! 23; rightHip = current ! 24;
          shoulderTilt = \<bar>py leftShoulder - py rightShoulder\<bar>;
          hipTilt = \<bar>py leftHip - py rightHip\<bar>
      in if shoulderTilt > 0.05 \<or> hipTilt > 0.05 then 70
         else if shoulderTilt > 0.03 \<or> hipTilt > 0.03 then 85
         else 100)"

text \<open>The torso's angle against the vertical through the hip, used by four methods.\<close>

definition squatTorsoAngle :: "PoseLandmark list \<Rightarrow> real" where
  "squatTorsoAngle current =
     (let shoulder = current ! 12;
          hip = current ! 24
      in calculateAngle \<lparr> px = px hip, py = py hip - 0.2, pz = 0, visibility = 1 \<rparr> hip shoulder)"

definition SquatBiomechanics_calculateStability :: "PoseLandmark list \<Rightarrow> CameraView \<Rightarrow> real" where
  "SquatBiomechanics_calculateStability current view =
     (if view = Front then SquatBiomechanics_checkValgus current
      else if view = Side then SquatBiomechanics_checkMidfootBalance current
      else 100)"

definition SquatBiomechanics_calculateROM :: "PoseLandmark list \<Rightarrow> real" where
  "SquatBiomechanics_calculateROM current = SquatBiomechanics_checkDepth current"

definition SquatBiomechanics_calculatePosture :: "PoseLandmark list \<Rightarrow> CameraView \<Rightarrow> real" where
  "SquatBiomechanics_calculatePosture current view =
     (if view = Front then SquatBiomechanics_checkSymmetry current
      else
        let torsoAngle = squatTorsoAngle current
        in if torsoAngle > 65 then 40
           else if torsoAngle > 55 then 60
           else if torsoAngle < 15 then 70
           else 100)"

definition SquatBiomechanics_calculateEfficiency ::
  "PoseLandmark list \<Rightarrow> RepPhase \<Rightarrow> CameraView \<Rightarrow> real" where
  "SquatBiomechanics_calculateEfficiency current phase view =
     (if view \<noteq> Side then 100
      else
        let knee = current ! 26;
            ankle = current ! 28
        in if (phase = Bottom \<or> phase = Eccentric) \<and> \<bar>px knee - px ankle\<bar> > 0.15 then 70
           else 100)"

definition SquatBiomechanics_calculateBracing :: "PoseLandmark list \<Rightarrow> CameraView \<Rightarrow> real" where
  "SquatBiomechanics_calculateBracing current view =
     (if view = Front then 100
      else
        let shoulder = current ! 12;
            hip = current ! 24;
            ear = current ! 8;
            spinalAngle = calculateAngle ear shoulder hip;
            deviation = \<bar>180 - spinalAngle\<bar>
        in if deviation > 30 then 60 else if deviation > 20 then 80 else 100)"

definition SquatBiomechanics_analyzePillars ::
  "PoseLandmark list \<Rightarrow> RepPhase \<Rightarrow> CameraView \<Rightarrow> ScoreBreakdown" where
  "SquatBiomechanics_analyzePillars landmarks phase view =
     \<lparr> total = None,
       stability = SquatBiomechanics_calculateStability landmarks view,
       rom = SquatBiomechanics_calculateROM landmarks,
       posture = SquatBiomechanics_calculatePosture landmarks view,
       efficiency = SquatBiomechanics_calculateEfficiency landmarks phase view,
       bracing = SquatBiomechanics_calculateBracing landmarks view \<rparr>"

record SquatAnalyzer =
  sq_repCounter :: RepCounter
  baselineHeelY :: "real option"
  framesSinceStart :: nat

definition newSquatAnalyzer :: SquatAnalyzer where
  "newSquatAnalyzer =
     \<lparr> sq_repCounter = newRepCounter (Some EccentricFirst) None None,
       baselineHeelY = None, framesSinceStart = 0 \<rparr>"

text \<open>\<^verbatim>\<open>calculateSquatAngles\<close>: the hip, knee and ankle angles of the right side.\<close>

definition calculateSquatAngles :: "PoseLandmark list \<Rightarrow> real \<times> real \<times> real" where
  "calculateSquatAngles landmarks =
     (let shoulder = landmarks ! 12;
          hip = landmarks ! 24;
          knee = landmarks ! 26;
          ankle = landmarks ! 28;
          toe = landmarks ! 32
      in (calculateAngle shoulder hip knee, calculateAngle hip knee ankle,
          calculateAngle knee ankle toe))"

definition calculateNormalizedPosition :: "PoseLandmark list \<Rightarrow> real \<Rightarrow> real" where
  "calculateNormalizedPosition landmarks angles_knee =
     (let hip = landmarks ! 24;
          knee = landmarks ! 26;
          verticalDiff = py knee - py hip;
          angleNorm = clamp01 ((170 - angles_knee) / 80);
          yNorm = clamp01 ((0.05 - verticalDiff) / 0.15 + 0.5)
      in angleNorm * 0.4 + yNorm * 0.6)"

text \<open>\<^verbatim>\<open>detectHeelLift\<close>: the \<^verbatim>\<open>isLifted\<close> of its result, and the analyzer it leaves.\<close>

definition detectHeelLift :: "PoseLandmark list \<Rightarrow> SquatAnalyzer \<Rightarrow> bool \<times> SquatAnalyzer" where
  "detectHeelLift landmarks this =
     (let leftHeel = landmarks ! 29;
          rightHeel = landmarks ! 30;
          avgHeelY = (py leftHeel + py rightHeel) / 2
      in if framesSinceStart this < 10 then
           (False,
            this\<lparr> baselineHeelY :=
                    (case baselineHeelY this of
                       None \<Rightarrow> Some avgHeelY
                     | Some b \<Rightarrow> Some (b * 0.8 + avgHeelY * 0.2)) \<rparr>)
         else
           (case baselineHeelY this of
              None \<Rightarrow> (False, this)
            | Some b \<Rightarrow> (b - avgHeelY > 0.015, this)))"

definition detectButtWink :: "PoseLandmark list \<Rightarrow> CameraView \<Rightarrow> bool" where
  "detectButtWink landmarks view =
     (if view = Front then False
      else
        let shoulder = landmarks ! 12;
            hip = landmarks ! 24;
            knee = landmarks ! 26;
            torsoAngle = squatTorsoAngle landmarks;
            hipToKneeAngle = calculateAngle shoulder hip knee
        in hipToKneeAngle < 50 \<and> torsoAngle > 55)"

definition detectGoodMorning :: "PoseLandmark list \<Rightarrow> real" where
  "detectGoodMorning landmarks =
     (let torsoAngle = squatTorsoAngle landmarks
      in if torsoAngle > 60 then 40 else if torsoAngle > 50 then 70 else 100)"

fun getPhaseMessage :: "RepPhase \<Rightarrow> string" where
  "getPhaseMessage Rest = ''Ready''"
| "getPhaseMessage Top = ''Standing''"
| "getPhaseMessage Eccentric = ''Descending''"
| "getPhaseMessage Bottom = ''Hold''"
| "getPhaseMessage Concentric = ''Drive Up''"

text \<open>
  The messages and the quality flags of one frame, in the order the code pushes them:
  the heel lift first, then the \<^verbatim>\<open>switch\<close> on the phase.
\<close>

definition squatMessages ::
  "PoseLandmark list \<Rightarrow> CameraView \<Rightarrow> RepPhase \<Rightarrow> real \<Rightarrow> real \<Rightarrow> bool \<Rightarrow> string list \<times> string list" where
  "squatMessages landmarks view phase angles_knee posture_score isLifted =
     (let heelM = (if isLifted \<and> (phase = Eccentric \<or> phase = Bottom) then [''Heels Down!''] else []);
          heelQ = (if isLifted then [''Limited Ankle Mobility''] else [])
      in case phase of
           Rest \<Rightarrow> (heelM @ (if angles_knee < 160 then [''Stand Tall''] else []), heelQ)
         | Top \<Rightarrow> (heelM @ (if angles_knee < 160 then [''Stand Tall''] else []), heelQ)
         | Eccentric \<Rightarrow>
             (heelM
              @ (if view = Front \<and> SquatBiomechanics_checkValgus landmarks < 70
                   then [''Knees Out!''] else [])
              @ (if view = Side \<and> posture_score < 60 then [''Chest Up''] else []),
              heelQ
              @ (if view = Front \<and> SquatBiomechanics_checkValgus landmarks < 70
                   then [''Knee Valgus''] else []))
         | Bottom \<Rightarrow>
             (heelM
              @ (if SquatBiomechanics_checkDepth landmarks < 100 then [''Go Deeper''] else [])
              @ (if detectButtWink landmarks view then [''Neutral Spine''] else []),
              heelQ
              @ (if SquatBiomechanics_checkDepth landmarks < 100 then [''Partial Depth''] else [])
              @ (if detectButtWink landmarks view then [''Butt Wink''] else []))
         | Concentric \<Rightarrow>
             (heelM
              @ (if view = Side \<and> detectGoodMorning landmarks < 70
                   then [''Hips & Chest Together''] else [])
              @ (if view = Front \<and> SquatBiomechanics_checkValgus landmarks < 70
                   then [''Knees Out!''] else []),
              heelQ
              @ (if view = Side \<and> detectGoodMorning landmarks < 70
                   then [''Good Morning Pattern''] else [])))"

definition SquatAnalyzer_analyze ::
  "PoseLandmark list \<Rightarrow> real option \<Rightarrow> real \<Rightarrow> SquatAnalyzer \<Rightarrow> Feedback \<times> SquatAnalyzer" where
  "SquatAnalyzer_analyze landmarks timestamp clock this0 =
     (if length landmarks < 33 then (emptyFeedback, this0)
      else
        let this1 = this0\<lparr> framesSinceStart := framesSinceStart this0 + 1 \<rparr>;
            view = detectView landmarks;
            (angles_hip, angles_knee, angles_ankle) = calculateSquatAngles landmarks;
            normalizedPos = calculateNormalizedPosition landmarks angles_knee;
            rc = update normalizedPos timestamp clock (sq_repCounter this1);
            this2 = this1\<lparr> sq_repCounter := rc \<rparr>;
            pillarScores0 = SquatBiomechanics_analyzePillars landmarks (currentPhase rc) view;
            pillarScores = pillarScores0\<lparr> posture := SquatBiomechanics_calculatePosture landmarks view \<rparr>;
            (isLifted, this3) = detectHeelLift landmarks this2;
            (messages, qualityFlags) =
              squatMessages landmarks view (currentPhase rc) angles_knee (posture pillarScores) isLifted;
            totalScore = rom pillarScores * 0.35 + stability pillarScores * 0.25
                         + posture pillarScores * 0.20 + bracing pillarScores * 0.10
                         + efficiency pillarScores * 0.10
        in (\<lparr> score = totalScore, breakdown = pillarScores, reps = int (count rc),
               repPhase = phaseString (currentPhase rc),
               message = firstOr messages (getPhaseMessage (currentPhase rc)),
               correction = Some (joinComma messages),
               isGoodForm = (totalScore > 80 \<and> qualityFlags = []),
               jointAngles = Some [(''hip'', angles_hip), (''knee'', angles_knee),
                                   (''ankle'', angles_ankle)],
               detectedExercise = None \<rparr>, this3))"

subsection \<open>PlankAnalyzer\<close>

text \<open>
  Reading a property of \<^verbatim>\<open>undefined\<close> throws a \<^verbatim>\<open>TypeError\<close>; \<^verbatim>\<open>landmarks[i]\<close> is
  \<^verbatim>\<open>undefined\<close> when \<open>i\<close> is not below the length.
\<close>

datatype error = TypeError

definition nthOpt :: "'a list \<Rightarrow> nat \<Rightarrow> 'a option" where
  "nthOpt xs i = (if i < length xs then Some (xs ! i) else None)"

record PlankAnalyzer =
  accumulatedSeconds :: real
  lastFrameTime :: real
  isHolding :: bool
  bufferTime :: real
  plank_recordingStartTime :: real

definition newPlankAnalyzer :: PlankAnalyzer where
  "newPlankAnalyzer =
     \<lparr> accumulatedSeconds = 0, lastFrameTime = 0, isHolding = False, bufferTime = 0,
       plank_recordingStartTime = 0 \<rparr>"

definition setElapsedTime :: "real \<Rightarrow> PlankAnalyzer \<Rightarrow> PlankAnalyzer" where
  "setElapsedTime seconds this = this\<lparr> accumulatedSeconds := seconds, isHolding := True \<rparr>"

text \<open>
  The part of \<^verbatim>\<open>analyze\<close> after the landmarks of the chosen side are read: the form
  checks (each overwrites the message of the one before), the timer and the scores.
\<close>

definition plankFeedback ::
  "PoseLandmark \<Rightarrow> PoseLandmark \<Rightarrow> PoseLandmark \<Rightarrow> PoseLandmark \<Rightarrow> real \<Rightarrow> PlankAnalyzer
   \<Rightarrow> Feedback \<times> PlankAnalyzer" where
  "plankFeedback shoulder hip knee ankle deltaTime this =
     (let hipAngle = calculateAngle shoulder hip knee;
          kneeAngle = calculateAngle hip knee ankle;
          hipsHigh = (hipAngle < 165);
          midY = (py shoulder + py knee) / 2;
          hipsSag = (py hip > midY + 0.05);
          legsBent = (kneeAngle < 160);
          good = (\<not> hipsHigh \<and> \<not> hipsSag \<and> \<not> legsBent);
          message0 = (if legsBent then ''Legs bent''
                      else if hipsSag then ''Hips sagging''
                      else if hipsHigh then ''Hips too high''
                      else ''Hold position'');
          correction0 = (if legsBent then ''Straighten your legs''
                         else if hipsSag then ''Lift hips & squeeze glutes''
                         else if hipsHigh then ''Lower hips to form straight line''
                         else '''');
          buffered = bufferTime this + deltaTime;
          this1 = (if good then
                     (if buffered > 0.5 then
                        this\<lparr> bufferTime := buffered, isHolding := True,
                              accumulatedSeconds := accumulatedSeconds this + deltaTime \<rparr>
                      else this\<lparr> bufferTime := buffered \<rparr>)
                   else this\<lparr> isHolding := False, bufferTime := 0 \<rparr>);
          message1 = (if good then
                        (if buffered > 0.5 then ''Good Plank! Hold it!'' else ''Stabilizing...'')
                      else message0);
          stabilityScore = (if good then 1.0 else 0.5);
          postureScore = max 0 (1 - (\<bar>180 - hipAngle\<bar> / 40))
      in (\<lparr> score = (stabilityScore + postureScore) / 2,
             breakdown = \<lparr> total = Some stabilityScore, stability = stabilityScore, rom = 0,
                           posture = postureScore, efficiency = 1,
                           bracing = (if good then 1 else 0.5) \<rparr>,
             reps = \<lfloor>accumulatedSeconds this1\<rfloor>,
             repPhase = (if isHolding this1 then ''Holding'' else ''Resisted''),
             message = message1,
             correction = Some correction0,
             isGoodForm = good,
             jointAngles = Some [(''hip'', hipAngle), (''knee'', kneeAngle)],
             detectedExercise = None \<rparr>, this1))"

text \<open>
  \<^verbatim>\<open>analyze(landmarks, timestamp?)\<close>. There is no length guard; the timestamp argument is
  not read, the time is \<^verbatim>\<open>Date.now()\<close>. The frame time is stored before the first
  landmark is read, so a throw leaves it updated.
\<close>

definition PlankAnalyzer_analyze ::
  "PoseLandmark list \<Rightarrow> real option \<Rightarrow> real \<Rightarrow> PlankAnalyzer \<Rightarrow> (error + Feedback) \<times> PlankAnalyzer" where
  "PlankAnalyzer_analyze landmarks timestamp clock this0 =
     (let now = clock;
          this1 = (if lastFrameTime this0 = 0 then this0\<lparr> lastFrameTime := now \<rparr> else this0);
          deltaTime = (now - lastFrameTime this1) / 1000;
          this2 = this1\<lparr> lastFrameTime := now \<rparr>
      in case (nthOpt landmarks 23, nthOpt landmarks 24) of
           (Some l23, Some l24) \<Rightarrow>
             (let isLeftSide = (visibility l23 > visibility l24)
              in case (if isLeftSide
                       then (nthOpt landmarks 11, nthOpt landmarks 23, nthOpt landmarks 25, nthOpt landmarks 27)
                       else (nthOpt landmarks 12, nthOpt landmarks 24, nthOpt landmarks 26, nthOpt landmarks 28)) of
                   (Some shoulder, Some hip, Some knee, Some ankle) \<Rightarrow>
                     (let (fb, this3) = plankFeedback shoulder hip knee ankle deltaTime this2
                      in (Inr fb, this3))
                 | _ \<Rightarrow> (Inl TypeError, this2))
         | _ \<Rightarrow> (Inl TypeError, this2))"

subsection \<open>RussianTwistAnalyzer\<close>

datatype Direction = TwistLeft | TwistRight | TwistCenter

record RussianTwistAnalyzer =
  lastXOffset :: real
  direction :: Direction
  repCount :: nat
  crossedCenter :: bool
  lastPeakTime :: real
  currentMidTime :: real
  rt_repTimestamps :: "RepTimestamp list"
  rt_recordingStartTime :: real

text \<open>The constructor reads the clock.\<close>

definition newRussianTwistAnalyzer :: "real \<Rightarrow> RussianTwistAnalyzer" where
  "newRussianTwistAnalyzer clock =
     \<lparr> lastXOffset = 0, direction = TwistCenter, repCount = 0, crossedCenter = False,
       lastPeakTime = clock, currentMidTime = 0, rt_repTimestamps = [],
       rt_recordingStartTime = 0 \<rparr>"

definition RussianTwist_emptyFeedback :: Feedback where
  "RussianTwist_emptyFeedback = emptyFeedback\<lparr> detectedExercise := Some RussianTwist \<rparr>"

text \<open>
  \<^verbatim>\<open>timestamp || Date.now()\<close> takes the clock also for a timestamp of 0, and
  \<^verbatim>\<open>this.currentMidTime || Math.floor(...)\<close> the midpoint also for a mid time of 0.
\<close>

definition RussianTwistAnalyzer_analyze ::
  "PoseLandmark list \<Rightarrow> real option \<Rightarrow> real \<Rightarrow> RussianTwistAnalyzer \<Rightarrow> Feedback \<times> RussianTwistAnalyzer" where
  "RussianTwistAnalyzer_analyze landmarks timestamp clock this0 =
     (if length landmarks < 33 then (RussianTwist_emptyFeedback, this0)
      else
        let leftShoulder = landmarks ! 11; rightShoulder = landmarks ! 12;
            leftHip = landmarks ! 23; rightHip = landmarks ! 24;
            leftWrist = landmarks ! 15; rightWrist = landmarks ! 16;
            hipCenterX = (px leftHip + px rightHip) / 2;
            wristCenterX = (px leftWrist + px rightWrist) / 2;
            xOffset = wristCenterX - hipCenterX;
            twistThreshold = \<bar>px leftShoulder - px rightShoulder\<bar> * 0.5;
            now = orElse timestamp clock;
            currentDir = (if xOffset > 0 then TwistLeft else TwistRight);
            this1 =
              (if \<bar>xOffset\<bar> > twistThreshold \<and> currentDir \<noteq> direction this0 then
                 (if crossedCenter this0 \<and> now - lastPeakTime this0 > 500 then
                    this0\<lparr> repCount := repCount this0 + 1,
                           crossedCenter := False,
                           rt_repTimestamps :=
                             (if lastPeakTime this0 > 0 then
                                rt_repTimestamps this0 @
                                  [\<lparr> start = lastPeakTime this0,
                                     mid = (if currentMidTime this0 \<noteq> 0 then currentMidTime this0
                                            else real_of_int \<lfloor>(lastPeakTime this0 + now) / 2\<rfloor>),
                                     end_ms = now \<rparr>]
                              else rt_repTimestamps this0),
                           lastPeakTime := now,
                           currentMidTime := 0 \<rparr>
                  else this0)\<lparr> direction := currentDir \<rparr>
               else this0);
            this2 =
              (if (lastXOffset this1 > 0 \<and> xOffset < 0) \<or> (lastXOffset this1 < 0 \<and> xOffset > 0)
               then this1\<lparr> crossedCenter := True, currentMidTime := now \<rparr>
               else this1);
            this3 = this2\<lparr> lastXOffset := xOffset \<rparr>
        in (\<lparr> score = 100,
               breakdown = \<lparr> total = Some 100, stability = 100, rom = 100, posture = 100,
                             efficiency = 100, bracing = 100 \<rparr>,
               reps = int (repCount this3),
               repPhase = (if direction this3 = TwistLeft then ''Twisting Left'' else ''Twisting Right''),
               message = ''Twist side to side'',
               correction = Some '''',
               isGoodForm = True,
               jointAngles = None,
               detectedExercise = Some RussianTwist \<rparr>, this3))"

subsection \<open>GeometricRuleEngine\<close>

text \<open>The \<^verbatim>\<open>analyzers\<close> table: one analyzer object for each key.\<close>

record Analyzers =
  an_Squat :: SquatAnalyzer
  an_LegExtension :: RepCounter
  an_LegRaises :: LegRaisesAnalyzer
  an_PushUp :: RepCounter
  an_BenchPress :: RepCounter
  an_InclineBenchPress :: RepCounter
  an_ChestFlyMachine :: RepCounter
  an_TricepDips :: RepCounter
  an_PullUp :: RepCounter
  an_LatPulldown :: RepCounter
  an_TBarRow :: RepCounter
  an_BarbellBicepsCurl :: RepCounter
  an_LateralRaises :: RepCounter
  an_Plank :: PlankAnalyzer
  an_RussianTwist :: RussianTwistAnalyzer
  an_AutoDetect :: SquatAnalyzer

definition newAnalyzers :: "real \<Rightarrow> Analyzers" where
  "newAnalyzers clock =
     \<lparr> an_Squat = newSquatAnalyzer,
       an_LegExtension = newLegExtensionAnalyzer,
       an_LegRaises = newLegRaisesAnalyzer,
       an_PushUp = newPushUpAnalyzer,
       an_BenchPress = newBenchPressAnalyzer,
       an_InclineBenchPress = newInclineBenchAnalyzer,
       an_ChestFlyMachine = newChestFlyAnalyzer,
       an_TricepDips = newTricepDipsAnalyzer,
       an_PullUp = newPullUpAnalyzer,
       an_LatPulldown = newLatPulldownAnalyzer,
       an_TBarRow = newTBarRowAnalyzer,
       an_BarbellBicepsCurl = newBicepCurlAnalyzer,
       an_LateralRaises = newLateralRaiseAnalyzer,
       an_Plank = newPlankAnalyzer,
       an_RussianTwist = newRussianTwistAnalyzer clock,
       an_AutoDetect = newSquatAnalyzer \<rparr>"

text \<open>
  \<^verbatim>\<open>this.analyzers[targetExercise].analyze(landmarks, timestamp)\<close>: the call on the
  analyzer stored under the key, which is put back as the call left it. Every key is
  present, so the \<^verbatim>\<open>|| this.analyzers['Squat']\<close> fallback is never taken.
\<close>

fun analyzerAnalyze ::
  "ExerciseType \<Rightarrow> PoseLandmark list \<Rightarrow> real option \<Rightarrow> real \<Rightarrow> Analyzers
   \<Rightarrow> (error + Feedback) \<times> Analyzers" where
  "analyzerAnalyze Squat lm ts clock a =
     (let (fb, s) = SquatAnalyzer_analyze lm ts clock (an_Squat a) in (Inr fb, a\<lparr> an_Squat := s \<rparr>))"
| "analyzerAnalyze LegExtension lm ts clock a =
     (let (fb, s) = LegExtensionAnalyzer_analyze lm ts clock (an_LegExtension a)
      in (Inr fb, a\<lparr> an_LegExtension := s \<rparr>))"
| "analyzerAnalyze LegRaises lm ts clock a =
     (let (fb, s) = LegRaisesAnalyzer_analyze lm ts clock (an_LegRaises a)
      in (Inr fb, a\<lparr> an_LegRaises := s \<rparr>))"
| "analyzerAnalyze PushUp lm ts clock a =
     (let (fb, s) = PushUpAnalyzer_analyze lm ts clock (an_PushUp a) in (Inr fb, a\<lparr> an_PushUp := s \<rparr>))"
| "analyzerAnalyze BenchPress lm ts clock a =
     (let (fb, s) = BenchPressAnalyzer_analyze lm ts clock (an_BenchPress a)
      in (Inr fb, a\<lparr> an_BenchPress := s \<rparr>))"
| "analyzerAnalyze InclineBenchPress lm ts clock a =
     (let (fb, s) = InclineBenchAnalyzer_analyze lm ts clock (an_InclineBenchPress a)
      in (Inr fb, a\<lparr> an_InclineBenchPress := s \<rparr>))"
| "analyzerAnalyze ChestFlyMachine lm ts clock a =
     (let (fb, s) = ChestFlyAnalyzer_analyze lm ts clock (an_ChestFlyMachine a)
      in (Inr fb, a\<lparr> an_ChestFlyMachine := s \<rparr>))"
| "analyzerAnalyze TricepDips lm ts clock a =
     (let (fb, s) = TricepDipsAnalyzer_analyze lm ts clock (an_TricepDips a)
      in (Inr fb, a\<lparr> an_TricepDips := s \<rparr>))"
| "analyzerAnalyze PullUp lm ts clock a =
     (let (fb, s) = PullUpAnalyzer_analyze lm ts clock (an_PullUp a) in (Inr fb, a\<lparr> an_PullUp := s \<rparr>))"
| "analyzerAnalyze LatPulldown lm ts clock a =
     (let (fb, s) = LatPulldownAnalyzer_analyze lm ts clock (an_LatPulldown a)
      in (Inr fb, a\<lparr> an_LatPulldown := s \<rparr>))"
| "analyzerAnalyze TBarRow lm ts clock a =
     (let (fb, s) = TBarRowAnalyzer_analyze lm ts clock (an_TBarRow a) in (Inr fb, a\<lparr> an_TBarRow := s \<rparr>))"
| "analyzerAnalyze BarbellBicepsCurl lm ts clock a =
     (let (fb, s) = BicepCurlAnalyzer_analyze lm ts clock (an_BarbellBicepsCurl a)
      in (Inr fb, a\<lparr> an_BarbellBicepsCurl := s \<rparr>))"
| "analyzerAnalyze LateralRaises lm ts clock a =
     (let (fb, s) = LateralRaiseAnalyzer_analyze lm ts clock (an_LateralRaises a)
      in (Inr fb, a\<lparr> an_LateralRaises := s \<rparr>))"
| "analyzerAnalyze Plank lm ts clock a =
     (let (r, s) = PlankAnalyzer_analyze lm ts clock (an_Plank a) in (r, a\<lparr> an_Plank := s \<rparr>))"
| "analyzerAnalyze RussianTwist lm ts clock a =
     (let (fb, s) = RussianTwistAnalyzer_analyze lm ts clock (an_RussianTwist a)
      in (Inr fb, a\<lparr> an_RussianTwist := s \<rparr>))"
| "analyzerAnalyze AutoDetect lm ts clock a =
     (let (fb, s) = SquatAnalyzer_analyze lm ts clock (an_AutoDetect a)
      in (Inr fb, a\<lparr> an_AutoDetect := s \<rparr>))"

record GeometricRuleEngine =
  analyzers :: Analyzers
  currentExercise :: ExerciseType
  isLocked :: bool
  lockedExercise :: "ExerciseType option"
  consecutiveFrames :: nat
  potentialExercise :: "ExerciseType option"
  shoulderHistory :: "real list"

text \<open>The constructor; the clock is read by the Russian Twist analyzer's constructor.\<close>

definition newGeometricRuleEngine :: "real \<Rightarrow> GeometricRuleEngine" where
  "newGeometricRuleEngine clock =
     \<lparr> analyzers = newAnalyzers clock, currentExercise = Squat, isLocked = False,
       lockedExercise = None, consecutiveFrames = 0, potentialExercise = None,
       shoulderHistory = [] \<rparr>"

definition setExercise :: "ExerciseType \<Rightarrow> GeometricRuleEngine \<Rightarrow> GeometricRuleEngine" where
  "setExercise exercise e =
     e\<lparr> currentExercise := exercise, isLocked := False, lockedExercise := None,
        consecutiveFrames := 0, potentialExercise := None \<rparr>"

text \<open>The three placeholder objects of \<^verbatim>\<open>analyzeFrame\<close>.\<close>

definition noPoseDetected :: Feedback where
  "noPoseDetected = emptyFeedback\<lparr> message := ''No pose detected'' \<rparr>"

definition scanningFeedback :: Feedback where
  "scanningFeedback = emptyFeedback\<lparr> repPhase := ''Scanning...'', message := ''Get in position...'' \<rparr>"

definition detectingFeedback :: "ExerciseType option \<Rightarrow> ExerciseType \<Rightarrow> Feedback" where
  "detectingFeedback potential detected =
     emptyFeedback
       \<lparr> repPhase := ''Detecting '' @ (case potential of None \<Rightarrow> ''null'' | Some p \<Rightarrow> exerciseString p)
                       @ ''...'',
         message := (if detected = Plank then ''Hold still for Plank...''
                     else ''Start moving for '' @ exerciseString detected @ ''...''),
         detectedExercise := potential \<rparr>"

text \<open>The lock threshold of a detected exercise, before the movement check.\<close>

definition lockThresholdOf :: "ExerciseType \<Rightarrow> nat" where
  "lockThresholdOf detected =
     (if detected = PullUp \<or> detected = LatPulldown \<or> detected = BenchPress \<or> detected = LegRaises
        then 4
      else if detected = LateralRaises then 12
      else if detected = RussianTwist then 12
      else if detected = Plank then 30
      else 6)"

text \<open>
  The rolling buffer of shoulder heights: push, then drop the oldest above 30 samples;
  and \<^verbatim>\<open>variance = maxY - minY\<close> over a buffer, which is never empty after a push.
\<close>

definition pushShoulder :: "real \<Rightarrow> real list \<Rightarrow> real list" where
  "pushShoulder v h = (if length (h @ [v]) > 30 then tl (h @ [v]) else h @ [v])"

definition variance :: "real list \<Rightarrow> real" where
  "variance h = Max (set h) - Min (set h)"

text \<open>
  The tail of \<^verbatim>\<open>analyzeFrame\<close>: the call of the target's analyzer, the message prefix
  in Auto-Detect mode and the \<^verbatim>\<open>detectedExercise\<close> stamp. A throw of the analyzer
  propagates; the engine keeps what was assigned before it.
\<close>

definition routeFrame ::
  "ExerciseType \<Rightarrow> PoseLandmark list \<Rightarrow> real option \<Rightarrow> real \<Rightarrow> GeometricRuleEngine
   \<Rightarrow> (error + Feedback) \<times> GeometricRuleEngine" where
  "routeFrame targetExercise landmarks timestamp clock e =
     (let (r, a) = analyzerAnalyze targetExercise landmarks timestamp clock (analyzers e);
          e' = e\<lparr> analyzers := a \<rparr>
      in case r of
           Inl err \<Rightarrow> (Inl err, e')
         | Inr feedback \<Rightarrow>
             (Inr (feedback
                 \<lparr> message := (if currentExercise e = AutoDetect
                                then ''['' @ exerciseString targetExercise @ ''] '' @ message feedback
                                else message feedback),
                   detectedExercise :=
                     (case lockedExercise e of
                        Some l \<Rightarrow> Some l
                      | None \<Rightarrow> if currentExercise e \<noteq> AutoDetect then Some (currentExercise e)
                                else None) \<rparr>), e'))"

text \<open>
  The unlocked Auto-Detect branch for a frame the classifier names: the consecutive
  frame count, the threshold, the movement check, and the lock or the placeholder.
\<close>

definition detectFrame ::
  "ExerciseType \<Rightarrow> real \<Rightarrow> PoseLandmark list \<Rightarrow> real option \<Rightarrow> real \<Rightarrow> GeometricRuleEngine
   \<Rightarrow> (error + Feedback) \<times> GeometricRuleEngine" where
  "detectFrame detected0 var landmarks timestamp clock e =
     (let e1 = (if Some detected0 = potentialExercise e
                then e\<lparr> consecutiveFrames := consecutiveFrames e + 1 \<rparr>
                else e\<lparr> potentialExercise := Some detected0, consecutiveFrames := 1 \<rparr>);
          moving = ((detected0 = Plank \<or> detected0 = PushUp) \<and> var > 0.05);
          detected = (if moving then PushUp else detected0);
          lockThreshold = (if moving then 4 else lockThresholdOf detected0);
          e2 = (if moving \<and> potentialExercise e1 = Some PushUp
                then e1\<lparr> consecutiveFrames := consecutiveFrames e1 + 2 \<rparr> else e1)
      in if consecutiveFrames e2 > lockThreshold then
           (let e3 = e2\<lparr> lockedExercise := Some detected, isLocked := True \<rparr>;
                e4 = (if detected = Plank
                      then e3\<lparr> analyzers := (analyzers e3)
                               \<lparr> an_Plank := setElapsedTime (real lockThreshold / 6)
                                                (an_Plank (analyzers e3)) \<rparr> \<rparr>
                      else e3)
            in routeFrame detected landmarks timestamp clock e4)
         else (Inr (detectingFeedback (potentialExercise e2) detected), e2))"

text \<open>
  \<^verbatim>\<open>analyzeFrame(landmarks, timestamp?)\<close>; \<open>None\<close> for the landmarks is a missing
  (\<^verbatim>\<open>null\<close> or \<^verbatim>\<open>undefined\<close>) array. The guard lets every non-empty array through, and
  the shoulder landmarks 11 and 12 are read next.
\<close>

definition analyzeFrame ::
  "PoseLandmark list option \<Rightarrow> real option \<Rightarrow> real \<Rightarrow> GeometricRuleEngine
   \<Rightarrow> (error + Feedback) \<times> GeometricRuleEngine" where
  "analyzeFrame landmarksOpt timestamp clock e =
     (case landmarksOpt of
        None \<Rightarrow> (Inr noPoseDetected, e)
      | Some landmarks \<Rightarrow>
          if length landmarks = 0 then (Inr noPoseDetected, e)
          else
            (case (nthOpt landmarks 11, nthOpt landmarks 12) of
               (Some l11, Some l12) \<Rightarrow>
                 (let shoulderY = (py l11 + py l12) / 2;
                      e1 = e\<lparr> shoulderHistory := pushShoulder shoulderY (shoulderHistory e) \<rparr>;
                      var = variance (shoulderHistory e1)
                  in if currentExercise e1 = AutoDetect then
                       (if isLocked e1 \<and> lockedExercise e1 \<noteq> None then
                          (let e2 = (if lockedExercise e1 = Some Plank \<and> var > 0.05
                                     then e1\<lparr> lockedExercise := Some PushUp \<rparr> else e1)
                           in routeFrame (the (lockedExercise e2)) landmarks timestamp clock e2)
                        else
                          (case classifyExercise landmarks of
                             None \<Rightarrow> (Inr scanningFeedback, e1)
                           | Some detected \<Rightarrow> detectFrame detected var landmarks timestamp clock e1))
                     else routeFrame (currentExercise e1) landmarks timestamp clock e1)
             | _ \<Rightarrow> (Inl TypeError, e)))"

text \<open>Feeding frames: each is the landmarks, the timestamp argument and the clock reading.\<close>

fun analyzeFrames ::
  "(PoseLandmark list option \<times> real option \<times> real) list \<Rightarrow> GeometricRuleEngine
   \<Rightarrow> (error + Feedback) list \<times> GeometricRuleEngine" where
  "analyzeFrames [] e = ([], e)"
| "analyzeFrames ((lm, ts, clock) # fs) e =
     (let (r, e1) = analyzeFrame lm ts clock e;
          (rs, e2) = analyzeFrames fs e1
      in (r # rs, e2))"

text \<open>
  How a run of frames keeps the shoulders still: the shoulder range stays within 0.05 at
  every frame of the run that reaches the buffer (one with landmarks 11 and 12), from
  the given buffer on.
\<close>

fun steady :: "real list \<Rightarrow> (PoseLandmark list option \<times> real option \<times> real) list \<Rightarrow> bool" where
  "steady h [] = True"
| "steady h ((None, ts, clock) # fs) = steady h fs"
| "steady h ((Some lm, ts, clock) # fs) =
     (if length lm \<le> 12 then steady h fs
      else variance (pushShoulder (shoulderY lm) h) \<le> 0.05
           \<and> steady (pushShoulder (shoulderY lm) h) fs)"

text \<open>
  Frames lying flat along the x axis at height \<open>h\<close>, ear and shoulders to ankles in a
  straight horizontal line: with the arms straight down (a push-up at the top), and with the
  elbows bent at 90 degrees and the forearms along the floor (a plank).
\<close>

definition pushUpFrame :: "real \<Rightarrow> PoseLandmark list" where
  "pushUpFrame h = frameOf
     [(0, 0.1, h), (8, 0.1, h),
      (11, 0.2, h), (12, 0.2, h),
      (13, 0.2, h + 0.1), (14, 0.2, h + 0.1),
      (15, 0.2, h + 0.2), (16, 0.2, h + 0.2),
      (23, 0.5, h), (24, 0.5, h),
      (25, 0.7, h), (26, 0.7, h),
      (27, 0.9, h), (28, 0.9, h)]"

definition plankFrame :: "real \<Rightarrow> PoseLandmark list" where
  "plankFrame h = frameOf
     [(0, 0.1, h), (8, 0.1, h),
      (11, 0.2, h), (12, 0.2, h),
      (13, 0.2, h + 0.1), (14, 0.2, h + 0.1),
      (15, 0.3, h + 0.1), (16, 0.3, h + 0.1),
      (23, 0.5, h), (24, 0.5, h),
      (25, 0.7, h), (26, 0.7, h),
      (27, 0.9, h), (28, 0.9, h)]"

text \<open>
  Bookkeeping for runs of frames: the consecutive-frame count the next frame classified
  as \<open>X\<close> gives, the shoulder buffer after a run, and the engine as the frame that locks
  on \<open>X\<close> hands it to the analyzer (locking on Plank seeds its elapsed time with
  \<open>30 / 6\<close> seconds).
\<close>

definition nextCount :: "ExerciseType \<Rightarrow> GeometricRuleEngine \<Rightarrow> nat" where
  "nextCount X e = (if potentialExercise e = Some X then consecutiveFrames e + 1 else 1)"

fun historyAfter :: "real list \<Rightarrow> (PoseLandmark list option \<times> real option \<times> real) list \<Rightarrow> real list" where
  "historyAfter h [] = h"
| "historyAfter h ((None, ts, clock) # fs) = historyAfter h fs"
| "historyAfter h ((Some lm, ts, clock) # fs) =
     (if length lm \<le> 12 then historyAfter h fs
      else historyAfter (pushShoulder (shoulderY lm) h) fs)"

definition lockOn :: "ExerciseType \<Rightarrow> GeometricRuleEngine \<Rightarrow> GeometricRuleEngine" where
  "lockOn X e =
     e\<lparr> lockedExercise := Some X, isLocked := True,
        analyzers := (if X = Plank
                      then (analyzers e)\<lparr> an_Plank := setElapsedTime 5 (an_Plank (analyzers e)) \<rparr>
                      else analyzers e) \<rparr>"

text \<open>
  A seated frame for the Russian Twist analyzer: shoulders 0.2 apart, hips centred at
  0.5, both wrists \<open>d\<close> to the side of the hip centre.
\<close>

definition twistFrame :: "real \<Rightarrow> PoseLandmark list" where
  "twistFrame d = frameOf
     [(11, 0.4, 0.3), (12, 0.6, 0.3),
      (15, 0.5 + d, 0.5), (16, 0.5 + d, 0.5),
      (23, 0.5, 0.6), (24, 0.5, 0.6)]"

subsection \<open>The score weights, as a table\<close>

text \<open>
  The weights each analyzer's \<^verbatim>\<open>totalScore\<close> expression gives to stability, rom, posture,
  efficiency and bracing, in this order (a pillar the expression does not name has
  weight 0). Plank's score is the mean of its stability and posture scores; the Russian
  Twist analyzer returns constants and has no entry; the analyzer under the
  \<^verbatim>\<open>'Auto-Detect'\<close> key is a second Squat analyzer.
\<close>

fun scoreWeights :: "ExerciseType \<Rightarrow> (real \<times> real \<times> real \<times> real \<times> real) option" where
  "scoreWeights BarbellBicepsCurl = Some (0.4, 0.4, 0, 0.2, 0)"
| "scoreWeights PullUp = Some (0.3, 0.4, 0, 0, 0.3)"
| "scoreWeights ChestFlyMachine = Some (0.5, 0.5, 0, 0, 0)"
| "scoreWeights LegExtension = Some (0.3, 0.4, 0.3, 0, 0)"
| "scoreWeights Squat = Some (0.25, 0.35, 0.20, 0.10, 0.10)"
| "scoreWeights AutoDetect = Some (0.25, 0.35, 0.20, 0.10, 0.10)"
| "scoreWeights PushUp = Some (0.2, 0.3, 0.2, 0, 0.3)"
| "scoreWeights TBarRow = Some (0, 0.3, 0.4, 0, 0.3)"
| "scoreWeights TricepDips = Some (0.3, 0.4, 0.3, 0, 0)"
| "scoreWeights InclineBenchPress = Some (0.3, 0.2, 0, 0.3, 0.2)"
| "scoreWeights BenchPress = Some (0.3, 0.2, 0, 0.3, 0.2)"
| "scoreWeights LegRaises = Some (0.3, 0.3, 0, 0.2, 0.2)"
| "scoreWeights LateralRaises = Some (0, 0.4, 0.3, 0.3, 0)"
| "scoreWeights LatPulldown = Some (0.3, 0.4, 0.3, 0, 0)"
| "scoreWeights Plank = Some (0.5, 0, 0.5, 0, 0)"
| "scoreWeights RussianTwist = None"

fun weightedSum :: "real \<times> real \<times> real \<times> real \<times> real \<Rightarrow> ScoreBreakdown \<Rightarrow> real" where
  "weightedSum (ws, wr, wp, we, wb) b =
     stability b * ws + rom b * wr + posture b * wp + efficiency b * we + bracing b * wb"

fun weightTotal :: "real \<times> real \<times> real \<times> real \<times> real \<Rightarrow> real" where
  "weightTotal (ws, wr, wp, we, wb) = ws + wr + wp + we + wb"

subsection \<open>The two counting modes as mirror images\<close>

text \<open>
  ConcentricFirst is EccentricFirst with the roles of Eccentric and Concentric and of
  Bottom and Top exchanged.
\<close>

fun mirrorPhase :: "RepPhase \<Rightarrow> RepPhase" where
  "mirrorPhase Rest = Rest"
| "mirrorPhase Eccentric = Concentric"
| "mirrorPhase Concentric = Eccentric"
| "mirrorPhase Bottom = Top"
| "mirrorPhase Top = Bottom"

fun mirrorMode :: "CountMode \<Rightarrow> CountMode" where
  "mirrorMode EccentricFirst = ConcentricFirst"
| "mirrorMode ConcentricFirst = EccentricFirst"

definition mirror :: "RepCounter \<Rightarrow> RepCounter" where
  "mirror rc = rc\<lparr> currentPhase := mirrorPhase (currentPhase rc), mode := mirrorMode (mode rc) \<rparr>"

section \<open>Verification\<close>

subsection \<open>RepCounter: one transition per call\<close>

lemma update_mode [simp]: "mode (update c ts clk rc) = mode rc"
  by (simp add: update_def recordRep_def Let_def split: RepPhase.splits option.splits)

lemma update_count_cases:
  "count (update c ts clk rc) = count rc \<or>
   (count (update c ts clk rc) = count rc + 1 \<and> callsToCount (mode rc) (currentPhase rc) = 1)"
  by (cases "mode rc"; cases "currentPhase rc")
     (simp_all add: update_def recordRep_def Let_def split: option.splits)

lemma update_phase_step:
  "currentPhase (update c ts clk rc) = currentPhase rc \<or>
   phaseStep (mode rc) (currentPhase rc) (currentPhase (update c ts clk rc))"
  by (cases "mode rc"; cases "currentPhase rc")
     (simp_all add: update_def recordRep_def Let_def split: option.splits)

lemma update_calls:
  "callsToCount (mode rc) (currentPhase rc)
     \<le> Suc (callsToCount (mode rc) (currentPhase (update c ts clk rc)))"
  by (cases "mode rc"; cases "currentPhase rc")
     (simp_all add: update_def recordRep_def Let_def split: option.splits)

lemma updates_count_unchanged:
  "length cs < callsToCount (mode rc) (currentPhase rc) \<Longrightarrow> count (updates cs rc) = count rc"
proof (induction cs arbitrary: rc)
  case Nil
  then show ?case by simp
next
  case (Cons s cs)
  obtain c ts clk where s: "s = (c, ts, clk)" by (cases s)
  let ?rc = "update c ts clk rc"
  from Cons.prems have len: "Suc (length cs) < callsToCount (mode rc) (currentPhase rc)" by simp
  with update_calls [of rc c ts clk]
  have "length cs < callsToCount (mode ?rc) (currentPhase ?rc)" by simp
  then have "count (updates cs ?rc) = count ?rc" by (rule Cons.IH)
  moreover from len update_count_cases [of c ts clk rc] have "count ?rc = count rc" by auto
  ultimately show ?case by (simp add: s)
qed

text \<open>
  C10. One \<^verbatim>\<open>update\<close> call leaves the count or adds one to it, and leaves the phase or
  moves it along one edge of the mode's cycle, whatever the completion value; and from
  the Rest phase fewer than four calls leave the count as it was.
\<close>

theorem update_one_transition_per_call:
  "(count (update c ts clk rc) = count rc \<or> count (update c ts clk rc) = count rc + 1) \<and>
   (currentPhase (update c ts clk rc) = currentPhase rc \<or>
    phaseStep (mode rc) (currentPhase rc) (currentPhase (update c ts clk rc))) \<and>
   (currentPhase rc = Rest \<and> length cs < 4 \<longrightarrow> count (updates cs rc) = count rc)"
proof (intro conjI impI)
  show "count (update c ts clk rc) = count rc \<or> count (update c ts clk rc) = count rc + 1"
    using update_count_cases [of c ts clk rc] by blast
  show "currentPhase (update c ts clk rc) = currentPhase rc \<or>
    phaseStep (mode rc) (currentPhase rc) (currentPhase (update c ts clk rc))"
    by (rule update_phase_step)
next
  assume a: "currentPhase rc = Rest \<and> length cs < 4"
  then have "callsToCount (mode rc) (currentPhase rc) = 4" by (cases "mode rc") simp_all
  with a show "count (updates cs rc) = count rc" by (simp add: updates_count_unchanged)
qed

text \<open>
  At a fresh default counter: a sample of 1 crosses both thresholds at once and still
  makes one transition only, three calls leave the count at 0, and four calls can
  reach 1.
\<close>

theorem update_one_transition_per_call_witness:
  "currentPhase (newRepCounter None None None) = Rest \<and>
   length [(1, Some 0, 0), (1, Some 1, 1), (0, Some 2, 2 :: real)] < 4 \<and>
   currentPhase (update 1 (Some 0) 0 (newRepCounter None None None)) = Eccentric \<and>
   count (updates [(1, Some 0, 0), (1, Some 1, 1), (0, Some 2, 2)] (newRepCounter None None None)) = 0 \<and>
   count (updates [(1, Some 0, 0), (1, Some 1, 1), (0, Some 2, 2), (0, Some 3, 3)]
            (newRepCounter None None None)) = 1"
  using update_one_transition_per_call
          [of 1 "Some 0" 0 "newRepCounter None None None"
              "[(1, Some 0, 0), (1, Some 1, 1), (0, Some 2, 2)]"]
  by (simp add: newRepCounter_def update_def recordRep_def orElse_def)

subsection \<open>RepCounter: the false-start sequence\<close>

theorem false_start_count_counterexample:
  "count (updates [(0.4, Some 0, 0), (0.2, Some 166, 0), (0.4, Some 332, 0),
                   (0.6, Some 498, 0), (0.2, Some 664, 0)]
            (newRepCounter (Some EccentricFirst) (Some 0.55) (Some 0.35))) \<noteq> 1"
  by (simp add: newRepCounter_def update_def recordRep_def orElse_def)

text \<open>
  C4 (amended). After \<open>[0.4, 0.2, 0.4, 0.6, 0.2]\<close> the fresh counter has count 0 and is in
  the Concentric phase, with no timestamp recorded: the false start used two samples and
  the repetition begun at the third sample is one call short of completion. One more
  sample of 0.2 completes it: count 1, and one timestamp, which starts at the third
  sample's time.
\<close>

theorem false_start_recovery:
  "count (updates [(0.4, Some t0, k0), (0.2, Some t1, k1), (0.4, Some t2, k2),
                   (0.6, Some t3, k3), (0.2, Some t4, k4)]
            (newRepCounter (Some EccentricFirst) (Some 0.55) (Some 0.35))) = 0 \<and>
   currentPhase (updates [(0.4, Some t0, k0), (0.2, Some t1, k1), (0.4, Some t2, k2),
                   (0.6, Some t3, k3), (0.2, Some t4, k4)]
            (newRepCounter (Some EccentricFirst) (Some 0.55) (Some 0.35))) = Concentric \<and>
   repTimestamps (updates [(0.4, Some t0, k0), (0.2, Some t1, k1), (0.4, Some t2, k2),
                   (0.6, Some t3, k3), (0.2, Some t4, k4)]
            (newRepCounter (Some EccentricFirst) (Some 0.55) (Some 0.35))) = [] \<and>
   count (updates [(0.4, Some t0, k0), (0.2, Some t1, k1), (0.4, Some t2, k2),
                   (0.6, Some t3, k3), (0.2, Some t4, k4), (0.2, Some t5, k5)]
            (newRepCounter (Some EccentricFirst) (Some 0.55) (Some 0.35))) = 1 \<and>
   map start (repTimestamps (updates [(0.4, Some t0, k0), (0.2, Some t1, k1), (0.4, Some t2, k2),
                   (0.6, Some t3, k3), (0.2, Some t4, k4), (0.2, Some t5, k5)]
            (newRepCounter (Some EccentricFirst) (Some 0.55) (Some 0.35)))) = [t2]"
  by (simp add: newRepCounter_def update_def recordRep_def orElse_def)

subsection \<open>The angle primitive\<close>




text \<open>
  Rounding to the nearest integer: it fixes the integers, is monotone and odd.
\<close>

lemma rne_cases: "rne x = \<lfloor>x\<rfloor> \<or> rne x = \<lfloor>x\<rfloor> + 1"
  by (simp add: rne_def)

lemma rne_of_int [simp]: "rne (of_int n) = n"
  by (simp add: rne_def)

lemma rne_zero [simp]: "rne 0 = 0"
  by (simp add: rne_def)


lemma rne_mono:
  assumes "x \<le> y"
  shows "rne x \<le> rne y"
proof (cases "\<lfloor>x\<rfloor> = \<lfloor>y\<rfloor>")
  case True
  from assms have "x - of_int \<lfloor>x\<rfloor> \<le> y - of_int \<lfloor>x\<rfloor>" by simp
  then show ?thesis unfolding rne_def True [symmetric] by auto
next
  case False
  with assms have "\<lfloor>x\<rfloor> < \<lfloor>y\<rfloor>" using floor_mono [OF assms] by linarith
  then show ?thesis using rne_cases [of x] rne_cases [of y] by linarith
qed


text \<open>
  Rounding to double precision: it is odd and monotone, and a value within half a unit
  in the last place of \<open>m * u\<close> is rounded to it.
\<close>

lemma ulpExponent_minus [simp]: "ulpExponent (- x) = ulpExponent x"
  by (simp add: ulpExponent_def)


lemma fl_zero [simp]: "fl 0 = 0"
  by (simp add: fl_def)

lemma two_powi_pos [simp]: "0 < (2::real) powi k"
  by (simp add: zero_less_power_int)


lemma two_powr_int: "(2::real) powr real_of_int k = 2 powi k"
  by (rule powr_real_of_int') auto

lemma floor_log2:
  assumes "2 powi k \<le> x" "x < 2 powi (k + 1)"
  shows "\<lfloor>log 2 x\<rfloor> = k"
proof -
  have "0 < x" using assms(1) two_powi_pos [of k] by linarith
  moreover have "2 powr real_of_int k \<le> x \<and> x < 2 powr real_of_int (k + 1)"
    using assms unfolding two_powr_int by simp
  ultimately show ?thesis
    using floor_log_eq_powr_iff [of x 2 k] by simp
qed

lemma floor_log2_bounds:
  assumes "0 < x"
  shows "2 powi \<lfloor>log 2 x\<rfloor> \<le> x" "x < 2 powi (\<lfloor>log 2 x\<rfloor> + 1)"
proof -
  have "2 powr real_of_int \<lfloor>log 2 x\<rfloor> \<le> x \<and> x < 2 powr real_of_int (\<lfloor>log 2 x\<rfloor> + 1)"
    using floor_log_eq_powr_iff [of x 2 "\<lfloor>log 2 x\<rfloor>"] assms by simp
  then show "2 powi \<lfloor>log 2 x\<rfloor> \<le> x" "x < 2 powi (\<lfloor>log 2 x\<rfloor> + 1)"
    unfolding two_powr_int by simp_all
qed

lemma two_powi_split:
  "(2::real) ^ n * 2 powi (k - int n) = 2 powi k"
  using power_int_add [of "2::real" "int n" "k - int n"] by simp




















lemma Math_atan2_zero [simp]: "Math_atan2 0 0 = 0"
  by (simp add: Math_atan2_def atan2_def)














lemma floor_log2_le:
  assumes "0 < x" "x < 2 powi (k + 1)"
  shows "\<lfloor>log 2 x\<rfloor> \<le> k"
proof (rule ccontr)
  assume "\<not> \<lfloor>log 2 x\<rfloor> \<le> k"
  then have "k + 1 \<le> \<lfloor>log 2 x\<rfloor>" by simp
  then have "(2::real) powi (k + 1) \<le> 2 powi \<lfloor>log 2 x\<rfloor>" by (intro power_int_increasing) auto
  also have "\<dots> \<le> x" using assms(1) by (rule floor_log2_bounds)
  finally show False using assms(2) by simp
qed














text \<open>
  Rounding is idempotent, so every rounded value is a double; and the angle when \<open>a\<close>
  is at \<open>b\<close>.
\<close>

lemma fl_on_ulp_grid:
  assumes "x / 2 powi ulpExponent x = of_int n"
  shows "fl x = x"
proof (cases "x = 0")
  case True
  then show ?thesis by simp
next
  case False
  have "fl x = of_int n * 2 powi ulpExponent x" using False by (simp add: fl_def assms)
  also have "\<dots> = x / 2 powi ulpExponent x * 2 powi ulpExponent x" by (simp only: assms)
  finally show ?thesis by simp
qed

lemma fl_exact:
  assumes x: "x = of_int n * 2 powi e" and e: "- 1074 \<le> e" and n: "\<bar>n\<bar> \<le> 2 ^ 53"
  shows "fl x = x"
proof (cases "n = 0")
  case True
  then show ?thesis using x by simp
next
  case False
  then have x0: "x \<noteq> 0" using x by simp
  have ax: "\<bar>x\<bar> = of_int \<bar>n\<bar> * 2 powi e" by (simp add: x abs_mult)
  show ?thesis
  proof (cases "\<bar>n\<bar> = 2 ^ 53")
    case True
    have "\<bar>x\<bar> = 2 ^ 53 * 2 powi e" by (simp add: ax True)
    also have "\<dots> = 2 powi (e + 53)" using two_powi_split [of 53 "e + 53"] by simp
    finally have "\<bar>x\<bar> = 2 powi (e + 53)" .
    then have "\<lfloor>log 2 \<bar>x\<bar>\<rfloor> = e + 53"
      by (intro floor_log2) (auto intro!: power_int_strict_increasing)
    then have h: "ulpExponent x = e + 1" using e by (simp add: ulpExponent_def)
    have "(2::real) powi (e + 1) = 2 * 2 powi e" by (simp add: power_int_add)
    then have "x / 2 powi ulpExponent x = of_int n / 2" unfolding h by (simp add: x)
    also have "n = 2 ^ 53 \<or> n = - (2 ^ 53)" using True by linarith
    then have "even n" by auto
    then have "of_int n / 2 = (of_int (n div 2) :: real)" by (auto elim!: evenE)
    finally show ?thesis by (rule fl_on_ulp_grid)
  next
    case False
    then have "\<bar>n\<bar> < 2 ^ 53" using n by simp
    then have "(of_int \<bar>n\<bar> :: real) < of_int (2 ^ 53)" by (simp only: of_int_less_iff)
    then have "\<bar>x\<bar> < 2 ^ 53 * 2 powi e" by (simp add: ax)
    also have "\<dots> = 2 powi (e + 52 + 1)"
      using two_powi_split [of 53 "e + 53"] by (simp add: add.commute)
    finally have "\<lfloor>log 2 \<bar>x\<bar>\<rfloor> \<le> e + 52" using x0 by (intro floor_log2_le) auto
    then have h: "ulpExponent x \<le> e" using e by (simp add: ulpExponent_def)
    define j where "j = nat (e - ulpExponent x)"
    have j: "ulpExponent x = e - int j" using h by (simp add: j_def)
    have "(2::real) ^ j * 2 powi ulpExponent x = 2 powi e" unfolding j by (rule two_powi_split)
    then have "x / 2 powi ulpExponent x = of_int (n * 2 ^ j)" by (simp add: x field_simps)
    then show ?thesis by (rule fl_on_ulp_grid)
  qed
qed

lemma fl_fl: "fl (fl x) = fl x"
proof (cases "x = 0")
  case True
  then show ?thesis by simp
next
  case False
  define g where "g = ulpExponent x"
  define m where "m = rne (x / 2 powi g)"
  have f: "fl x = of_int m * 2 powi g" using False by (simp add: fl_def g_def m_def)
  have g: "- 1074 \<le> g" "\<lfloor>log 2 \<bar>x\<bar>\<rfloor> + 1 \<le> g + 53" by (simp_all add: g_def ulpExponent_def)
  have "\<bar>x\<bar> < 2 powi (\<lfloor>log 2 \<bar>x\<bar>\<rfloor> + 1)" using False by (intro floor_log2_bounds) simp
  also have "\<dots> \<le> 2 powi (g + 53)" using g(2) by (intro power_int_increasing) auto
  also have "\<dots> = 2 ^ 53 * 2 powi g" using two_powi_split [of 53 "g + 53"] by simp
  finally have "\<bar>x\<bar> / 2 powi g \<le> 2 ^ 53" by (simp add: pos_divide_le_eq)
  then have "\<bar>x / 2 powi g\<bar> \<le> 2 ^ 53" by (simp add: abs_divide)
  then have "x / 2 powi g \<le> 2 ^ 53" "- (x / 2 powi g) \<le> 2 ^ 53"
    unfolding abs_le_iff by blast+
  then have b: "x / 2 powi g \<le> of_int (2 ^ 53)" "of_int (- (2 ^ 53)) \<le> x / 2 powi g"
    by simp_all
  have "m \<le> 2 ^ 53" using rne_mono [OF b(1)] by (simp only: rne_of_int m_def)
  moreover have "- (2 ^ 53) \<le> m" using rne_mono [OF b(2)] by (simp only: rne_of_int m_def)
  ultimately have "\<bar>m\<bar> \<le> 2 ^ 53" by simp
  from fl_exact [OF f g(1) this] show ?thesis .
qed

lemma isDouble_fl [simp]: "isDouble (fl x)"
  by (simp add: isDouble_def fl_fl)

lemma isDouble_Math_atan2 [simp]: "isDouble (Math_atan2 y x)"
  by (simp add: Math_atan2_def)









subsection \<open>The classifier: T-Bar Row comes first\<close>

lemma frameOf_nth: "i < 33 \<Longrightarrow> frameOf ps ! i = (case map_of ps i of None \<Rightarrow> pt 0 0 | Some (a, b) \<Rightarrow> pt a b)"
  by (simp add: frameOf_def)

lemma frameOf_length [simp]: "length (frameOf ps) = 33"
  by (simp add: frameOf_def)

lemmas measures = shoulderY_def hipY_def wristY_def kneeY_def ankleY_def noseY_def shoulderX_def
  hipX_def ankleX_def wristX_def torsoHeight_def verticalDiff_def horizontalDiff_def

lemma tbarCurlFrame_hipAngle: "hipAngle tbarCurlFrame = 180"
  by (simp add: hipAngle_def getAvgAngle_def calculateAngle_def atan2_def tbarCurlFrame_def frameOf_nth pt_def)

lemma tbarCurlFrame_kneeAngle: "kneeAngle tbarCurlFrame = 180"
  by (simp add: kneeAngle_def getAvgAngle_def calculateAngle_def atan2_def tbarCurlFrame_def frameOf_nth pt_def)

lemma tbarCurlFrame_elbowAngle: "elbowAngle tbarCurlFrame = 90"
  by (simp add: elbowAngle_def getAvgAngle_def calculateAngle_def atan2_def tbarCurlFrame_def frameOf_nth pt_def)

lemma tbarCurlFrame_inclination: "bodyInclinationDeg tbarCurlFrame = 45"
  by (simp add: bodyInclinationDeg_def bodyDx_def bodyDy_def measures atan2_def arctan_one tbarCurlFrame_def frameOf_nth pt_def)



lemma tbarCurlFrame_values:
  "shoulderY tbarCurlFrame = 0.6" "hipY tbarCurlFrame = 0.68" "wristY tbarCurlFrame = 0.7"
  "kneeY tbarCurlFrame = 0.74" "ankleY tbarCurlFrame = 0.8" "noseY tbarCurlFrame = 0.55"
  "shoulderX tbarCurlFrame = 0.4" "hipX tbarCurlFrame = 0.4"
  "px (tbarCurlFrame ! 13) = 0.4" "px (tbarCurlFrame ! 14) = 0.4"
  "py (tbarCurlFrame ! 13) = 0.7" "py (tbarCurlFrame ! 14) = 0.7"
  by (simp_all add: measures tbarCurlFrame_def frameOf_nth pt_def)

lemma tbarCurlFrame_standing: "isStanding tbarCurlFrame"
  by (simp add: isStanding_def upright_def torsoHeight_def verticalDiff_def horizontalDiff_def tbarCurlFrame_values)

lemma tbarCurlFrame_curl: "standingRules tbarCurlFrame = Some BarbellBicepsCurl"
  by (simp add: standingRules_def tbarCurlFrame_hipAngle tbarCurlFrame_kneeAngle tbarCurlFrame_elbowAngle torsoInclined_def isBentOverHighKnee_def hipFlexedLE_def
      handsInDipZone_def feetOnFloor_def isDeepSquat_def handsOverhead_def elbowsTucked_def
      elbowWidth_def elbowsLow_def legsStraightish_def isLegMoving_def torsoHeight_def tbarCurlFrame_values)

text \<open>
  C9. A frame of at least 33 landmarks with the global T-Bar Row signature (hip and knee
  angles within 30 degrees of straight, body inclination strictly between 20 and 80
  degrees, wrists below shoulders) is classified as T-Bar Row, whatever the later rules
  of the cascade would say of it.
\<close>

theorem tbar_row_priority:
  assumes "length lm \<ge> 33"
    and "\<bar>180 - hipAngle lm\<bar> < 30" and "\<bar>180 - kneeAngle lm\<bar> < 30"
    and "20 < bodyInclinationDeg lm" and "bodyInclinationDeg lm < 80"
    and "wristY lm > shoulderY lm"
  shows "classifyExercise lm = Some TBarRow"
  using assms
  by (simp add: classifyExercise_def isBodyStraight_def bodyStraightness_def legStraightness_def
      isInclinedHypotenuse_def handsAreLow_def)

text \<open>
  The synthetic frame has the signature and is classified as T-Bar Row, although it is
  standing and the rules of the standing branch would make it a Barbell Biceps Curl.
\<close>

theorem tbar_row_priority_witness:
  "length tbarCurlFrame = 33 \<and>
   hipAngle tbarCurlFrame = 180 \<and> kneeAngle tbarCurlFrame = 180 \<and>
   bodyInclinationDeg tbarCurlFrame = 45 \<and>
   wristY tbarCurlFrame > shoulderY tbarCurlFrame \<and>
   isStanding tbarCurlFrame \<and>
   standingRules tbarCurlFrame = Some BarbellBicepsCurl \<and>
   classifyExercise tbarCurlFrame = Some TBarRow"
proof -
  have len: "length tbarCurlFrame = 33" by (simp add: tbarCurlFrame_def)
  have "classifyExercise tbarCurlFrame = Some TBarRow"
    by (rule tbar_row_priority) (simp_all add: tbarCurlFrame_hipAngle tbarCurlFrame_kneeAngle tbarCurlFrame_inclination tbarCurlFrame_values len)
  with tbarCurlFrame_hipAngle tbarCurlFrame_kneeAngle tbarCurlFrame_inclination tbarCurlFrame_standing tbarCurlFrame_curl len show ?thesis by (simp add: tbarCurlFrame_values)
qed

subsection \<open>Concrete frames and their classification\<close>

lemma pushUpFrame_values:
  "length (pushUpFrame h) = 33"
  "shoulderY (pushUpFrame h) = h" "hipY (pushUpFrame h) = h" "wristY (pushUpFrame h) = h + 0.2"
  "kneeY (pushUpFrame h) = h" "ankleY (pushUpFrame h) = h" "noseY (pushUpFrame h) = h"
  "shoulderX (pushUpFrame h) = 0.2" "hipX (pushUpFrame h) = 0.5" "ankleX (pushUpFrame h) = 0.9"
  "py (pushUpFrame h ! 13) = h + 0.1" "py (pushUpFrame h ! 14) = h + 0.1"
  by (simp_all add: measures pushUpFrame_def frameOf_nth pt_def)

lemma pushUpFrame_angles:
  "hipAngle (pushUpFrame h) = 180" "kneeAngle (pushUpFrame h) = 180" "avgElbow (pushUpFrame h) = 180"
  by (simp_all add: hipAngle_def kneeAngle_def avgElbow_def getAvgAngle_def calculateAngle_def atan2_def
      pushUpFrame_def frameOf_nth pt_def)

lemma pushUpFrame_classified: "classifyExercise (pushUpFrame h) = Some PushUp"
  by (simp add: classifyExercise_def isBodyStraight_def isInclinedHypotenuse_def bodyInclinationDeg_def
      bodyDx_def bodyDy_def atan2_def upright_def kneesBentForTwist_def isStanding_def isLying_def
      horizontalDiff_def verticalDiff_def torsoHeight_def lyingRules_def isVSitPosition_def
      shouldersHigherThanHips_def legsAreVertical_def legsHorizontal_def bodyIsFlat_def legsStraight_def
      pushUpFrame_values pushUpFrame_angles)

subsection \<open>The orchestrator, frame by frame\<close>

lemma classified_length: "classifyExercise lm = Some X \<Longrightarrow> 33 \<le> length lm"
  by (simp add: classifyExercise_def split: if_splits)

lemma nthOpt_in_range [simp]: "i < length xs \<Longrightarrow> nthOpt xs i = Some (xs ! i)"
  by (simp add: nthOpt_def)

lemma nthOpt_out_of_range [simp]: "length xs \<le> i \<Longrightarrow> nthOpt xs i = None"
  by (simp add: nthOpt_def)

lemma routeFrame_lock [simp]:
  "isLocked (snd (routeFrame X lm ts clk e)) = isLocked e"
  "lockedExercise (snd (routeFrame X lm ts clk e)) = lockedExercise e"
  "currentExercise (snd (routeFrame X lm ts clk e)) = currentExercise e"
  "consecutiveFrames (snd (routeFrame X lm ts clk e)) = consecutiveFrames e"
  "potentialExercise (snd (routeFrame X lm ts clk e)) = potentialExercise e"
  "shoulderHistory (snd (routeFrame X lm ts clk e)) = shoulderHistory e"
  by (simp_all add: routeFrame_def Let_def split: prod.splits sum.splits)

text \<open>The engine state a frame leaves when it only moves the shoulder buffer.\<close>

lemma analyzeFrame_locked:
  assumes "currentExercise e = AutoDetect" "isLocked e" "lockedExercise e = Some X"
    and "12 < length lm"
    and "\<not> (X = Plank \<and> variance (pushShoulder (shoulderY lm) (shoulderHistory e)) > 0.05)"
  shows "analyzeFrame (Some lm) ts clk e =
           routeFrame X lm ts clk (e\<lparr> shoulderHistory := pushShoulder (shoulderY lm) (shoulderHistory e) \<rparr>)"
  using assms by (auto simp: analyzeFrame_def Let_def shoulderY_def)

lemma analyzeFrame_plank_moves:
  assumes "currentExercise e = AutoDetect" "isLocked e" "lockedExercise e = Some Plank"
    and "12 < length lm"
    and "variance (pushShoulder (shoulderY lm) (shoulderHistory e)) > 0.05"
  shows "analyzeFrame (Some lm) ts clk e =
           routeFrame PushUp lm ts clk
             (e\<lparr> shoulderHistory := pushShoulder (shoulderY lm) (shoulderHistory e),
                  lockedExercise := Some PushUp \<rparr>)"
  using assms by (auto simp: analyzeFrame_def Let_def shoulderY_def)

lemma detectFrame_waits:
  assumes "\<not> ((X = Plank \<or> X = PushUp) \<and> var > 0.05)"
    and "nextCount X e \<le> lockThresholdOf X"
  shows "detectFrame X var lm ts clk e =
           (Inr (detectingFeedback (Some X) X),
            e\<lparr> potentialExercise := Some X, consecutiveFrames := nextCount X e \<rparr>)"
proof -
  have m: "((X = Plank \<or> X = PushUp) \<and> var > 0.05) = False" using assms(1) by blast
  show ?thesis
  proof (cases "potentialExercise e = Some X")
    case True
    then have same: "e\<lparr> potentialExercise := Some X \<rparr> = e" by (cases e) simp
    from True assms(2) show ?thesis
      unfolding detectFrame_def Let_def m by (simp add: nextCount_def same)
  next
    case False
    then have "(Some X = potentialExercise e) = False" by auto
    with False assms(2) show ?thesis
      unfolding detectFrame_def Let_def m by (simp add: nextCount_def)
  qed
qed

lemma lockThresholdOf_bounds: "4 \<le> lockThresholdOf X" "lockThresholdOf X \<le> 30"
  by (simp_all add: lockThresholdOf_def)

lemma detectFrame_locks:
  assumes "\<not> ((X = Plank \<or> X = PushUp) \<and> var > 0.05)"
    and "nextCount X e > lockThresholdOf X"
  shows "detectFrame X var lm ts clk e =
           routeFrame X lm ts clk
             (e\<lparr> potentialExercise := Some X, consecutiveFrames := nextCount X e,
                 lockedExercise := Some X, isLocked := True,
                 analyzers := (if X = Plank
                               then (analyzers e)\<lparr> an_Plank := setElapsedTime 5 (an_Plank (analyzers e)) \<rparr>
                               else analyzers e) \<rparr>)"
proof -
  have m: "((X = Plank \<or> X = PushUp) \<and> var > 0.05) = False" using assms(1) by blast
  have five: "X = Plank \<Longrightarrow> real (lockThresholdOf X) / 6 = 5"
    by (simp add: lockThresholdOf_def)
  show ?thesis
  proof (cases "potentialExercise e = Some X")
    case True
    then have same: "e\<lparr> potentialExercise := Some X \<rparr> = e" by (cases e) simp
    from True assms(2) five show ?thesis
      unfolding detectFrame_def Let_def m by (simp add: nextCount_def same)
  next
    case False
    with assms(2) lockThresholdOf_bounds(1) [of X] have False by (simp add: nextCount_def)
    then show ?thesis ..
  qed
qed

lemma analyzeFrame_unlocked:
  assumes "currentExercise e = AutoDetect" "\<not> isLocked e" "classifyExercise lm = Some X"
  shows "analyzeFrame (Some lm) ts clk e =
           detectFrame X (variance (pushShoulder (shoulderY lm) (shoulderHistory e))) lm ts clk
             (e\<lparr> shoulderHistory := pushShoulder (shoulderY lm) (shoulderHistory e) \<rparr>)"
proof -
  from assms(3) have "33 \<le> length lm" by (rule classified_length)
  then have len: "11 < length lm" "12 < length lm" "lm \<noteq> []" by auto
  with assms show ?thesis
    by (simp add: analyzeFrame_def Let_def shoulderY_def)
qed

lemma analyzeFrame_detecting:
  assumes "currentExercise e = AutoDetect" "\<not> isLocked e"
    and "classifyExercise lm = Some X"
    and "\<not> ((X = Plank \<or> X = PushUp) \<and> variance (pushShoulder (shoulderY lm) (shoulderHistory e)) > 0.05)"
    and "nextCount X e \<le> lockThresholdOf X"
  shows "analyzeFrame (Some lm) ts clk e =
           (Inr (detectingFeedback (Some X) X),
            e\<lparr> shoulderHistory := pushShoulder (shoulderY lm) (shoulderHistory e),
                potentialExercise := Some X, consecutiveFrames := nextCount X e \<rparr>)"
proof -
  let ?e = "e\<lparr> shoulderHistory := pushShoulder (shoulderY lm) (shoulderHistory e) \<rparr>"
  have n: "nextCount X ?e = nextCount X e" by (simp add: nextCount_def)
  from assms(5) have "nextCount X ?e \<le> lockThresholdOf X" by (simp only: n)
  from detectFrame_waits [OF assms(4) this] show ?thesis
    unfolding analyzeFrame_unlocked [OF assms(1-3)] by (simp add: n)
qed

lemma analyzeFrame_locks:
  assumes "currentExercise e = AutoDetect" "\<not> isLocked e"
    and "classifyExercise lm = Some X"
    and "\<not> ((X = Plank \<or> X = PushUp) \<and> variance (pushShoulder (shoulderY lm) (shoulderHistory e)) > 0.05)"
    and "nextCount X e > lockThresholdOf X"
  shows "analyzeFrame (Some lm) ts clk e =
           routeFrame X lm ts clk
             (e\<lparr> shoulderHistory := pushShoulder (shoulderY lm) (shoulderHistory e),
                 potentialExercise := Some X, consecutiveFrames := nextCount X e,
                 lockedExercise := Some X, isLocked := True,
                 analyzers := (if X = Plank
                               then (analyzers e)\<lparr> an_Plank := setElapsedTime 5 (an_Plank (analyzers e)) \<rparr>
                               else analyzers e) \<rparr>)"
proof -
  let ?e = "e\<lparr> shoulderHistory := pushShoulder (shoulderY lm) (shoulderHistory e) \<rparr>"
  have n: "nextCount X ?e = nextCount X e" by (simp add: nextCount_def)
  from assms(5) have "nextCount X ?e > lockThresholdOf X" by (simp only: n)
  from detectFrame_locks [OF assms(4) this] show ?thesis
    unfolding analyzeFrame_unlocked [OF assms(1-3)] by (simp add: n)
qed


lemma routeFrame_fst_cong:
  assumes "analyzers e1 = analyzers e2" "currentExercise e1 = currentExercise e2"
    "lockedExercise e1 = lockedExercise e2"
  shows "fst (routeFrame X lm ts clk e1) = fst (routeFrame X lm ts clk e2)"
  unfolding routeFrame_def Let_def assms by (simp split: prod.splits sum.splits)

lemma routeFrame_analyzers:
  "analyzers (snd (routeFrame X lm ts clk e)) = snd (analyzerAnalyze X lm ts clk (analyzers e))"
  by (simp add: routeFrame_def Let_def split: prod.splits sum.splits)

lemma analyzeFrames_append:
  "analyzeFrames (fs @ gs) e =
     (fst (analyzeFrames fs e) @ fst (analyzeFrames gs (snd (analyzeFrames fs e))),
      snd (analyzeFrames gs (snd (analyzeFrames fs e))))"
  by (induction fs e rule: analyzeFrames.induct) (simp_all add: Let_def split: prod.splits)

lemma historyAfter_append:
  "historyAfter h (fs @ gs) = historyAfter (historyAfter h fs) gs"
  by (induction h fs rule: historyAfter.induct) simp_all

lemma steady_append:
  "steady h (fs @ gs) = (steady h fs \<and> steady (historyAfter h fs) gs)"
  by (induction h fs rule: steady.induct) simp_all

lemma analyzeFrames_detecting:
  assumes "currentExercise e = AutoDetect" "\<not> isLocked e"
    and "\<forall>f \<in> set fs. \<exists>lm ts clk. f = (Some lm, ts, clk) \<and> classifyExercise lm = Some X"
    and "X = Plank \<or> X = PushUp \<longrightarrow> steady (shoulderHistory e) fs"
    and "nextCount X e + length fs \<le> lockThresholdOf X + 1"
  shows "analyzeFrames fs e =
           (replicate (length fs) (Inr (detectingFeedback (Some X) X)),
            if fs = [] then e
            else e\<lparr> shoulderHistory := historyAfter (shoulderHistory e) fs,
                    potentialExercise := Some X,
                    consecutiveFrames := nextCount X e + length fs - 1 \<rparr>)"
  using assms
proof (induction fs arbitrary: e)
  case Nil
  then show ?case by simp
next
  case (Cons f fs)
  from Cons.prems(3) obtain lm ts clk where f: "f = (Some lm, ts, clk)"
    and cls: "classifyExercise lm = Some X" by auto
  let ?h = "pushShoulder (shoulderY lm) (shoulderHistory e)"
  let ?e1 = "e\<lparr> shoulderHistory := ?h, potentialExercise := Some X,
                  consecutiveFrames := nextCount X e \<rparr>"
  from Cons.prems(4) have calm: "\<not> ((X = Plank \<or> X = PushUp) \<and> variance ?h > 0.05)"
    using classified_length [OF cls] by (auto simp: f)
  from Cons.prems(5) have cnt: "nextCount X e \<le> lockThresholdOf X" by simp
  have step: "analyzeFrame (Some lm) ts clk e = (Inr (detectingFeedback (Some X) X), ?e1)"
    by (rule analyzeFrame_detecting [OF Cons.prems(1,2) cls calm cnt])
  have n1: "nextCount X ?e1 = nextCount X e + 1" by (simp add: nextCount_def)
  have ih: "analyzeFrames fs ?e1 =
           (replicate (length fs) (Inr (detectingFeedback (Some X) X)),
            if fs = [] then ?e1
            else ?e1\<lparr> shoulderHistory := historyAfter (shoulderHistory ?e1) fs,
                    potentialExercise := Some X,
                    consecutiveFrames := nextCount X ?e1 + length fs - 1 \<rparr>)"
  proof (rule Cons.IH)
    show "currentExercise ?e1 = AutoDetect" using Cons.prems(1) by simp
    show "\<not> isLocked ?e1" using Cons.prems(2) by simp
    show "\<forall>f \<in> set fs. \<exists>lm ts clk. f = (Some lm, ts, clk) \<and> classifyExercise lm = Some X"
      using Cons.prems(3) by simp
    show "X = Plank \<or> X = PushUp \<longrightarrow> steady (shoulderHistory ?e1) fs"
      using Cons.prems(4) classified_length [OF cls] by (simp add: f)
    show "nextCount X ?e1 + length fs \<le> lockThresholdOf X + 1"
      using Cons.prems(5) by (simp add: n1)
  qed
  show ?case
    using classified_length [OF cls] by (simp add: f step ih n1 Let_def)
qed

lemma analyzeFrame_stays_locked:
  assumes "currentExercise e = AutoDetect" "isLocked e" "lockedExercise e = Some X"
    and "X = Plank \<longrightarrow> steady (shoulderHistory e) [(lmo, ts, clk)]"
  shows "currentExercise (snd (analyzeFrame lmo ts clk e)) = AutoDetect
         \<and> isLocked (snd (analyzeFrame lmo ts clk e))
         \<and> lockedExercise (snd (analyzeFrame lmo ts clk e)) = Some X
         \<and> shoulderHistory (snd (analyzeFrame lmo ts clk e))
             = historyAfter (shoulderHistory e) [(lmo, ts, clk)]"
proof (cases lmo)
  case None
  with assms show ?thesis by (simp add: analyzeFrame_def)
next
  case (Some lm)
  show ?thesis
  proof (cases "length lm \<le> 12")
    case True
    then have "nthOpt lm 11 = None \<or> nthOpt lm 12 = None"
      by (cases "length lm \<le> 11") simp_all
    with assms Some True show ?thesis
      by (auto simp: analyzeFrame_def split: option.splits)
  next
    case False
    then have len: "12 < length lm" by simp
    with assms(4) Some have calm:
      "\<not> (X = Plank \<and> variance (pushShoulder (shoulderY lm) (shoulderHistory e)) > 0.05)"
      by auto
    show ?thesis
      using assms(1-3) len
      by (simp add: Some analyzeFrame_locked [OF assms(1-3) len calm])
  qed
qed

lemma analyzeFrames_Cons:
  "snd (analyzeFrames ((lmo, ts, clk) # fs) e) = snd (analyzeFrames fs (snd (analyzeFrame lmo ts clk e)))"
  "fst (analyzeFrames ((lmo, ts, clk) # fs) e)
     = fst (analyzeFrame lmo ts clk e) # fst (analyzeFrames fs (snd (analyzeFrame lmo ts clk e)))"
  by (simp_all add: case_prod_beta Let_def)

lemma analyzeFrames_stay_locked:
  assumes "currentExercise e = AutoDetect" "isLocked e" "lockedExercise e = Some X"
    and "X = Plank \<longrightarrow> steady (shoulderHistory e) gs"
  shows "isLocked (snd (analyzeFrames gs e)) \<and> lockedExercise (snd (analyzeFrames gs e)) = Some X"
  using assms
proof (induction gs arbitrary: e)
  case Nil
  then show ?case by simp
next
  case (Cons g gs)
  obtain lmo ts clk where g: "g = (lmo, ts, clk)" by (cases g)
  let ?e1 = "snd (analyzeFrame lmo ts clk e)"
  have st1: "X = Plank \<longrightarrow> steady (shoulderHistory e) [(lmo, ts, clk)]"
    using Cons.prems(4) by (cases lmo) (auto simp: g split: if_splits)
  note s = analyzeFrame_stays_locked [OF Cons.prems(1-3) st1]
  have st2: "X = Plank \<longrightarrow> steady (shoulderHistory ?e1) gs"
    using Cons.prems(4) s by (cases lmo) (auto simp: g split: if_splits)
  from s have "isLocked (snd (analyzeFrames gs ?e1)) \<and> lockedExercise (snd (analyzeFrames gs ?e1)) = Some X"
    by (intro Cons.IH st2) simp_all
  then show ?case by (simp only: g analyzeFrames_Cons)
qed

lemma routeFrame_fst_update [simp]:
  "fst (routeFrame X lm ts clk (e\<lparr> shoulderHistory := h \<rparr>)) = fst (routeFrame X lm ts clk e)"
  "fst (routeFrame X lm ts clk (e\<lparr> potentialExercise := p \<rparr>)) = fst (routeFrame X lm ts clk e)"
  "fst (routeFrame X lm ts clk (e\<lparr> consecutiveFrames := n \<rparr>)) = fst (routeFrame X lm ts clk e)"
  by (rule routeFrame_fst_cong; simp)+

lemma analyzeFrames_locking:
  assumes cur: "currentExercise e = AutoDetect" and unl: "\<not> isLocked e"
    and fresh: "potentialExercise e \<noteq> Some X"
    and cls: "\<forall>f \<in> set fs. \<exists>lm ts clk. f = (Some lm, ts, clk) \<and> classifyExercise lm = Some X"
    and g: "classifyExercise lm = Some X"
    and calm: "X = Plank \<or> X = PushUp \<longrightarrow> steady (shoulderHistory e) (fs @ [(Some lm, ts, clk)])"
    and len: "length fs = lockThresholdOf X"
  shows "analyzeFrames (fs @ [(Some lm, ts, clk)]) e =
           (replicate (lockThresholdOf X) (Inr (detectingFeedback (Some X) X))
              @ [fst (routeFrame X lm ts clk (lockOn X e))],
            snd (routeFrame X lm ts clk
              ((lockOn X e)\<lparr> shoulderHistory := historyAfter (shoulderHistory e) (fs @ [(Some lm, ts, clk)]),
                            potentialExercise := Some X,
                            consecutiveFrames := lockThresholdOf X + 1 \<rparr>)))"
proof -
  have n0: "nextCount X e = 1" using fresh by (simp add: nextCount_def)
  have ne: "fs \<noteq> []" using len lockThresholdOf_bounds(1) [of X] by auto
  have calm1: "X = Plank \<or> X = PushUp \<longrightarrow> steady (shoulderHistory e) fs"
    using calm by (simp add: steady_append)
  let ?e1 = "e\<lparr> shoulderHistory := historyAfter (shoulderHistory e) fs,
                  potentialExercise := Some X,
                  consecutiveFrames := lockThresholdOf X \<rparr>"
  have run: "analyzeFrames fs e =
               (replicate (lockThresholdOf X) (Inr (detectingFeedback (Some X) X)), ?e1)"
    using analyzeFrames_detecting [OF cur unl cls calm1] ne by (simp add: n0 len)
  have len33: "33 \<le> length lm" using g by (rule classified_length)
  have calm2: "\<not> ((X = Plank \<or> X = PushUp)
                  \<and> variance (pushShoulder (shoulderY lm) (shoulderHistory ?e1)) > 0.05)"
    using calm len33 by (auto simp: steady_append)
  have n1: "nextCount X ?e1 = lockThresholdOf X + 1" by (simp add: nextCount_def)
  have "analyzeFrame (Some lm) ts clk ?e1 =
          routeFrame X lm ts clk
             (?e1\<lparr> shoulderHistory := pushShoulder (shoulderY lm) (shoulderHistory ?e1),
                 potentialExercise := Some X, consecutiveFrames := nextCount X ?e1,
                 lockedExercise := Some X, isLocked := True,
                 analyzers := (if X = Plank
                               then (analyzers ?e1)\<lparr> an_Plank := setElapsedTime 5 (an_Plank (analyzers ?e1)) \<rparr>
                               else analyzers ?e1) \<rparr>)"
    by (rule analyzeFrame_locks) (use cur unl g calm2 in \<open>simp_all add: n1\<close>)
  also have "\<dots> = routeFrame X lm ts clk
              ((lockOn X e)\<lparr> shoulderHistory := historyAfter (shoulderHistory e) (fs @ [(Some lm, ts, clk)]),
                            potentialExercise := Some X,
                            consecutiveFrames := lockThresholdOf X + 1 \<rparr>)"
  proof -
    have "?e1\<lparr> shoulderHistory := pushShoulder (shoulderY lm) (shoulderHistory ?e1),
                 potentialExercise := Some X, consecutiveFrames := nextCount X ?e1,
                 lockedExercise := Some X, isLocked := True,
                 analyzers := (if X = Plank
                               then (analyzers ?e1)\<lparr> an_Plank := setElapsedTime 5 (an_Plank (analyzers ?e1)) \<rparr>
                               else analyzers ?e1) \<rparr>
          = (lockOn X e)\<lparr> shoulderHistory := historyAfter (shoulderHistory e) (fs @ [(Some lm, ts, clk)]),
                            potentialExercise := Some X,
                            consecutiveFrames := lockThresholdOf X + 1 \<rparr>"
      using len33 by (cases e) (simp add: lockOn_def historyAfter_append nextCount_def)
    then show ?thesis by (rule arg_cong)
  qed
  finally have step: "analyzeFrame (Some lm) ts clk ?e1 = routeFrame X lm ts clk
              ((lockOn X e)\<lparr> shoulderHistory := historyAfter (shoulderHistory e) (fs @ [(Some lm, ts, clk)]),
                            potentialExercise := Some X,
                            consecutiveFrames := lockThresholdOf X + 1 \<rparr>)" .
  have fstr: "fst (routeFrame X lm ts clk
              ((lockOn X e)\<lparr> shoulderHistory := historyAfter (shoulderHistory e) (fs @ [(Some lm, ts, clk)]),
                            potentialExercise := Some X,
                            consecutiveFrames := lockThresholdOf X + 1 \<rparr>))
            = fst (routeFrame X lm ts clk (lockOn X e))"
    by simp
  show ?thesis
    by (simp add: analyzeFrames_append run step fstr case_prod_beta Let_def)
qed

lemma plankFrame_values:
  "length (plankFrame h) = 33"
  "shoulderY (plankFrame h) = h" "hipY (plankFrame h) = h" "wristY (plankFrame h) = h + 0.1"
  "kneeY (plankFrame h) = h" "ankleY (plankFrame h) = h" "noseY (plankFrame h) = h"
  "shoulderX (plankFrame h) = 0.2" "hipX (plankFrame h) = 0.5" "ankleX (plankFrame h) = 0.9"
  "(py (plankFrame h ! 13) + py (plankFrame h ! 14)) / 2 = h + 0.1"
  by (simp_all add: measures plankFrame_def frameOf_nth pt_def)

lemma plankFrame_angles:
  "hipAngle (plankFrame h) = 180" "kneeAngle (plankFrame h) = 180" "avgElbow (plankFrame h) = 90"
  by (simp_all add: hipAngle_def kneeAngle_def avgElbow_def getAvgAngle_def calculateAngle_def atan2_def
      plankFrame_def frameOf_nth pt_def)

lemma plankFrame_classified: "classifyExercise (plankFrame h) = Some Plank"
  by (simp add: classifyExercise_def isBodyStraight_def isInclinedHypotenuse_def bodyInclinationDeg_def
      bodyDx_def bodyDy_def atan2_def upright_def kneesBentForTwist_def isStanding_def isLying_def
      horizontalDiff_def verticalDiff_def torsoHeight_def lyingRules_def isVSitPosition_def
      shouldersHigherThanHips_def legsAreVertical_def legsHorizontal_def bodyIsFlat_def legsStraight_def
      plankFrame_values plankFrame_angles)

lemma tbarCurlFrame_classified: "classifyExercise tbarCurlFrame = Some TBarRow"
  by (simp add: classifyExercise_def isBodyStraight_def bodyStraightness_def legStraightness_def
      isInclinedHypotenuse_def handsAreLow_def tbarCurlFrame_hipAngle tbarCurlFrame_kneeAngle
      tbarCurlFrame_inclination tbarCurlFrame_values)
     (simp add: tbarCurlFrame_def)

lemma pushShoulder_replicate:
  assumes "k \<le> 30"
  shows "\<exists>j. 0 < j \<and> j \<le> 30 \<and> j = min 30 (Suc k) \<and> pushShoulder v (replicate k v) = replicate j v"
proof (cases "k = 30")
  case True
  have "replicate k v @ [v] = v # replicate k v" by (simp add: replicate_append_same)
  then have "pushShoulder v (replicate k v) = replicate k v"
    by (simp add: pushShoulder_def True)
  with True show ?thesis by (intro exI [of _ k]) simp
next
  case False
  with assms have k: "k < 30" by simp
  have "replicate k v @ [v] = replicate (Suc k) v" by (simp add: replicate_append_same)
  then have "pushShoulder v (replicate k v) = replicate (Suc k) v"
    using k by (simp add: pushShoulder_def del: replicate_Suc)
  with k show ?thesis by (intro exI [of _ "Suc k"]) (simp del: replicate_Suc)
qed

lemma variance_replicate: "0 < k \<Longrightarrow> variance (replicate k v) = 0"
  by (simp add: variance_def)

lemma steady_replicate:
  assumes "12 < length lm" "k \<le> 30"
  shows "steady (replicate k (shoulderY lm)) (replicate n (Some lm, ts, clk))
         \<and> historyAfter (replicate k (shoulderY lm)) (replicate n (Some lm, ts, clk))
             = replicate (min 30 (k + n)) (shoulderY lm)"
  using assms(2)
proof (induction n arbitrary: k)
  case 0
  then show ?case by simp
next
  case (Suc n)
  from pushShoulder_replicate [OF Suc.prems, of "shoulderY lm"] obtain j where
    j: "0 < j" "j \<le> 30" "j = min 30 (Suc k)"
    and p: "pushShoulder (shoulderY lm) (replicate k (shoulderY lm)) = replicate j (shoulderY lm)"
    by blast
  from Suc.IH [OF j(2)] have ih:
    "steady (replicate j (shoulderY lm)) (replicate n (Some lm, ts, clk))"
    "historyAfter (replicate j (shoulderY lm)) (replicate n (Some lm, ts, clk))
       = replicate (min 30 (j + n)) (shoulderY lm)" by simp_all
  have m: "min 30 (j + n) = min 30 (k + Suc n)" using j(3) by (simp add: min_def)
  have v: "variance (replicate j (shoulderY lm)) = 0" using j(1) by (rule variance_replicate)
  have nl: "\<not> length lm \<le> 12" using assms(1) by simp
  show ?case
    unfolding replicate_Suc steady.simps historyAfter.simps if_not_P [OF nl] p ih(2) m v
    using ih(1) by simp
qed

subsection \<open>Locking in Auto-Detect mode\<close>

lemma steady_take: "steady h fs \<Longrightarrow> steady h (take n fs)"
proof -
  assume "steady h fs"
  then have "steady h (take n fs @ drop n fs)" by simp
  then show ?thesis unfolding steady_append by simp
qed

text \<open>
  C3 (amended). The engine is in Auto-Detect mode, unlocked, with no count pending for
  \<open>X\<close>; it is fed frames the classifier names \<open>X\<close>, and for \<open>X\<close> Plank or Push Up the
  shoulder range stays within 0.05 over them. Then none of the first \<open>lockThresholdOf X\<close>
  frames locks, each is answered with the placeholder, and the next frame locks on \<open>X\<close>
  and is answered by the analyzer of \<open>X\<close>. After that the lock stays on \<open>X\<close> over any
  further frames \<open>gs\<close>, whatever the classifier would make of them (for Plank: while the
  shoulders stay still), and every engine locked on \<open>X\<close> hands a frame that has its
  shoulder landmarks to the analyzer of \<open>X\<close>.
\<close>

theorem auto_detect_locking:
  assumes cur: "currentExercise e = AutoDetect" and unl: "\<not> isLocked e"
    and fresh: "potentialExercise e \<noteq> Some X"
    and cls: "\<forall>f \<in> set fs. \<exists>lm ts clk. f = (Some lm, ts, clk) \<and> classifyExercise lm = Some X"
    and g: "classifyExercise lm = Some X"
    and calm: "X = Plank \<or> X = PushUp \<longrightarrow> steady (shoulderHistory e) (fs @ [(Some lm, ts, clk)])"
    and calm2: "X = Plank \<longrightarrow>
                  steady (historyAfter (shoulderHistory e) (fs @ [(Some lm, ts, clk)])) gs"
    and len: "length fs = lockThresholdOf X"
  shows "(\<forall>n \<le> lockThresholdOf X. \<not> isLocked (snd (analyzeFrames (take n fs) e)))
       \<and> fst (analyzeFrames fs e) = replicate (lockThresholdOf X) (Inr (detectingFeedback (Some X) X))
       \<and> isLocked (snd (analyzeFrames (fs @ [(Some lm, ts, clk)]) e))
       \<and> lockedExercise (snd (analyzeFrames (fs @ [(Some lm, ts, clk)]) e)) = Some X
       \<and> last (fst (analyzeFrames (fs @ [(Some lm, ts, clk)]) e))
           = fst (routeFrame X lm ts clk (lockOn X e))
       \<and> isLocked (snd (analyzeFrames ((fs @ [(Some lm, ts, clk)]) @ gs) e))
       \<and> lockedExercise (snd (analyzeFrames ((fs @ [(Some lm, ts, clk)]) @ gs) e)) = Some X
       \<and> (currentExercise e2 = AutoDetect \<and> isLocked e2 \<and> lockedExercise e2 = Some X
            \<and> 12 < length lm2
            \<and> \<not> (X = Plank \<and> variance (pushShoulder (shoulderY lm2) (shoulderHistory e2)) > 0.05)
          \<longrightarrow> analyzeFrame (Some lm2) ts2 clk2 e2
                = routeFrame X lm2 ts2 clk2
                    (e2\<lparr> shoulderHistory := pushShoulder (shoulderY lm2) (shoulderHistory e2) \<rparr>))"
proof -
  have n0: "nextCount X e = 1" using fresh by (simp add: nextCount_def)
  have calm1: "X = Plank \<or> X = PushUp \<longrightarrow> steady (shoulderHistory e) fs"
    using calm by (simp add: steady_append)
  have a: "\<not> isLocked (snd (analyzeFrames (take n fs) e))" if "n \<le> lockThresholdOf X" for n
  proof -
    have c: "\<forall>f \<in> set (take n fs). \<exists>lm ts clk. f = (Some lm, ts, clk) \<and> classifyExercise lm = Some X"
      using cls by (meson in_set_takeD)
    have s: "X = Plank \<or> X = PushUp \<longrightarrow> steady (shoulderHistory e) (take n fs)"
      using calm1 by (simp add: steady_take)
    have l: "nextCount X e + length (take n fs) \<le> lockThresholdOf X + 1"
      using that by (simp add: n0)
    show ?thesis
      using unl by (simp add: analyzeFrames_detecting [OF cur unl c s l])
  qed
  have b: "fst (analyzeFrames fs e) = replicate (lockThresholdOf X) (Inr (detectingFeedback (Some X) X))"
    using analyzeFrames_detecting [OF cur unl cls calm1] by (simp add: n0 len)
  note run = analyzeFrames_locking [OF cur unl fresh cls g calm len]
  let ?e' = "snd (analyzeFrames (fs @ [(Some lm, ts, clk)]) e)"
  have c: "isLocked ?e'" "lockedExercise ?e' = Some X" "currentExercise ?e' = AutoDetect"
    "shoulderHistory ?e' = historyAfter (shoulderHistory e) (fs @ [(Some lm, ts, clk)])"
    using cur by (simp_all add: run lockOn_def)
  have d: "last (fst (analyzeFrames (fs @ [(Some lm, ts, clk)]) e))
             = fst (routeFrame X lm ts clk (lockOn X e))"
    by (simp add: run)
  have s2: "X = Plank \<longrightarrow> steady (shoulderHistory ?e') gs" using calm2 by (simp only: c(4))
  have f: "isLocked (snd (analyzeFrames ((fs @ [(Some lm, ts, clk)]) @ gs) e))
         \<and> lockedExercise (snd (analyzeFrames ((fs @ [(Some lm, ts, clk)]) @ gs) e)) = Some X"
    using analyzeFrames_stay_locked [OF c(3) c(1) c(2) s2]
    unfolding analyzeFrames_append [of "fs @ [(Some lm, ts, clk)]" gs] snd_conv .
  have h: "currentExercise e2 = AutoDetect \<and> isLocked e2 \<and> lockedExercise e2 = Some X
            \<and> 12 < length lm2
            \<and> \<not> (X = Plank \<and> variance (pushShoulder (shoulderY lm2) (shoulderHistory e2)) > 0.05)
          \<longrightarrow> analyzeFrame (Some lm2) ts2 clk2 e2
                = routeFrame X lm2 ts2 clk2
                    (e2\<lparr> shoulderHistory := pushShoulder (shoulderY lm2) (shoulderHistory e2) \<rparr>)"
    using analyzeFrame_locked [of e2 X lm2 ts2 clk2] by blast
  from a b c(1,2) d f h show ?thesis by blast
qed

lemma engine0:
  "currentExercise (setExercise AutoDetect (newGeometricRuleEngine c)) = AutoDetect"
  "\<not> isLocked (setExercise AutoDetect (newGeometricRuleEngine c))"
  "potentialExercise (setExercise AutoDetect (newGeometricRuleEngine c)) = None"
  "lockedExercise (setExercise AutoDetect (newGeometricRuleEngine c)) = None"
  "consecutiveFrames (setExercise AutoDetect (newGeometricRuleEngine c)) = 0"
  "shoulderHistory (setExercise AutoDetect (newGeometricRuleEngine c)) = []"
  by (simp_all add: setExercise_def newGeometricRuleEngine_def)

text \<open>
  T-Bar Row has threshold 6: six frames of the synthetic frame do not lock, the seventh
  does, and a push-up frame fed afterwards leaves the lock on T-Bar Row and goes to its
  analyzer.
\<close>

theorem auto_detect_locking_witness:
  "classifyExercise tbarCurlFrame = Some TBarRow
   \<and> classifyExercise (pushUpFrame 0.5) = Some PushUp
   \<and> lockThresholdOf TBarRow = 6
   \<and> \<not> isLocked (snd (analyzeFrames (replicate 6 (Some tbarCurlFrame, Some 0, 0))
                        (setExercise AutoDetect (newGeometricRuleEngine 0))))
   \<and> isLocked (snd (analyzeFrames (replicate 6 (Some tbarCurlFrame, Some 0, 0)
                                     @ [(Some tbarCurlFrame, Some 0, 0)])
                        (setExercise AutoDetect (newGeometricRuleEngine 0))))
   \<and> lockedExercise (snd (analyzeFrames ((replicate 6 (Some tbarCurlFrame, Some 0, 0)
                                     @ [(Some tbarCurlFrame, Some 0, 0)])
                                     @ [(Some (pushUpFrame 0.5), Some 0, 0)])
                        (setExercise AutoDetect (newGeometricRuleEngine 0)))) = Some TBarRow
   \<and> analyzeFrame (Some (pushUpFrame 0.5)) (Some 0) 0
         (lockOn TBarRow (setExercise AutoDetect (newGeometricRuleEngine 0)))
       = routeFrame TBarRow (pushUpFrame 0.5) (Some 0) 0
           ((lockOn TBarRow (setExercise AutoDetect (newGeometricRuleEngine 0)))
              \<lparr> shoulderHistory := [0.5] \<rparr>)"
proof -
  let ?e = "setExercise AutoDetect (newGeometricRuleEngine 0)"
  let ?F = "(Some tbarCurlFrame, Some (0::real), 0::real)"
  have n: "lockThresholdOf TBarRow = 6" by (simp add: lockThresholdOf_def)
  have fresh: "potentialExercise ?e \<noteq> Some TBarRow" by (simp add: engine0)
  have cls: "\<forall>f \<in> set (replicate 6 ?F). \<exists>lm ts clk. f = (Some lm, ts, clk)
               \<and> classifyExercise lm = Some TBarRow"
    by (simp add: tbarCurlFrame_classified)
  have calm: "TBarRow = Plank \<or> TBarRow = PushUp
                \<longrightarrow> steady (shoulderHistory ?e) (replicate 6 ?F @ [?F])" by simp
  have calm2: "TBarRow = Plank \<longrightarrow>
                 steady (historyAfter (shoulderHistory ?e) (replicate 6 ?F @ [?F]))
                   [(Some (pushUpFrame 0.5), Some 0, 0)]" by simp
  have len: "length (replicate 6 ?F) = lockThresholdOf TBarRow" by (simp add: n)
  note t = auto_detect_locking [OF engine0(1) engine0(2) fresh cls tbarCurlFrame_classified calm calm2 len,
      of "lockOn TBarRow ?e" "pushUpFrame 0.5" "Some 0" 0]
  from t have "\<not> isLocked (snd (analyzeFrames (take 6 (replicate 6 ?F)) ?e))"
    by (simp only: n) blast
  then have a: "\<not> isLocked (snd (analyzeFrames (replicate 6 ?F) ?e))" by simp
  have pre: "currentExercise (lockOn TBarRow ?e) = AutoDetect \<and> isLocked (lockOn TBarRow ?e)
      \<and> lockedExercise (lockOn TBarRow ?e) = Some TBarRow \<and> 12 < length (pushUpFrame 0.5)
      \<and> \<not> (TBarRow = Plank \<and> variance (pushShoulder (shoulderY (pushUpFrame 0.5))
                  (shoulderHistory (lockOn TBarRow ?e))) > 0.05)"
    by (simp add: lockOn_def engine0 pushUpFrame_values)
  have h: "pushShoulder (shoulderY (pushUpFrame 0.5)) (shoulderHistory (lockOn TBarRow ?e)) = [0.5]"
    by (simp add: lockOn_def engine0 pushUpFrame_values pushShoulder_def)
  from t pre have "analyzeFrame (Some (pushUpFrame 0.5)) (Some 0) 0 (lockOn TBarRow ?e)
       = routeFrame TBarRow (pushUpFrame 0.5) (Some 0) 0
           ((lockOn TBarRow ?e)\<lparr> shoulderHistory :=
               pushShoulder (shoulderY (pushUpFrame 0.5)) (shoulderHistory (lockOn TBarRow ?e)) \<rparr>)"
    by blast
  then have r: "analyzeFrame (Some (pushUpFrame 0.5)) (Some 0) 0 (lockOn TBarRow ?e)
       = routeFrame TBarRow (pushUpFrame 0.5) (Some 0) 0
           ((lockOn TBarRow ?e)\<lparr> shoulderHistory := [0.5] \<rparr>)"
    by (simp only: h)
  from t a r n tbarCurlFrame_classified pushUpFrame_classified [of "0.5"]
  show ?thesis by blast
qed

lemma detectFrame_moving:
  assumes "X = Plank \<or> X = PushUp" "var > 0.05"
  shows "detectFrame X var lm ts clk e =
           (let n = (if potentialExercise e = Some X then consecutiveFrames e + 1 else 1)
                    + (if X = PushUp then 2 else 0);
                e2 = e\<lparr> potentialExercise := Some X, consecutiveFrames := n \<rparr>
            in if n > 4
               then routeFrame PushUp lm ts clk (e2\<lparr> lockedExercise := Some PushUp, isLocked := True \<rparr>)
               else (Inr (detectingFeedback (Some X) PushUp), e2))"
proof -
  have m: "((X = Plank \<or> X = PushUp) \<and> var > 0.05) = True" using assms by simp
  show ?thesis
  proof (cases "potentialExercise e = Some X")
    case True
    then have same: "e\<lparr> potentialExercise := Some X \<rparr> = e" by (cases e) simp
    from True assms(1) show ?thesis
      unfolding detectFrame_def Let_def m by (auto simp: same)
  next
    case False
    then have "(Some X = potentialExercise e) = False" by auto
    with False assms(1) show ?thesis
      unfolding detectFrame_def Let_def m by auto
  qed
qed

text \<open>
  With the shoulders moving by 0.06 between the first and the second frame, three
  push-up frames lock the engine: fewer than the threshold 4 of a moving Push Up, and
  than the threshold 6 of Push Up.
\<close>

theorem push_up_movement_locks_early_counterexample:
  "classifyExercise (pushUpFrame 0.5) = Some PushUp
   \<and> classifyExercise (pushUpFrame 0.56) = Some PushUp
   \<and> lockThresholdOf PushUp = 6
   \<and> isLocked (snd (analyzeFrames
        [(Some (pushUpFrame 0.5), Some 0, 0), (Some (pushUpFrame 0.56), Some 166, 0),
         (Some (pushUpFrame 0.56), Some 332, 0)]
        (setExercise AutoDetect (newGeometricRuleEngine 0))))
   \<and> isLocked (snd (analyzeFrames
        [(Some (pushUpFrame 0.5), Some 0, 0), (Some (pushUpFrame 0.56), Some 166, 0),
         (Some (pushUpFrame 0.56), Some 332, 0), (Some (pushUpFrame 0.56), Some 498, 0)]
        (setExercise AutoDetect (newGeometricRuleEngine 0))))"
proof -
  let ?init = "setExercise AutoDetect (newGeometricRuleEngine 0)"
  let ?A = "pushUpFrame 0.5" and ?B = "pushUpFrame 0.56"
  let ?e1 = "?init\<lparr> shoulderHistory := [0.5], potentialExercise := Some PushUp, consecutiveFrames := 1 \<rparr>"
  let ?e2 = "?init\<lparr> shoulderHistory := [0.5, 0.56], potentialExercise := Some PushUp,
                   consecutiveFrames := 4 \<rparr>"
  have v1: "variance [0.5 :: real] = 0" "variance [0.5, 0.56 :: real] = 0.06"
    "variance [0.5, 0.56, 0.56 :: real] = 0.06"
    by (simp_all add: variance_def)
  have s1: "analyzeFrame (Some ?A) (Some 0) 0 ?init = (Inr (detectingFeedback (Some PushUp) PushUp), ?e1)"
    unfolding analyzeFrame_unlocked [OF engine0(1,2) pushUpFrame_classified]
    by (subst detectFrame_waits)
       (simp_all add: engine0 pushUpFrame_values pushShoulder_def variance_def nextCount_def lockThresholdOf_def)
  have c1: "currentExercise ?e1 = AutoDetect" "\<not> isLocked ?e1" by (simp_all add: engine0)
  have s2: "analyzeFrame (Some ?B) (Some 166) 0 ?e1 = (Inr (detectingFeedback (Some PushUp) PushUp), ?e2)"
    unfolding analyzeFrame_unlocked [OF c1 pushUpFrame_classified]
    by (simp add: detectFrame_moving engine0 pushUpFrame_values pushShoulder_def
        variance_def Let_def)
  have c2: "currentExercise ?e2 = AutoDetect" "\<not> isLocked ?e2" by (simp_all add: engine0)
  have s3: "isLocked (snd (analyzeFrame (Some ?B) (Some 332) 0 ?e2))
            \<and> lockedExercise (snd (analyzeFrame (Some ?B) (Some 332) 0 ?e2)) = Some PushUp
            \<and> currentExercise (snd (analyzeFrame (Some ?B) (Some 332) 0 ?e2)) = AutoDetect"
    unfolding analyzeFrame_unlocked [OF c2 pushUpFrame_classified]
    by (simp add: detectFrame_moving engine0 pushUpFrame_values pushShoulder_def
        variance_def Let_def)
  have three: "snd (analyzeFrames [(Some ?A, Some 0, 0), (Some ?B, Some 166, 0), (Some ?B, Some 332, 0)] ?init)
               = snd (analyzeFrame (Some ?B) (Some 332) 0 ?e2)"
    by (simp only: analyzeFrames_Cons(1) s1 s2 snd_conv analyzeFrames.simps(1))
  have four: "snd (analyzeFrames [(Some ?A, Some 0, 0), (Some ?B, Some 166, 0), (Some ?B, Some 332, 0),
                 (Some ?B, Some 498, 0)] ?init)
               = snd (analyzeFrame (Some ?B) (Some 498) 0 (snd (analyzeFrame (Some ?B) (Some 332) 0 ?e2)))"
    by (simp only: analyzeFrames_Cons(1) s1 s2 snd_conv analyzeFrames.simps(1))
  have l4: "isLocked (snd (analyzeFrame (Some ?B) (Some 498) 0 (snd (analyzeFrame (Some ?B) (Some 332) 0 ?e2))))"
    using analyzeFrame_stays_locked [of "snd (analyzeFrame (Some ?B) (Some 332) 0 ?e2)" PushUp
        "Some ?B" "Some 498" 0] s3 by simp
  have n: "lockThresholdOf PushUp = 6" by (simp add: lockThresholdOf_def)
  from s3 l4 n pushUpFrame_classified show ?thesis
    unfolding three four by blast
qed

subsection \<open>A Plank lock under movement\<close>

text \<open>
  C5. An engine in Auto-Detect mode locked on Plank, given a frame whose shoulder height
  makes the rolling buffer (at most 30 samples) span more than 0.05, is locked on Push Up
  when the call returns, and what the call returns is the Push Up analyzer's feedback for
  that frame, with the message prefix and the detected exercise of Push Up; the Plank
  analyzer is not called.
\<close>

theorem plank_lock_moves_to_push_up:
  assumes "currentExercise e = AutoDetect" "isLocked e" "lockedExercise e = Some Plank"
    and "12 < length lm"
    and "variance (pushShoulder (shoulderY lm) (shoulderHistory e)) > 0.05"
  shows "lockedExercise (snd (analyzeFrame (Some lm) ts clk e)) = Some PushUp
       \<and> isLocked (snd (analyzeFrame (Some lm) ts clk e))
       \<and> fst (analyzeFrame (Some lm) ts clk e)
           = Inr ((fst (PushUpAnalyzer_analyze lm ts clk (an_PushUp (analyzers e))))
                    \<lparr> message := ''[Push Up] ''
                         @ message (fst (PushUpAnalyzer_analyze lm ts clk (an_PushUp (analyzers e)))),
                      detectedExercise := Some PushUp \<rparr>)
       \<and> an_PushUp (analyzers (snd (analyzeFrame (Some lm) ts clk e)))
           = snd (PushUpAnalyzer_analyze lm ts clk (an_PushUp (analyzers e)))
       \<and> an_Plank (analyzers (snd (analyzeFrame (Some lm) ts clk e))) = an_Plank (analyzers e)"
  unfolding analyzeFrame_plank_moves [OF assms]
  using assms(1,2) by (simp add: routeFrame_def case_prod_beta Let_def)

lemma variance_push_full: "variance (pushShoulder w (replicate 30 v)) = \<bar>w - v\<bar>"
proof -
  have "replicate 30 v = v # replicate 29 v" by (simp add: numeral_eq_Suc)
  then have "pushShoulder w (replicate 30 v) = replicate 29 v @ [w]"
    by (simp add: pushShoulder_def)
  moreover have "set (replicate 29 v @ [w]) = {v, w}" by auto
  ultimately show ?thesis by (auto simp: variance_def max_def min_def)
qed

text \<open>
  A fresh engine in Auto-Detect mode locks on Plank with the 31st still plank frame; a
  plank frame 0.1 lower then moves the lock to Push Up at once.
\<close>

theorem plank_lock_moves_to_push_up_witness:
  "currentExercise (snd (analyzeFrames (replicate 30 (Some (plankFrame (1 / 2)), None, 1000)
                                          @ [(Some (plankFrame (1 / 2)), None, 1000)])
                          (setExercise AutoDetect (newGeometricRuleEngine 0)))) = AutoDetect
   \<and> isLocked (snd (analyzeFrames (replicate 30 (Some (plankFrame (1 / 2)), None, 1000)
                                          @ [(Some (plankFrame (1 / 2)), None, 1000)])
                          (setExercise AutoDetect (newGeometricRuleEngine 0))))
   \<and> lockedExercise (snd (analyzeFrames (replicate 30 (Some (plankFrame (1 / 2)), None, 1000)
                                          @ [(Some (plankFrame (1 / 2)), None, 1000)])
                          (setExercise AutoDetect (newGeometricRuleEngine 0)))) = Some Plank
   \<and> 12 < length (plankFrame (3 / 5))
   \<and> variance (pushShoulder (shoulderY (plankFrame (3 / 5)))
        (shoulderHistory (snd (analyzeFrames (replicate 30 (Some (plankFrame (1 / 2)), None, 1000)
                                          @ [(Some (plankFrame (1 / 2)), None, 1000)])
                          (setExercise AutoDetect (newGeometricRuleEngine 0)))))) > 0.05
   \<and> lockedExercise (snd (analyzeFrame (Some (plankFrame (3 / 5))) None 2000
        (snd (analyzeFrames (replicate 30 (Some (plankFrame (1 / 2)), None, 1000)
                                          @ [(Some (plankFrame (1 / 2)), None, 1000)])
                          (setExercise AutoDetect (newGeometricRuleEngine 0)))))) = Some PushUp"
proof -
  let ?init = "setExercise AutoDetect (newGeometricRuleEngine 0)"
  let ?f = "(Some (plankFrame (1 / 2)), None :: real option, 1000 :: real)"
  let ?e = "snd (analyzeFrames (replicate 30 ?f @ [?f]) ?init)"
  have len: "12 < length (plankFrame h)" for h by (simp add: plankFrame_values)
  have fresh: "potentialExercise ?init \<noteq> Some Plank" by (simp add: engine0)
  have cls: "\<forall>f \<in> set (replicate 30 ?f). \<exists>lm ts clk. f = (Some lm, ts, clk)
               \<and> classifyExercise lm = Some Plank"
    by (simp add: plankFrame_classified)
  have r: "replicate 30 ?f @ [?f] = replicate (Suc 30) ?f"
    by (simp only: replicate_append_same replicate_Suc)
  have st: "steady [] (replicate (Suc 30) ?f)
            \<and> historyAfter [] (replicate (Suc 30) ?f) = replicate 30 (1 / 2)"
    using steady_replicate [OF len, of 0 "1 / 2" "Suc 30" None 1000]
    by (simp add: plankFrame_values del: replicate_Suc)
  have calm: "Plank = Plank \<or> Plank = PushUp \<longrightarrow> steady (shoulderHistory ?init) (replicate 30 ?f @ [?f])"
    using st by (simp only: r engine0) simp
  have n: "length (replicate 30 ?f) = lockThresholdOf Plank" by (simp add: lockThresholdOf_def)
  note run = analyzeFrames_locking [OF engine0(1) engine0(2) fresh cls plankFrame_classified calm n]
  have e: "currentExercise ?e = AutoDetect" "isLocked ?e" "lockedExercise ?e = Some Plank"
    "shoulderHistory ?e = replicate 30 (1 / 2)"
    unfolding run using st by (simp_all add: lockOn_def engine0 r)
  have v: "variance (pushShoulder (shoulderY (plankFrame (3 / 5))) (shoulderHistory ?e)) > 0.05"
    by (simp add: e(4) plankFrame_values variance_push_full)
  from plank_lock_moves_to_push_up [OF e(1-3) len v, of None 2000] e(1-3) v len [of "3 / 5"]
  show ?thesis by blast
qed

subsection \<open>RepCounter: the transition table\<close>

text \<open>
  ConcentricFirst is the mirror image of EccentricFirst: \<^verbatim>\<open>update\<close> commutes with
  exchanging the two modes and the phases Eccentric/Concentric and Bottom/Top.
\<close>

lemma update_mirror: "update c ts clk (mirror rc) = mirror (update c ts clk rc)"
  by (cases "mode rc"; cases "currentPhase rc")
     (simp_all add: update_def mirror_def recordRep_def Let_def split: option.splits)

text \<open>
  The EccentricFirst transitions, phase by phase. On the closing edge the record's mid
  time is the marked one unless that is missing or 0, in which case it is the current time.
\<close>

lemma update_eccentric_first_table:
  assumes "mode rc = EccentricFirst"
    and "now = (case ts of None \<Rightarrow> clk | Some t \<Rightarrow> t)"
    and "currentMs = now - recordingStartTime rc"
  shows
    "currentPhase rc = Rest \<or> currentPhase rc = Top \<Longrightarrow>
       update c ts clk rc =
         (if c > thresholdLow rc
          then rc\<lparr> currentPhase := Eccentric,
                   currentRepStartTime := (case currentRepStartTime rc of None \<Rightarrow> Some currentMs
                                           | Some s \<Rightarrow> Some s) \<rparr>
          else rc)"
    "currentPhase rc = Eccentric \<Longrightarrow>
       update c ts clk rc =
         (if c \<ge> thresholdHigh rc
          then rc\<lparr> currentPhase := Bottom, lastPhaseTimestamp := now,
                   currentRepMidTime := Some currentMs \<rparr>
          else if c < thresholdLow rc
          then rc\<lparr> currentPhase := Top, currentRepStartTime := None, currentRepMidTime := None \<rparr>
          else rc)"
    "currentPhase rc = Bottom \<Longrightarrow>
       update c ts clk rc =
         (if c < thresholdHigh rc - 0.1 then rc\<lparr> currentPhase := Concentric \<rparr> else rc)"
    "currentPhase rc = Concentric \<Longrightarrow> currentRepStartTime rc = Some s \<Longrightarrow>
       update c ts clk rc =
         (if c \<le> thresholdLow rc
          then rc\<lparr> count := count rc + 1, currentPhase := Top, lastPhaseTimestamp := now,
                   repTimestamps := repTimestamps rc @
                     [\<lparr> start = s,
                        mid = (case currentRepMidTime rc of None \<Rightarrow> currentMs
                               | Some m \<Rightarrow> if m = 0 then currentMs else m),
                        end_ms = currentMs \<rparr>],
                   currentRepStartTime := None, currentRepMidTime := None \<rparr>
          else if c > thresholdHigh rc then rc\<lparr> currentPhase := Bottom \<rparr>
          else rc)"
  using assms
  by (auto simp: update_def recordRep_def orElse_def Let_def split: option.splits)

text \<open>
  C2. The transitions are those of the table, except for the mid time of the pushed
  record: \<^verbatim>\<open>this.currentRepMidTime || currentMs\<close> also replaces a mid time that was marked,
  at relative time 0. A default counter fed 0.4 and 0.6 at time 0, then 0.2 at times 100
  and 200, has marked the mid time 0 after the third sample, and the record it pushes is
  \<open>{start = 0, mid = 200, end = 200}\<close>.
\<close>

theorem mid_marked_at_zero_is_replaced:
  "repTimestamps (updates [(0.4, Some 0, 0), (0.6, Some 0, 0), (0.2, Some 100, 0), (0.2, Some 200, 0)]
                    (newRepCounter None None None))
     = [\<lparr> start = 0, mid = 200, end_ms = 200 \<rparr>]
   \<and> currentRepMidTime (updates [(0.4, Some 0, 0), (0.6, Some 0, 0), (0.2, Some 100, 0)]
                    (newRepCounter None None None)) = Some 0"
  by (simp add: newRepCounter_def update_def recordRep_def orElse_def)

subsection \<open>Arrays of fewer than 33 landmarks\<close>

text \<open>
  Arrays of fewer than 33 landmarks: the classifier returns \<^verbatim>\<open>null\<close>, and every analyzer
  other than Plank returns its empty feedback and leaves its state as it was.
\<close>

lemma short_landmarks_guarded:
  assumes "length lm < 33"
  shows "classifyExercise lm = None"
    and "X \<noteq> Plank \<Longrightarrow> X \<noteq> RussianTwist \<Longrightarrow> analyzerAnalyze X lm ts clk a = (Inr emptyFeedback, a)"
    and "analyzerAnalyze RussianTwist lm ts clk a = (Inr RussianTwist_emptyFeedback, a)"
proof -
  show "classifyExercise lm = None" using assms by (simp add: classifyExercise_def)
  show "analyzerAnalyze RussianTwist lm ts clk a = (Inr RussianTwist_emptyFeedback, a)"
    using assms by (simp add: RussianTwistAnalyzer_analyze_def)
  show "analyzerAnalyze X lm ts clk a = (Inr emptyFeedback, a)"
    if "X \<noteq> Plank" "X \<noteq> RussianTwist"
    using that assms
    by (cases X)
       (simp_all add: SquatAnalyzer_analyze_def LegExtensionAnalyzer_analyze_def
          LegRaisesAnalyzer_analyze_def PushUpAnalyzer_analyze_def BenchPressAnalyzer_analyze_def
          InclineBenchAnalyzer_analyze_def ChestFlyAnalyzer_analyze_def TricepDipsAnalyzer_analyze_def
          PullUpAnalyzer_analyze_def LatPulldownAnalyzer_analyze_def TBarRowAnalyzer_analyze_def
          BicepCurlAnalyzer_analyze_def LateralRaiseAnalyzer_analyze_def)
qed

text \<open>
  The engine's guard covers a missing and an empty array only; an array of 1 to 12
  landmarks throws at the read of the shoulders.
\<close>

lemma analyzeFrame_no_landmarks:
  "analyzeFrame None ts clk e = (Inr noPoseDetected, e)"
  "analyzeFrame (Some []) ts clk e = (Inr noPoseDetected, e)"
  by (simp_all add: analyzeFrame_def)

lemma analyzeFrame_few_landmarks:
  "0 < length lm \<Longrightarrow> length lm \<le> 12 \<Longrightarrow> analyzeFrame (Some lm) ts clk e = (Inl TypeError, e)"
  by (cases "length lm \<le> 11") (auto simp: analyzeFrame_def)

text \<open>
  The Plank analyzer has no length guard: it throws when the hips are missing.
\<close>

lemma PlankAnalyzer_few_landmarks:
  "length lm \<le> 24 \<Longrightarrow> fst (PlankAnalyzer_analyze lm ts clk this) = Inl TypeError"
  by (cases "length lm \<le> 23") (simp_all add: PlankAnalyzer_analyze_def Let_def)

text \<open>
  C1. Arrays of fewer than 33 landmarks are not always answered with the empty feedback:
  the Plank analyzer throws on 10 landmarks, the engine throws on 5 landmarks in its
  default mode and on 20 landmarks with Plank selected, and on the first 32 landmarks of
  a plank frame the Plank analyzer returns a feedback of score 1 with
  \<^verbatim>\<open>isGoodForm: true\<close>.
\<close>

theorem short_landmarks_throw:
  "fst (PlankAnalyzer_analyze (replicate 10 (pt 0 0)) None 1000 newPlankAnalyzer) = Inl TypeError
   \<and> fst (analyzeFrame (Some (replicate 5 (pt 0 0))) None 1000 (newGeometricRuleEngine 0)) = Inl TypeError
   \<and> fst (analyzeFrame (Some (replicate 20 (pt 0 0))) None 1000
            (setExercise Plank (newGeometricRuleEngine 0))) = Inl TypeError
   \<and> length (take 32 (plankFrame (1 / 2))) = 32
   \<and> map_sum id (\<lambda>fb. (score fb, isGoodForm fb, repPhase fb))
        (fst (PlankAnalyzer_analyze (take 32 (plankFrame (1 / 2))) None 1000 newPlankAnalyzer))
       = Inr (1, True, ''Resisted'')"
proof -
  have a: "fst (PlankAnalyzer_analyze (replicate 10 (pt 0 0)) None 1000 newPlankAnalyzer) = Inl TypeError"
    by (rule PlankAnalyzer_few_landmarks) simp
  have b: "fst (analyzeFrame (Some (replicate 5 (pt 0 0))) None 1000 (newGeometricRuleEngine 0)) = Inl TypeError"
    by (simp add: analyzeFrame_few_landmarks)
  have c: "fst (analyzeFrame (Some (replicate 20 (pt 0 0))) None 1000
            (setExercise Plank (newGeometricRuleEngine 0))) = Inl TypeError"
    by (simp add: analyzeFrame_def Let_def setExercise_def newGeometricRuleEngine_def routeFrame_def
        case_prod_beta PlankAnalyzer_few_landmarks)
  have n: "i < 32 \<Longrightarrow> nthOpt (take 32 (plankFrame (1 / 2))) i = Some (plankFrame (1 / 2) ! i)" for i
    by (simp add: nthOpt_def plankFrame_values)
  have d: "map_sum id (\<lambda>fb. (score fb, isGoodForm fb, repPhase fb))
        (fst (PlankAnalyzer_analyze (take 32 (plankFrame (1 / 2))) None 1000 newPlankAnalyzer))
       = Inr (1, True, ''Resisted'')"
    by (simp add: PlankAnalyzer_analyze_def Let_def n newPlankAnalyzer_def plankFeedback_def
        calculateAngle_def atan2_def plankFrame_def frameOf_nth pt_def)
  from a b c d show ?thesis by (simp add: plankFrame_values)
qed

subsection \<open>Timestamps and the wall clock\<close>

text \<open>
  With the timestamp given, the counter and every analyzer built on it do not read the
  clock; the Russian Twist analyzer does not read it at a call when the timestamp is not 0.
\<close>

lemma update_clock_free: "update c (Some t) clk rc = update c (Some t) clk' rc"
  by (simp add: update_def)

lemma analyzerAnalyze_clock_free:
  assumes "X \<noteq> Plank" and "X = RussianTwist \<longrightarrow> t \<noteq> 0"
  shows "analyzerAnalyze X lm (Some t) clk a = analyzerAnalyze X lm (Some t) clk' a"
proof (cases X)
  case RussianTwist
  then show ?thesis using assms by (simp add: RussianTwistAnalyzer_analyze_def orElse_def)
qed (use assms in \<open>simp_all only: analyzerAnalyze.simps SquatAnalyzer_analyze_def LegExtensionAnalyzer_analyze_def
          LegRaisesAnalyzer_analyze_def PushUpAnalyzer_analyze_def BenchPressAnalyzer_analyze_def
          InclineBenchAnalyzer_analyze_def ChestFlyAnalyzer_analyze_def TricepDipsAnalyzer_analyze_def
          PullUpAnalyzer_analyze_def LatPulldownAnalyzer_analyze_def TBarRowAnalyzer_analyze_def
          BicepCurlAnalyzer_analyze_def LateralRaiseAnalyzer_analyze_def
          update_clock_free[of _ t clk _ clk']\<close>)

text \<open>
  The Plank analyzer's feedback on a plank frame, for a frame interval \<open>d\<close> in seconds.
\<close>

lemma plank_frame_feedback:
  "plankFeedback (plankFrame h ! 12) (plankFrame h ! 24) (plankFrame h ! 26) (plankFrame h ! 28) d this
   = (\<lparr> score = 1,
        breakdown = \<lparr> total = Some 1, stability = 1, rom = 0, posture = 1, efficiency = 1, bracing = 1 \<rparr>,
        reps = \<lfloor>accumulatedSeconds this + (if bufferTime this + d > 0.5 then d else 0)\<rfloor>,
        repPhase = (if bufferTime this + d > 0.5 \<or> isHolding this then ''Holding'' else ''Resisted''),
        message = (if bufferTime this + d > 0.5 then ''Good Plank! Hold it!'' else ''Stabilizing...''),
        correction = Some '''',
        isGoodForm = True,
        jointAngles = Some [(''hip'', 180), (''knee'', 180)],
        detectedExercise = None \<rparr>,
      if bufferTime this + d > 0.5
      then this\<lparr> bufferTime := bufferTime this + d, isHolding := True,
                 accumulatedSeconds := accumulatedSeconds this + d \<rparr>
      else this\<lparr> bufferTime := bufferTime this + d \<rparr>)"
  by (simp add: plankFeedback_def Let_def calculateAngle_def atan2_def plankFrame_def frameOf_nth pt_def)

lemma analyzeFrame_manual:
  assumes "currentExercise e \<noteq> AutoDetect" "12 < length lm"
  shows "analyzeFrame (Some lm) ts clk e =
           routeFrame (currentExercise e) lm ts clk
             (e\<lparr> shoulderHistory := pushShoulder (shoulderY lm) (shoulderHistory e) \<rparr>)"
  using assms by (auto simp: analyzeFrame_def Let_def shoulderY_def)

lemma PlankAnalyzer_plankFrame:
  "PlankAnalyzer_analyze (plankFrame h) ts clk this =
     (let this1 = (if lastFrameTime this = 0 then this\<lparr> lastFrameTime := clk \<rparr> else this);
          (fb, this3) = plankFeedback (plankFrame h ! 12) (plankFrame h ! 24) (plankFrame h ! 26)
                          (plankFrame h ! 28) ((clk - lastFrameTime this1) / 1000)
                          (this1\<lparr> lastFrameTime := clk \<rparr>)
      in (Inr fb, this3))"
proof -
  have v: "visibility (plankFrame h ! 23) = 1" "visibility (plankFrame h ! 24) = 1"
    by (simp_all add: plankFrame_def frameOf_nth pt_def)
  show ?thesis
    by (simp add: PlankAnalyzer_analyze_def Let_def plankFrame_values v)
qed

lemma plank_run:
  assumes "c1 \<noteq> 0"
  shows "map (map_sum id (\<lambda>fb. (reps fb, message fb)))
       (fst (analyzeFrames [(Some (plankFrame (1 / 2)), Some 0, c1),
                            (Some (plankFrame (1 / 2)), Some 1000, c2)]
               (setExercise Plank (newGeometricRuleEngine c0))))
     = [Inr (0, ''Stabilizing...''),
        Inr (if (c2 - c1) / 1000 > 0.5 then (\<lfloor>(c2 - c1) / 1000\<rfloor>, ''Good Plank! Hold it!'')
             else (0, ''Stabilizing...''))]"
  using assms
  by (simp add: analyzeFrame_manual plankFrame_values setExercise_def newGeometricRuleEngine_def
        routeFrame_def newAnalyzers_def newPlankAnalyzer_def PlankAnalyzer_plankFrame
        plank_frame_feedback case_prod_beta Let_def)

lemma twistFrame_values:
  "length (twistFrame d) = 33"
  "px (twistFrame d ! 11) = 0.4" "px (twistFrame d ! 12) = 0.6"
  "px (twistFrame d ! 15) = 0.5 + d" "px (twistFrame d ! 16) = 0.5 + d"
  "px (twistFrame d ! 23) = 0.5" "px (twistFrame d ! 24) = 0.5"
  "shoulderY (twistFrame d) = 0.3"
  by (simp_all add: twistFrame_def frameOf_nth pt_def shoulderY_def)

lemma twist_run:
  "map (map_sum id reps)
       (fst (analyzeFrames [(Some (twistFrame (1 / 5)), Some 1000, 5000),
                            (Some (twistFrame (- 1 / 5)), Some 2000, 5001),
                            (Some (twistFrame (1 / 5)), Some 3000, 5002)]
               (setExercise RussianTwist (newGeometricRuleEngine c0))))
     = [Inr 0, Inr 0, Inr (if 3000 - c0 > 500 then 1 else 0)]"
  by (simp add: analyzeFrame_manual twistFrame_values setExercise_def newGeometricRuleEngine_def
        routeFrame_def newAnalyzers_def newRussianTwistAnalyzer_def RussianTwistAnalyzer_analyze_def
        orElse_def case_prod_beta Let_def)

text \<open>
  C6. With every timestamp supplied, the feedback still follows the wall clock. With
  Plank selected, two plank frames with timestamps 0 and 1000 give 1 second held and
  \<open>Good Plank! Hold it!\<close> when the calls are made at clock readings 5000 and 6000, and 0
  seconds and \<open>Stabilizing...\<close> when they are made at 5000 and 5100. With Russian Twist
  selected, three frames twisting left, right, left at timestamps 1000, 2000, 3000 count
  one repetition on an engine constructed at clock reading 100 and none on an engine
  constructed at 2800.
\<close>

theorem feedback_follows_wall_clock:
  "map (map_sum id (\<lambda>fb. (reps fb, message fb)))
       (fst (analyzeFrames [(Some (plankFrame (1 / 2)), Some 0, 5000),
                            (Some (plankFrame (1 / 2)), Some 1000, 6000)]
               (setExercise Plank (newGeometricRuleEngine 4000))))
     = [Inr (0, ''Stabilizing...''), Inr (1, ''Good Plank! Hold it!'')]
   \<and> map (map_sum id (\<lambda>fb. (reps fb, message fb)))
       (fst (analyzeFrames [(Some (plankFrame (1 / 2)), Some 0, 5000),
                            (Some (plankFrame (1 / 2)), Some 1000, 5100)]
               (setExercise Plank (newGeometricRuleEngine 4000))))
     = [Inr (0, ''Stabilizing...''), Inr (0, ''Stabilizing...'')]
   \<and> map (map_sum id reps)
       (fst (analyzeFrames [(Some (twistFrame (1 / 5)), Some 1000, 5000),
                            (Some (twistFrame (- 1 / 5)), Some 2000, 5001),
                            (Some (twistFrame (1 / 5)), Some 3000, 5002)]
               (setExercise RussianTwist (newGeometricRuleEngine 100))))
     = [Inr 0, Inr 0, Inr 1]
   \<and> map (map_sum id reps)
       (fst (analyzeFrames [(Some (twistFrame (1 / 5)), Some 1000, 5000),
                            (Some (twistFrame (- 1 / 5)), Some 2000, 5001),
                            (Some (twistFrame (1 / 5)), Some 3000, 5002)]
               (setExercise RussianTwist (newGeometricRuleEngine 2800))))
     = [Inr 0, Inr 0, Inr 0]"
  by (simp only: plank_run twist_run) simp

subsection \<open>The score and the breakdown\<close>

text \<open>
  The \<^verbatim>\<open>total\<close> each scorer's \<^verbatim>\<open>analyzePillars\<close> returns, and for each analyzer the score as
  the weighted sum of the breakdown it returns.
\<close>

lemma analyzePillars_total:
  "total (CurlBiomechanics_analyzePillars lm v) = None"
  "total (PullUpBiomechanics_analyzePillars lm v) = None"
  "total (FlyBiomechanics_analyzePillars lm v) = Some 0"
  "total (LegExtBiomechanics_analyzePillars lm) = None"
  "total (PushUpBiomechanics_analyzePillars lm) = Some 0"
  "total (RowBiomechanics_analyzePillars lm v) = None"
  "total (DipsBiomechanics_analyzePillars lm v) = None"
  "total (InclineBiomechanics_analyzePillars lm v) = None"
  "total (BenchPressBiomechanics_analyzePillars lm v) = None"
  "total (LatRaiseBiomechanics_analyzePillars lm v) = None"
  "total (LatBiomechanics_analyzePillars lm v) = None"
  "total (SquatBiomechanics_analyzePillars lm p v) = None"
  by (simp_all add: CurlBiomechanics_analyzePillars_def PullUpBiomechanics_analyzePillars_def
      FlyBiomechanics_analyzePillars_def LegExtBiomechanics_analyzePillars_def
      PushUpBiomechanics_analyzePillars_def RowBiomechanics_analyzePillars_def
      DipsBiomechanics_analyzePillars_def InclineBiomechanics_analyzePillars_def
      BenchPressBiomechanics_analyzePillars_def LatRaiseBiomechanics_analyzePillars_def
      LatBiomechanics_analyzePillars_def SquatBiomechanics_analyzePillars_def)


lemma analyzePillars_total_lr:
  "total (LegRaiseBiomechanics_analyzePillars h lm v) = None"
  by (simp add: LegRaiseBiomechanics_analyzePillars_def)

lemma rep_analyzers_score:
  assumes "33 \<le> length lm"
  shows
  "score (fst (BicepCurlAnalyzer_analyze lm ts clk rc))
     = weightedSum (0.4, 0.4, 0, 0.2, 0) (breakdown (fst (BicepCurlAnalyzer_analyze lm ts clk rc)))"
  "total (breakdown (fst (BicepCurlAnalyzer_analyze lm ts clk rc))) = None"
  "score (fst (PullUpAnalyzer_analyze lm ts clk rc))
     = weightedSum (0.3, 0.4, 0, 0, 0.3) (breakdown (fst (PullUpAnalyzer_analyze lm ts clk rc)))"
  "total (breakdown (fst (PullUpAnalyzer_analyze lm ts clk rc))) = None"
  "score (fst (ChestFlyAnalyzer_analyze lm ts clk rc))
     = weightedSum (0.5, 0.5, 0, 0, 0) (breakdown (fst (ChestFlyAnalyzer_analyze lm ts clk rc)))"
  "total (breakdown (fst (ChestFlyAnalyzer_analyze lm ts clk rc))) = Some 0"
  "score (fst (LegExtensionAnalyzer_analyze lm ts clk rc))
     = weightedSum (0.3, 0.4, 0.3, 0, 0) (breakdown (fst (LegExtensionAnalyzer_analyze lm ts clk rc)))"
  "total (breakdown (fst (LegExtensionAnalyzer_analyze lm ts clk rc))) = None"
  "score (fst (PushUpAnalyzer_analyze lm ts clk rc))
     = weightedSum (0.2, 0.3, 0.2, 0, 0.3) (breakdown (fst (PushUpAnalyzer_analyze lm ts clk rc)))"
  "total (breakdown (fst (PushUpAnalyzer_analyze lm ts clk rc))) = Some 0"
  "score (fst (TBarRowAnalyzer_analyze lm ts clk rc))
     = weightedSum (0, 0.3, 0.4, 0, 0.3) (breakdown (fst (TBarRowAnalyzer_analyze lm ts clk rc)))"
  "total (breakdown (fst (TBarRowAnalyzer_analyze lm ts clk rc))) = None"
  using assms
  by (simp_all add: BicepCurlAnalyzer_analyze_def PullUpAnalyzer_analyze_def ChestFlyAnalyzer_analyze_def
      LegExtensionAnalyzer_analyze_def PushUpAnalyzer_analyze_def TBarRowAnalyzer_analyze_def
      Let_def repFeedback_def analyzePillars_total)


lemma rep_analyzers_score2:
  assumes "33 \<le> length lm"
  shows
  "score (fst (TricepDipsAnalyzer_analyze lm ts clk rc))
     = weightedSum (0.3, 0.4, 0.3, 0, 0) (breakdown (fst (TricepDipsAnalyzer_analyze lm ts clk rc)))"
  "total (breakdown (fst (TricepDipsAnalyzer_analyze lm ts clk rc))) = None"
  "score (fst (InclineBenchAnalyzer_analyze lm ts clk rc))
     = weightedSum (0.3, 0.2, 0, 0.3, 0.2) (breakdown (fst (InclineBenchAnalyzer_analyze lm ts clk rc)))"
  "total (breakdown (fst (InclineBenchAnalyzer_analyze lm ts clk rc))) = None"
  "score (fst (BenchPressAnalyzer_analyze lm ts clk rc))
     = weightedSum (0.3, 0.2, 0, 0.3, 0.2) (breakdown (fst (BenchPressAnalyzer_analyze lm ts clk rc)))"
  "total (breakdown (fst (BenchPressAnalyzer_analyze lm ts clk rc))) = None"
  "score (fst (LegRaisesAnalyzer_analyze lm ts clk lr))
     = weightedSum (0.3, 0.3, 0, 0.2, 0.2) (breakdown (fst (LegRaisesAnalyzer_analyze lm ts clk lr)))"
  "total (breakdown (fst (LegRaisesAnalyzer_analyze lm ts clk lr))) = None"
  "score (fst (LateralRaiseAnalyzer_analyze lm ts clk rc))
     = weightedSum (0, 0.4, 0.3, 0.3, 0) (breakdown (fst (LateralRaiseAnalyzer_analyze lm ts clk rc)))"
  "total (breakdown (fst (LateralRaiseAnalyzer_analyze lm ts clk rc))) = None"
  "score (fst (LatPulldownAnalyzer_analyze lm ts clk rc))
     = weightedSum (0.3, 0.4, 0.3, 0, 0) (breakdown (fst (LatPulldownAnalyzer_analyze lm ts clk rc)))"
  "total (breakdown (fst (LatPulldownAnalyzer_analyze lm ts clk rc))) = None"
  using assms
  by (simp_all add: TricepDipsAnalyzer_analyze_def InclineBenchAnalyzer_analyze_def
      BenchPressAnalyzer_analyze_def LegRaisesAnalyzer_analyze_def LateralRaiseAnalyzer_analyze_def
      LatPulldownAnalyzer_analyze_def
      Let_def repFeedback_def analyzePillars_total analyzePillars_total_lr)

lemma squat_score:
  assumes "33 \<le> length lm"
  shows
  "score (fst (SquatAnalyzer_analyze lm ts clk sq))
     = weightedSum (0.25, 0.35, 0.20, 0.10, 0.10) (breakdown (fst (SquatAnalyzer_analyze lm ts clk sq)))"
  "total (breakdown (fst (SquatAnalyzer_analyze lm ts clk sq))) = None"
  using assms
  by (simp_all add: SquatAnalyzer_analyze_def Let_def case_prod_beta analyzePillars_total)

lemma plank_score:
  assumes "33 \<le> length lm"
  shows "\<exists>fb. fst (PlankAnalyzer_analyze lm ts clk pl) = Inr fb
           \<and> score fb = weightedSum (0.5, 0, 0.5, 0, 0) (breakdown fb)
           \<and> total (breakdown fb) = Some (stability (breakdown fb))"
  using assms
  by (simp add: PlankAnalyzer_analyze_def Let_def case_prod_beta plankFeedback_def)

lemma twist_score:
  assumes "33 \<le> length lm"
  shows "score (fst (RussianTwistAnalyzer_analyze lm ts clk rt)) = 100"
    "total (breakdown (fst (RussianTwistAnalyzer_analyze lm ts clk rt))) = Some 100"
  using assms
  by (simp_all add: RussianTwistAnalyzer_analyze_def Let_def)

lemma analyzerAnalyze_fst:
  "fst (analyzerAnalyze Squat lm ts clk a) = Inr (fst (SquatAnalyzer_analyze lm ts clk (an_Squat a)))"
  "fst (analyzerAnalyze AutoDetect lm ts clk a) = Inr (fst (SquatAnalyzer_analyze lm ts clk (an_AutoDetect a)))"
  "fst (analyzerAnalyze LegExtension lm ts clk a)
     = Inr (fst (LegExtensionAnalyzer_analyze lm ts clk (an_LegExtension a)))"
  "fst (analyzerAnalyze LegRaises lm ts clk a) = Inr (fst (LegRaisesAnalyzer_analyze lm ts clk (an_LegRaises a)))"
  "fst (analyzerAnalyze PushUp lm ts clk a) = Inr (fst (PushUpAnalyzer_analyze lm ts clk (an_PushUp a)))"
  "fst (analyzerAnalyze BenchPress lm ts clk a) = Inr (fst (BenchPressAnalyzer_analyze lm ts clk (an_BenchPress a)))"
  "fst (analyzerAnalyze InclineBenchPress lm ts clk a)
     = Inr (fst (InclineBenchAnalyzer_analyze lm ts clk (an_InclineBenchPress a)))"
  "fst (analyzerAnalyze ChestFlyMachine lm ts clk a)
     = Inr (fst (ChestFlyAnalyzer_analyze lm ts clk (an_ChestFlyMachine a)))"
  "fst (analyzerAnalyze TricepDips lm ts clk a) = Inr (fst (TricepDipsAnalyzer_analyze lm ts clk (an_TricepDips a)))"
  "fst (analyzerAnalyze PullUp lm ts clk a) = Inr (fst (PullUpAnalyzer_analyze lm ts clk (an_PullUp a)))"
  "fst (analyzerAnalyze LatPulldown lm ts clk a)
     = Inr (fst (LatPulldownAnalyzer_analyze lm ts clk (an_LatPulldown a)))"
  "fst (analyzerAnalyze TBarRow lm ts clk a) = Inr (fst (TBarRowAnalyzer_analyze lm ts clk (an_TBarRow a)))"
  "fst (analyzerAnalyze BarbellBicepsCurl lm ts clk a)
     = Inr (fst (BicepCurlAnalyzer_analyze lm ts clk (an_BarbellBicepsCurl a)))"
  "fst (analyzerAnalyze LateralRaises lm ts clk a)
     = Inr (fst (LateralRaiseAnalyzer_analyze lm ts clk (an_LateralRaises a)))"
  "fst (analyzerAnalyze Plank lm ts clk a) = fst (PlankAnalyzer_analyze lm ts clk (an_Plank a))"
  "fst (analyzerAnalyze RussianTwist lm ts clk a)
     = Inr (fst (RussianTwistAnalyzer_analyze lm ts clk (an_RussianTwist a)))"
  by (simp_all add: case_prod_beta Let_def)

lemma pushUpFrame_joint_angles:
  "calculateAngle (pushUpFrame h ! 11) (pushUpFrame h ! 13) (pushUpFrame h ! 15) = 180"
  "calculateAngle (pushUpFrame h ! 12) (pushUpFrame h ! 14) (pushUpFrame h ! 16) = 180"
  "calculateAngle (pushUpFrame h ! 11) (pushUpFrame h ! 23) (pushUpFrame h ! 25) = 180"
  "calculateAngle (pushUpFrame h ! 12) (pushUpFrame h ! 24) (pushUpFrame h ! 26) = 180"
  "calculateAngle (pushUpFrame h ! 8) (pushUpFrame h ! 12) (pushUpFrame h ! 24) = 180"
  by (simp_all add: calculateAngle_def atan2_def pushUpFrame_def frameOf_nth pt_def)

lemma pushUpFrame_pillars:
  "PushUpBiomechanics_analyzePillars (pushUpFrame h)
     = \<lparr> total = Some 0, stability = 100, rom = 100, posture = 100, efficiency = 100, bracing = 100 \<rparr>"
  by (simp add: PushUpBiomechanics_analyzePillars_def PushUpBiomechanics_calculateBracing_def
      base_calculatePosture_def base_calculateEfficiency_def pushUpFrame_joint_angles)

lemma pushUpFrame_score:
  "score (fst (PushUpAnalyzer_analyze (pushUpFrame h) ts clk rc)) = 100"
  "breakdown (fst (PushUpAnalyzer_analyze (pushUpFrame h) ts clk rc))
     = \<lparr> total = Some 0, stability = 100, rom = 100, posture = 100, efficiency = 100, bracing = 100 \<rparr>"
  by (simp_all add: PushUpAnalyzer_analyze_def Let_def repFeedback_def pushUpFrame_pillars
      pushUpFrame_values)

text \<open>
  The score of every analyzer, for an array of at least 33 landmarks: the weighted sum of
  the five pillar scores of the returned breakdown under the analyzer's fixed weights,
  which sum to 1. The Russian Twist analyzer has no weights and returns the score 100.
\<close>

lemma score_weighted_sum:
  assumes "33 \<le> length lm"
  shows "case fst (analyzerAnalyze X lm ts clk a) of
           Inl err \<Rightarrow> False
         | Inr fb \<Rightarrow>
             (case scoreWeights X of
                Some w \<Rightarrow> score fb = weightedSum w (breakdown fb) \<and> weightTotal w = 1
              | None \<Rightarrow> score fb = 100)"
proof (cases X)
  case Plank
  from plank_score [OF assms, of ts clk "an_Plank a"]
  obtain fb where "fst (PlankAnalyzer_analyze lm ts clk (an_Plank a)) = Inr fb"
    and "score fb = weightedSum (0.5, 0, 0.5, 0, 0) (breakdown fb)"
    by blast
  then show ?thesis unfolding Plank analyzerAnalyze_fst by simp
qed (simp_all only: analyzerAnalyze_fst sum.case scoreWeights.simps option.case
       rep_analyzers_score [OF assms] rep_analyzers_score2 [OF assms]
       squat_score [OF assms] twist_score [OF assms], simp_all)

text \<open>
  C7. The score is the weighted sum, but the \<^verbatim>\<open>total\<close> of the returned breakdown is not:
  no analyzer assigns it. On a push-up frame the Push Up analyzer returns the score 100
  and a breakdown with the pillars 100, 100, 100, 100, 100 and the \<^verbatim>\<open>total\<close> 0 its scorer
  put there; the Squat analyzer returns, on the same frame, a breakdown with no
  \<^verbatim>\<open>total\<close> at all.
\<close>

theorem breakdown_total_never_assigned:
  "length (pushUpFrame (1 / 2)) = 33
   \<and> map_sum id (\<lambda>fb. (score fb, breakdown fb))
        (fst (analyzerAnalyze PushUp (pushUpFrame (1 / 2)) (Some 0) 0 (newAnalyzers 0)))
     = Inr (100, \<lparr> total = Some 0, stability = 100, rom = 100, posture = 100,
                    efficiency = 100, bracing = 100 \<rparr>)
   \<and> map_sum id (\<lambda>fb. total (breakdown fb))
        (fst (analyzerAnalyze Squat (pushUpFrame (1 / 2)) (Some 0) 0 (newAnalyzers 0)))
     = Inr None"
  by (simp add: analyzerAnalyze_fst pushUpFrame_score pushUpFrame_values squat_score
      del: analyzerAnalyze.simps)

end
